(* ===== verification/Prelude.thy ===== *)
theory Prelude
  imports Complex_Main "HOL-Library.Word" "HOL-Library.Sublist"
begin

text \<open>
  Shared vocabulary of the development: the Python exceptions that the
  ingestion scripts raise or catch, the Python string operations the scripts
  use on file and column names (\<open>str.startswith\<close>, \<open>str.endswith\<close>, the
  \<open>in\<close> test on strings and \<open>str.replace\<close>), and the generic lemmas on them
  that the component theories share. The collection \<open>py_str_simps\<close> holds the
  evaluation rules for the string operations, so that a closed file name is
  decided by \<open>simp add: py_str_simps\<close>.
\<close>

named_theorems py_str_simps "evaluation rules of the modelled Python string operations"
named_theorems frame_simps "evaluation rules of the modelled DataFrame operations"

section \<open>Python exceptions\<close>

text \<open>
  The exceptions that can escape or be caught in \<open>src/process_jsonl.py\<close>,
  \<open>src/jsonl_postgres.py\<close> and \<open>src/export_bigquery.py\<close>. The payload names the
  offending key, value or operation; messages are not modelled.
\<close>

datatype exn =
    KeyError string
  | ValueError string
  | TypeError string
  | NameError string
  | UnboundLocalError string
  | OSError string
  | DatabaseError string
  | GoogleAPIError string

type_synonym 'a exc = "exn + 'a"

section \<open>Python string operations\<close>

definition py_startswith :: "string \<Rightarrow> string \<Rightarrow> bool" where
  "py_startswith s p \<longleftrightarrow> take (length p) s = p"

definition py_endswith :: "string \<Rightarrow> string \<Rightarrow> bool" where
  "py_endswith s p \<longleftrightarrow> drop (length s - length p) s = p"

text \<open>Python's \<open>p in s\<close> on strings: \<open>p\<close> occurs contiguously in \<open>s\<close>.\<close>

fun py_contains :: "string \<Rightarrow> string \<Rightarrow> bool" where
  "py_contains p [] \<longleftrightarrow> p = []"
| "py_contains p (c # cs) \<longleftrightarrow> take (length p) (c # cs) = p \<or> py_contains p cs"

text \<open>
  Python's \<open>s.replace(old, new)\<close>: every non-overlapping occurrence of \<open>old\<close>,
  scanned from the left, is replaced by \<open>new\<close>; an empty \<open>old\<close> inserts \<open>new\<close>
  before every character and at the end.
\<close>

function py_replace :: "string \<Rightarrow> string \<Rightarrow> string \<Rightarrow> string" where
  "py_replace [] new s = new @ concat (map (\<lambda>c. c # new) s)"
| "py_replace (x # xs) new [] = []"
| "py_replace (x # xs) new (c # cs) =
     (if take (length (x # xs)) (c # cs) = x # xs
      then new @ py_replace (x # xs) new (drop (length (x # xs)) (c # cs))
      else c # py_replace (x # xs) new cs)"
  by pat_completeness auto
termination
  by (relation "measure (\<lambda>(old, new, s). length s)") auto

declare py_startswith_def [py_str_simps] py_endswith_def [py_str_simps]
  py_contains.simps [py_str_simps] py_replace.simps [py_str_simps]

section \<open>Mapping a fallible operation over a list\<close>

text \<open>
  A column operation of pandas that raises on one element raises for the whole
  column: \<open>map_exc\<close> applies a fallible function to every element and stops at
  the first exception.
\<close>

fun map_exc :: "('a \<Rightarrow> 'b exc) \<Rightarrow> 'a list \<Rightarrow> 'b list exc" where
  "map_exc f [] = Inr []"
| "map_exc f (x # xs) =
     (case f x of
        Inl e \<Rightarrow> Inl e
      | Inr y \<Rightarrow> (case map_exc f xs of Inl e \<Rightarrow> Inl e | Inr ys \<Rightarrow> Inr (y # ys)))"

section \<open>Python list operations and truth values\<close>

text \<open>\<open>xs.remove(x)\<close>: drop the first occurrence, or raise \<open>ValueError\<close>.\<close>

definition py_list_remove :: "'a \<Rightarrow> 'a list \<Rightarrow> 'a list exc" where
  "py_list_remove x xs =
     (if x \<in> set xs then Inr (remove1 x xs)
      else Inl (ValueError ''list.remove(x): x not in list''))"

text \<open>
  The truth value of an optional command-line argument: an absent argument
  (\<open>None\<close>) and the empty string are false.
\<close>

fun py_truthy :: "string option \<Rightarrow> bool" where
  "py_truthy None = False"
| "py_truthy (Some s) = (s \<noteq> [])"

text \<open>
  \<open>s.lower()\<close> on the ASCII letters; other characters are kept. The drivers
  apply it to the \<open>--reset\<close> argument.
\<close>

definition py_lower :: "string \<Rightarrow> string" where
  "py_lower s = map (\<lambda>c. let k = (of_char c :: nat) in if 65 \<le> k \<and> k \<le> 90 then char_of (k + 32) else c) s"

section \<open>Formatting integers\<close>

text \<open>
  \<open>str(n)\<close> of a non-negative integer: its decimal digits, most significant
  first; \<open>f'{n:02d}'\<close> pads it with a zero to two digits.
\<close>

definition digit_char :: "nat \<Rightarrow> char" where
  "digit_char d = char_of (48 + d)"

fun show_nat :: "nat \<Rightarrow> string" where
  "show_nat n = (if n < 10 then [digit_char n] else show_nat (n div 10) @ [digit_char (n mod 10)])"

declare show_nat.simps [simp del]

definition fmt02d :: "nat \<Rightarrow> string" where
  "fmt02d n = (if n < 10 then CHR ''0'' # show_nat n else show_nat n)"

definition decimal_digits :: "char set" where
  "decimal_digits = set ''0123456789''"

text \<open>Reading decimal digits back, as \<open>int(s)\<close> does on a digit string.\<close>

definition parse_nat :: "string \<Rightarrow> nat" where
  "parse_nat s = foldl (\<lambda>acc c. 10 * acc + (of_char c - 48)) 0 s"

section \<open>Generic lemmas on the string operations\<close>

lemma take_eq_prefix: "take (length p) s = p \<longleftrightarrow> prefix p s"
proof
  assume "take (length p) s = p"
  then have "s = p @ drop (length p) s" by (metis append_take_drop_id)
  then show "prefix p s" by (rule prefixI)
next
  assume "prefix p s"
  then show "take (length p) s = p" by (auto simp: prefix_def)
qed

lemma py_startswith_prefix: "py_startswith s p \<longleftrightarrow> prefix p s"
  by (simp add: py_startswith_def take_eq_prefix)

lemma py_endswith_suffix: "py_endswith s p \<longleftrightarrow> suffix p s"
proof
  assume "py_endswith s p"
  then have "s = take (length s - length p) s @ p"
    by (metis append_take_drop_id py_endswith_def)
  then show "suffix p s" unfolding suffix_def by blast
next
  assume "suffix p s"
  then obtain zs where "s = zs @ p" by (auto simp: suffix_def)
  then show "py_endswith s p" by (simp add: py_endswith_def)
qed

text \<open>The recursive \<open>py_contains\<close> decides the library's contiguous sublist relation.\<close>

lemma py_contains_sublist: "py_contains p s \<longleftrightarrow> sublist p s"
  by (induction p s rule: py_contains.induct)
     (auto simp: take_eq_prefix sublist_Cons_right)

lemma py_contains_Nil [simp]: "py_contains [] s"
  by (simp add: py_contains_sublist)

lemma py_contains_self [simp]: "py_contains p p"
  by (simp add: py_contains_sublist)

text \<open>Without an occurrence, \<open>str.replace\<close> returns the string unchanged.\<close>

lemma py_replace_no_occurrence:
  "old \<noteq> [] \<Longrightarrow> \<not> py_contains old s \<Longrightarrow> py_replace old new s = s"
proof (induction old new s rule: py_replace.induct)
  case (3 x xs new c cs)
  then show ?case by (auto split: if_splits)
qed simp_all

text \<open>With an occurrence, the replacement text is part of the result.\<close>

lemma py_replace_occurrence_length:
  "old \<noteq> [] \<Longrightarrow> py_contains old s \<Longrightarrow> length new \<le> length (py_replace old new s)"
proof (induction old new s rule: py_replace.induct)
  case (3 x xs new c cs)
  then show ?case by (auto split: if_splits)
qed simp_all

lemma py_replace_empty_length: "length new \<le> length (py_replace [] new s)"
  by simp

text \<open>
  A replacement longer than the pattern can never produce the pattern itself:
  the key fact behind the renaming of the \<open>timestamp\<close> column.
\<close>

lemma py_replace_not_old:
  assumes "length old < length new"
  shows "py_replace old new s \<noteq> old"
proof
  assume eq: "py_replace old new s = old"
  show False
  proof (cases "old = []")
    case True
    with eq assms show False using py_replace_empty_length [of new s] by simp
  next
    case False
    show False
    proof (cases "py_contains old s")
      case True
      with False have "length new \<le> length (py_replace old new s)"
        by (rule py_replace_occurrence_length)
      with eq assms show False by simp
    next
      case nc: False
      with False have "py_replace old new s = s" by (rule py_replace_no_occurrence)
      with eq nc show False by simp
    qed
  qed
qed

section \<open>Lemmas on the fallible map\<close>

lemma map_exc_length: "map_exc f xs = Inr ys \<Longrightarrow> length ys = length xs"
  by (induction xs arbitrary: ys) (auto split: sum.splits)

lemma map_exc_Inr_iff:
  "map_exc f xs = Inr ys \<longleftrightarrow> list_all2 (\<lambda>x y. f x = Inr y) xs ys"
proof (induction xs arbitrary: ys)
  case Nil
  then show ?case by auto
next
  case (Cons x xs)
  then show ?case by (cases ys) (auto split: sum.splits simp flip: Cons.IH)
qed

lemma map_exc_map:
  "(\<And>x. x \<in> set xs \<Longrightarrow> f x = Inr (g x)) \<Longrightarrow> map_exc f xs = Inr (map g xs)"
  by (induction xs) auto

lemma map_exc_Inl:
  "x \<in> set xs \<Longrightarrow> f x = Inl e \<Longrightarrow> \<exists>e'. map_exc f xs = Inl e'"
  by (induction xs) (auto split: sum.splits)

lemma map_exc_mem:
  assumes "map_exc f xs = Inr ys" and "x \<in> set xs" and "f x = Inr y"
  shows "y \<in> set ys"
proof -
  from assms(1) have rel: "list_all2 (\<lambda>x y. f x = Inr y) xs ys" by (simp add: map_exc_Inr_iff)
  from assms(2) obtain i where i: "i < length xs" "xs ! i = x" by (auto simp: in_set_conv_nth)
  with rel have "f x = Inr (ys ! i)" and len: "i < length ys" by (auto simp: list_all2_conv_all_nth)
  with assms(3) have "ys ! i = y" by simp
  with len show ?thesis by (auto simp: in_set_conv_nth)
qed

section \<open>Lemmas on integer formatting\<close>

lemma of_char_digit_char: "d < 10 \<Longrightarrow> of_char (digit_char d) = 48 + d"
  by (simp add: digit_char_def)

lemma parse_nat_snoc: "parse_nat (s @ [c]) = 10 * parse_nat s + (of_char c - 48)"
  by (simp add: parse_nat_def)

lemma parse_nat_zero_Cons: "parse_nat (CHR ''0'' # s) = parse_nat s"
  by (simp add: parse_nat_def)

lemma show_nat_Nil [simp]: "show_nat n \<noteq> []"
  by (subst show_nat.simps) simp

lemma parse_show_nat: "parse_nat (show_nat n) = n"
proof (induction n rule: show_nat.induct)
  case (1 n)
  show ?case
  proof (cases "n < 10")
    case True
    then show ?thesis
      by (subst show_nat.simps) (simp add: parse_nat_def of_char_digit_char)
  next
    case False
    with "1.IH" have "parse_nat (show_nat n) = 10 * (n div 10) + n mod 10"
      by (subst show_nat.simps) (simp add: parse_nat_snoc of_char_digit_char)
    then show ?thesis by simp
  qed
qed

lemma parse_fmt02d: "parse_nat (fmt02d n) = n"
  by (simp add: fmt02d_def parse_nat_zero_Cons parse_show_nat)

lemma fmt02d_inj: "fmt02d m = fmt02d n \<longleftrightarrow> m = n"
  by (metis parse_fmt02d)

lemma digit_char_digit: "d < 10 \<Longrightarrow> digit_char d \<in> decimal_digits"
proof -
  assume "d < 10"
  then have "d \<in> set [0..<10]" by simp
  moreover have "\<forall>d \<in> set [0..<10]. digit_char d \<in> decimal_digits"
    unfolding decimal_digits_def by code_simp
  ultimately show ?thesis by blast
qed

lemma show_nat_digits: "set (show_nat n) \<subseteq> decimal_digits"
proof (induction n rule: show_nat.induct)
  case (1 n)
  show ?case
  proof (cases "n < 10")
    case True
    then show ?thesis by (subst show_nat.simps) (simp add: digit_char_digit)
  next
    case False
    with "1.IH" show ?thesis by (subst show_nat.simps) (simp add: digit_char_digit)
  qed
qed

lemma length_show_nat: "10 \<le> n \<Longrightarrow> 2 \<le> length (show_nat n)"
proof -
  assume "10 \<le> n"
  then have "show_nat n = show_nat (n div 10) @ [digit_char (n mod 10)]" by (subst show_nat.simps) simp
  moreover have "show_nat (n div 10) \<noteq> []" by simp
  ultimately show ?thesis by (cases "show_nat (n div 10)") simp_all
qed

section \<open>32-bit words\<close>

text \<open>Reading a 32-bit cast of an integer as two's complement: the wrap-around written out.\<close>

lemma sint_word_of_int_32_in_range:
  "- (2 ^ 31) \<le> i \<Longrightarrow> i < 2 ^ 31 \<Longrightarrow> sint (word_of_int i :: 32 word) = i"
  by (simp add: sint_sbintrunc' signed_take_bit_int_eq_self)

lemma list_all2_set2:
  assumes "list_all2 P xs ys" and "y \<in> set ys"
  shows "\<exists>x \<in> set xs. P x y"
proof -
  from assms(2) obtain i where i: "i < length ys" "ys ! i = y" by (auto simp: in_set_conv_nth)
  with assms(1) have "P (xs ! i) y" "i < length xs" by (auto simp: list_all2_conv_all_nth)
  then show ?thesis using nth_mem by blast
qed

text \<open>Flattening keeps a row-by-row relation.\<close>

end
