(* ===== verification/Frame.thy ===== *)
theory Frame
  imports Prelude
begin

text \<open>
  The record batch: the pandas DataFrame that \<open>pd.read_json(..., chunksize=...)\<close>
  yields for each chunk, and the handful of pandas operations the ingestion
  scripts apply to it (column read \<open>df[c]\<close>, column write \<open>df[c] = ...\<close>, masked
  assignment \<open>df.loc[mask, c] = v\<close>, projection \<open>df[cols]\<close>, \<open>df.head(n)\<close> and the
  renaming of \<open>df.columns\<close>). A frame is columnar, as pandas is: a row count and
  an ordered list of named columns. The well-formedness invariant \<open>wf_frame\<close>
  says that column names are distinct and every column has one value per row;
  each operation is shown to keep it, to keep the row count and the column
  order, and to read back what it wrote.
\<close>

section \<open>Cell values\<close>

text \<open>
  A cell holds a decoded JSON value after the dtype conversion of
  \<open>read_json\<close>: \<open>VNull\<close> is a missing value (None, NaN, NaT); \<open>VInt\<close> a JSON
  integer of an \<open>int64\<close> column; \<open>VFloat\<close> a \<open>float64\<close> value, a JSON number
  with a fraction or an integer of a numeric column that also holds nulls; \<open>VI32\<close> a value of an \<open>int32\<close> column, kept at
  its width; \<open>VTime\<close> a \<open>datetime64\<close> value in the given unit; \<open>VObj\<close> a nested
  JSON list or object, which the scripts never inspect.
\<close>

datatype tunit = Ns | Sec

datatype cell =
    VNull
  | VStr string
  | VInt int
  | VFloat rat
  | VI32 "32 word"
  | VBool bool
  | VTime tunit int
  | VObj

fun is_null :: "cell \<Rightarrow> bool" where
  "is_null VNull = True"
| "is_null _ = False"

section \<open>Frames\<close>

record frame =
  nrows :: nat
  cols :: "(string \<times> cell list) list"

definition columns :: "frame \<Rightarrow> string list" where
  "columns df = map fst (cols df)"

definition wf_frame :: "frame \<Rightarrow> bool" where
  "wf_frame df \<longleftrightarrow>
     distinct (columns df) \<and> list_all (\<lambda>(c, vs). length vs = nrows df) (cols df)"

text \<open>\<open>df[c]\<close>: the column's values, or \<open>KeyError\<close>.\<close>

definition get_col :: "frame \<Rightarrow> string \<Rightarrow> cell list exc" where
  "get_col df c = (case map_of (cols df) c of None \<Rightarrow> Inl (KeyError c) | Some vs \<Rightarrow> Inr vs)"

text \<open>\<open>df[c] = vs\<close>: overwrite an existing column in place, or append a new one.\<close>

definition set_col :: "frame \<Rightarrow> string \<Rightarrow> cell list \<Rightarrow> frame" where
  "set_col df c vs =
     (if c \<in> set (columns df)
      then df\<lparr>cols := map (\<lambda>(d, ws). if d = c then (d, vs) else (d, ws)) (cols df)\<rparr>
      else df\<lparr>cols := cols df @ [(c, vs)]\<rparr>)"

text \<open>
  \<open>df.loc[p(df[c]), c] = v\<close>: every cell of column \<open>c\<close> that satisfies \<open>p\<close> is
  overwritten with \<open>v\<close>; computing the mask raises \<open>KeyError\<close> on a missing column.
\<close>

definition loc_set :: "frame \<Rightarrow> string \<Rightarrow> (cell \<Rightarrow> bool) \<Rightarrow> cell \<Rightarrow> frame exc" where
  "loc_set df c p v =
     (case get_col df c of
        Inl e \<Rightarrow> Inl e
      | Inr vs \<Rightarrow> Inr (set_col df c (map (\<lambda>x. if p x then v else x) vs)))"

text \<open>\<open>df[df[c] ...].shape[0]\<close>: the number of rows whose cell satisfies \<open>p\<close>.\<close>

definition count_where :: "(cell \<Rightarrow> bool) \<Rightarrow> cell list \<Rightarrow> nat" where
  "count_where p vs = length (filter p vs)"

text \<open>\<open>df[cols]\<close>: the listed columns in the listed order, or \<open>KeyError\<close>.\<close>

fun select_aux :: "(string \<times> cell list) list \<Rightarrow> string list \<Rightarrow> (string \<times> cell list) list exc" where
  "select_aux cs [] = Inr []"
| "select_aux cs (c # rest) =
     (case map_of cs c of
        None \<Rightarrow> Inl (KeyError c)
      | Some vs \<Rightarrow> (case select_aux cs rest of Inl e \<Rightarrow> Inl e | Inr r \<Rightarrow> Inr ((c, vs) # r)))"

definition select :: "frame \<Rightarrow> string list \<Rightarrow> frame exc" where
  "select df cs =
     (case select_aux (cols df) cs of
        Inl e \<Rightarrow> Inl e
      | Inr r \<Rightarrow> Inr \<lparr>nrows = nrows df, cols = r\<rparr>)"

definition head :: "nat \<Rightarrow> frame \<Rightarrow> frame" where
  "head n df = \<lparr>nrows = min n (nrows df), cols = map (\<lambda>(c, vs). (c, take n vs)) (cols df)\<rparr>"

text \<open>\<open>df.columns = df.columns.str.replace(old, new)\<close>.\<close>

definition rename_columns :: "string \<Rightarrow> string \<Rightarrow> frame \<Rightarrow> frame" where
  "rename_columns old new df = df\<lparr>cols := map (\<lambda>(c, vs). (py_replace old new c, vs)) (cols df)\<rparr>"

text \<open>The rows of a frame, as the records a sink writes.\<close>

definition frame_rows :: "frame \<Rightarrow> (string \<times> cell) list list" where
  "frame_rows df = map (\<lambda>i. map (\<lambda>(c, vs). (c, vs ! i)) (cols df)) [0..<nrows df]"

declare get_col_def [frame_simps] set_col_def [frame_simps] loc_set_def [frame_simps]
  select_def [frame_simps] head_def [frame_simps] columns_def [frame_simps]
  count_where_def [frame_simps] rename_columns_def [frame_simps]

section \<open>Column access\<close>

lemma get_col_Inr_iff: "get_col df c = Inr vs \<longleftrightarrow> map_of (cols df) c = Some vs"
  by (auto simp: get_col_def split: option.splits)

lemma get_col_Inl_iff: "(\<exists>e. get_col df c = Inl e) \<longleftrightarrow> c \<notin> set (columns df)"
  by (simp add: get_col_def columns_def map_of_eq_None_iff [symmetric] split: option.splits)

lemma get_col_length:
  "wf_frame df \<Longrightarrow> get_col df c = Inr vs \<Longrightarrow> length vs = nrows df"
  by (auto simp: get_col_Inr_iff wf_frame_def list_all_iff dest!: map_of_SomeD)

lemma columns_set_col_present:
  "c \<in> set (columns df) \<Longrightarrow> columns (set_col df c vs) = columns df"
  by (simp add: set_col_def columns_def comp_def case_prod_beta if_distrib cong: map_cong)

lemma nrows_set_col [simp]: "nrows (set_col df c vs) = nrows df"
  by (simp add: set_col_def)

text \<open>Overwriting the column named \<open>c\<close> in an association list of columns.\<close>

lemma map_of_overwrite_same:
  "map_of (map (\<lambda>(d, ws). if d = c then (d, vs) else (d, ws)) xs) c =
     (if c \<in> fst ` set xs then Some vs else None)"
  by (induction xs) auto

lemma map_of_overwrite_other:
  "d \<noteq> c \<Longrightarrow>
   map_of (map (\<lambda>(d', ws). if d' = c then (d', vs) else (d', ws)) xs) d = map_of xs d"
  by (induction xs) auto

lemma get_col_set_col_same:
  "c \<in> set (columns df) \<Longrightarrow> get_col (set_col df c vs) c = Inr vs"
  by (simp add: get_col_def set_col_def map_of_overwrite_same columns_def)

lemma get_col_set_col_other:
  "d \<noteq> c \<Longrightarrow> c \<in> set (columns df) \<Longrightarrow> get_col (set_col df c vs) d = get_col df d"
  by (simp add: get_col_def set_col_def map_of_overwrite_other)

lemma wf_set_col:
  assumes "wf_frame df" and "c \<in> set (columns df)" and "length vs = nrows df"
  shows "wf_frame (set_col df c vs)"
proof -
  have "columns (set_col df c vs) = columns df"
    using assms(2) by (rule columns_set_col_present)
  moreover have "list_all (\<lambda>(d, ws). length ws = nrows df) (cols (set_col df c vs))"
    using assms by (fastforce simp: wf_frame_def list_all_iff set_col_def split: if_splits)
  ultimately show ?thesis using assms(1) by (simp add: wf_frame_def)
qed

lemma get_col_Inr_columns: "get_col df c = Inr vs \<Longrightarrow> c \<in> set (columns df)"
  using get_col_Inl_iff [of df c] by (auto simp: get_col_def split: option.splits)

section \<open>Masked assignment\<close>

lemma loc_set_present:
  "get_col df c = Inr vs \<Longrightarrow>
   loc_set df c p v = Inr (set_col df c (map (\<lambda>x. if p x then v else x) vs))"
  by (simp add: loc_set_def)

lemma loc_set_missing: "c \<notin> set (columns df) \<Longrightarrow> loc_set df c p v = Inl (KeyError c)"
  by (simp add: loc_set_def get_col_def columns_def map_of_eq_None_iff [symmetric])

lemma loc_set_Inr_E:
  assumes "loc_set df c p v = Inr df'"
  obtains vs where "get_col df c = Inr vs"
    and "df' = set_col df c (map (\<lambda>x. if p x then v else x) vs)"
  using assms by (auto simp: loc_set_def split: sum.splits)

lemma loc_set_shape:
  "loc_set df c p v = Inr df' \<Longrightarrow> columns df' = columns df \<and> nrows df' = nrows df"
  by (elim loc_set_Inr_E) (simp add: columns_set_col_present get_col_Inr_columns)

lemma wf_loc_set: "wf_frame df \<Longrightarrow> loc_set df c p v = Inr df' \<Longrightarrow> wf_frame df'"
  by (elim loc_set_Inr_E) (simp add: wf_set_col get_col_Inr_columns get_col_length)

lemma get_col_loc_set_same:
  "loc_set df c p v = Inr df' \<Longrightarrow> get_col df c = Inr vs \<Longrightarrow>
   get_col df' c = Inr (map (\<lambda>x. if p x then v else x) vs)"
  by (elim loc_set_Inr_E) (simp add: get_col_set_col_same get_col_Inr_columns)

lemma get_col_loc_set_other:
  "loc_set df c p v = Inr df' \<Longrightarrow> d \<noteq> c \<Longrightarrow> get_col df' d = get_col df d"
  by (elim loc_set_Inr_E) (simp add: get_col_set_col_other get_col_Inr_columns)

section \<open>Projection\<close>

lemma select_aux_map:
  "set xs \<subseteq> fst ` set cs \<Longrightarrow>
   select_aux cs xs = Inr (map (\<lambda>c. (c, the (map_of cs c))) xs)"
proof (induction xs)
  case Nil
  then show ?case by simp
next
  case (Cons c xs)
  then obtain vs where "map_of cs c = Some vs"
    by (metis insert_subset list.simps(15) map_of_eq_None_iff not_Some_eq)
  with Cons show ?case by simp
qed

lemma select_aux_missing:
  "c \<in> set xs \<Longrightarrow> c \<notin> fst ` set cs \<Longrightarrow> \<exists>e. select_aux cs xs = Inl e"
  by (induction xs) (auto simp: map_of_eq_None_iff [symmetric] split: option.splits sum.splits)

lemma map_of_map_the:
  "c \<in> set xs \<Longrightarrow> map_of (map (\<lambda>k. (k, f k)) xs) c = Some (f c)"
  by (induction xs) auto

lemma select_ok:
  "set cs \<subseteq> set (columns df) \<Longrightarrow>
   select df cs = Inr \<lparr>nrows = nrows df, cols = map (\<lambda>c. (c, the (map_of (cols df) c))) cs\<rparr>"
  by (simp add: select_def select_aux_map columns_def)

lemma select_missing:
  "c \<in> set cs \<Longrightarrow> c \<notin> set (columns df) \<Longrightarrow> \<exists>e. select df cs = Inl e"
  using select_aux_missing [of c cs "cols df"]
  by (auto simp: select_def columns_def split: sum.splits)

lemma select_Inr_iff:
  "(\<exists>r. select df cs = Inr r) \<longleftrightarrow> set cs \<subseteq> set (columns df)"
  using select_ok [of cs df] select_missing [of _ cs df] by (metis Inl_Inr_False subsetI)

lemma select_Inr_E:
  assumes "select df cs = Inr r"
  obtains "set cs \<subseteq> set (columns df)"
    and "r = \<lparr>nrows = nrows df, cols = map (\<lambda>c. (c, the (map_of (cols df) c))) cs\<rparr>"
proof -
  from assms have "set cs \<subseteq> set (columns df)" using select_Inr_iff by blast
  with assms show thesis using that select_ok [of cs df] by simp
qed

lemma select_shape:
  "select df cs = Inr r \<Longrightarrow> columns r = cs \<and> nrows r = nrows df"
  by (elim select_Inr_E) (simp add: columns_def comp_def)

lemma get_col_select:
  assumes "select df cs = Inr r" and "c \<in> set cs"
  shows "get_col r c = get_col df c"
  using assms(1)
proof (rule select_Inr_E)
  assume sub: "set cs \<subseteq> set (columns df)"
    and r: "r = \<lparr>nrows = nrows df, cols = map (\<lambda>c. (c, the (map_of (cols df) c))) cs\<rparr>"
  from sub assms(2) obtain vs where "map_of (cols df) c = Some vs"
    by (metis columns_def list.set_map map_of_eq_None_iff not_Some_eq subsetD)
  with r assms(2) show ?thesis by (simp add: get_col_def map_of_map_the)
qed

lemma wf_select:
  assumes "wf_frame df" and "distinct cs" and "select df cs = Inr r"
  shows "wf_frame r"
proof -
  from assms(3) have shape: "columns r = cs \<and> nrows r = nrows df" by (rule select_shape)
  have "list_all (\<lambda>(c, vs). length vs = nrows r) (cols r)"
  proof (unfold list_all_iff, intro ballI, clarify)
    fix c vs assume "(c, vs) \<in> set (cols r)"
    with assms(3) shape have "c \<in> set cs" and "get_col r c = Inr vs"
      by (auto elim!: select_Inr_E simp: get_col_def map_of_map_the columns_def
          dest!: map_of_SomeD)
    with assms(1,3) shape show "length vs = nrows r"
      by (simp add: get_col_select get_col_length)
  qed
  with assms(2) shape show ?thesis by (simp add: wf_frame_def)
qed

section \<open>Renaming columns\<close>

lemma columns_rename [simp]:
  "columns (rename_columns old new df) = map (py_replace old new) (columns df)"
  by (simp add: rename_columns_def columns_def comp_def case_prod_beta)

lemma nrows_rename [simp]: "nrows (rename_columns old new df) = nrows df"
  by (simp add: rename_columns_def)

lemma get_col_rename:
  assumes "distinct (columns (rename_columns old new df))" and "get_col df c = Inr vs"
  shows "get_col (rename_columns old new df) (py_replace old new c) = Inr vs"
proof -
  from assms(2) have "(c, vs) \<in> set (cols df)" by (simp add: get_col_Inr_iff map_of_SomeD)
  then have "(py_replace old new c, vs) \<in> set (cols (rename_columns old new df))"
    by (force simp: rename_columns_def)
  moreover have "distinct (map fst (cols (rename_columns old new df)))"
    using assms(1) by (simp add: columns_def)
  ultimately show ?thesis by (simp add: get_col_Inr_iff map_of_is_SomeI)
qed

lemma wf_rename:
  "wf_frame df \<Longrightarrow> distinct (columns (rename_columns old new df)) \<Longrightarrow>
   wf_frame (rename_columns old new df)"
  by (auto simp: wf_frame_def rename_columns_def list_all_iff)

section \<open>Heads of frames\<close>

lemma wf_head: "wf_frame df \<Longrightarrow> wf_frame (head n df)"
  by (auto simp: wf_frame_def head_def columns_def comp_def case_prod_beta list_all_iff)

lemma columns_head [simp]: "columns (head n df) = columns df"
  by (simp add: head_def columns_def comp_def case_prod_beta)

end
