(* ===== verification/Registry.thy ===== *)
theory Registry
  imports Frame
begin

text \<open>
  The rule registry and the input checks: the processing modes and defaults of
  \<open>src/process_jsonl.py\<close> (lines 13--22), \<open>check_file_name\<close> and
  \<open>check_params\<close>, and the static per-table profile: the categorical remap rules
  (\<open>get_category_transformation\<close>), the selected output columns
  (\<open>get_selected_columns\<close>, \<open>get_extra_detail_columns\<close> and the computation of
  \<open>final_columns\<close> in \<open>main\<close>) and the declared source dtypes (\<open>get_dtypes\<close>).
  The older script \<open>src/jsonl_postgres.py\<close> has its own copies of these
  functions, which differ (it knows no \<open>books\<close> table); they carry the suffix
  \<open>_pg\<close>. The lemmas say exactly which inputs the checks accept, that the empty
  string the driver tests for never names an accepted file, and what the
  profile of each table is; one of them shows that the profile of the
  \<open>books\<close> table can never be built.
\<close>

section \<open>Modes and defaults\<close>

definition PARQUET :: string where "PARQUET = ''parquet''"
definition POSTGRES :: string where "POSTGRES = ''postgres''"
definition SAMPLE :: string where "SAMPLE = ''sample''"
definition SAMPLE_SIZE :: nat where "SAMPLE_SIZE = 100"
definition CHUNKSIZE :: nat where "CHUNKSIZE = 50000"

text \<open>The command-line arguments of \<open>process_jsonl.py\<close>; absent options are \<open>None\<close>.\<close>

record params =
  p_source :: string
  p_table_name :: string
  p_mode :: string
  p_host :: "string option"
  p_port :: "string option"
  p_db :: "string option"
  p_user :: "string option"
  p_password :: "string option"
  p_reset :: "string option"
  p_chunksize :: int

section \<open>Input checks\<close>

text \<open>\<open>Path(source).name\<close>: the part of the path after its last slash.\<close>

definition path_name :: "string \<Rightarrow> string" where
  "path_name s = rev (takeWhile (\<lambda>c. c \<noteq> CHR ''/'') (rev s))"

definition check_file_name :: "string \<Rightarrow> string \<Rightarrow> string" where
  "check_file_name source table_name =
     (if \<not> py_endswith source ''.jsonl'' \<and> \<not> py_endswith source ''.jsonl.gz'' then ''''
      else if table_name \<notin> set [''meta'', ''books'', ''reviews''] then ''''
      else let file_name = path_name source in
        if py_startswith file_name ''meta_'' \<and> table_name \<notin> set [''meta'', ''books''] then ''''
        else if \<not> py_startswith file_name ''meta_'' \<and> table_name \<in> set [''meta'', ''books''] then ''''
        else file_name)"

definition check_params :: "string \<Rightarrow> params \<Rightarrow> bool" where
  "check_params mode ps \<longleftrightarrow>
     \<not> (mode = POSTGRES \<and>
        \<not> (py_truthy (p_host ps) \<and> py_truthy (p_port ps) \<and> py_truthy (p_db ps) \<and>
           py_truthy (p_user ps) \<and> py_truthy (p_password ps)))"

section \<open>Table profiles\<close>

text \<open>
  A remap rule table is the Python dict \<open>{canonical: [variants]}\<close>, kept as an
  association list in the dict's insertion order.
\<close>

type_synonym rules = "(string \<times> string list) list"

definition get_category_transformation :: "string \<Rightarrow> string \<Rightarrow> rules exc" where
  "get_category_transformation table_name file_name =
     (if table_name = ''meta'' then
        (if py_contains ''Software'' file_name then
           Inr [(''Software'', [''AMAZON FASHION'', ''Books'', ''Computers'', ''Gift Cards'',
                  ''Home Audio & Theater'', ''Toys & Games'', ''None''])]
         else if py_contains ''Magazine_Subscriptions'' file_name then
           Inr [(''Magazine Subscriptions'', [''Books'', ''None''])]
         else if py_contains ''Video_Games'' file_name then
           Inr [(''Video Games'', [''Amazon Devices'', ''Appliances'', ''Audible Audiobooks'',
                  ''Baby'', ''Car Electronics'', ''Collectible Coins'', ''Gift Cards'',
                  ''GPS & Navigation'', ''Grocery'', ''Handmade'', '''', ''None''])]
         else Inr [])
      else if table_name = ''books'' then
        (if py_contains ''Kindle_Store'' file_name then
           Inr [(''Kindle Store'', [''Buy a Kindle'', ''Software'', ''Magazine Subscriptions'',
                  '''', ''None''])]
         else Inl (UnboundLocalError ''category_transformation''))
      else Inr [])"

definition get_selected_columns :: "string \<Rightarrow> string list" where
  "get_selected_columns table_name =
     (if table_name = ''meta'' then
        [''parent_asin'', ''title'', ''main_category'', ''average_rating'', ''rating_number'']
      else if table_name = ''books'' then
        [''parent_asin'', ''title'', ''main_category'', ''average_rating'', ''rating_number'']
      else
        [''parent_asin'', ''verified_purchase'', ''rating'', ''helpful_vote'', ''user_id'',
         ''review_date''])"

text \<open>The (empty) dict of extra columns to extract from \<open>details\<close>.\<close>

definition get_extra_detail_columns :: "string \<Rightarrow> string \<Rightarrow> (string \<times> string) list" where
  "get_extra_detail_columns table_name file_name = []"

text \<open>\<open>final_columns\<close> of \<open>main\<close>: the selected columns, then the extra columns'
  output names, without \<open>details\<close> for the \<open>books\<close> table.\<close>

definition final_columns :: "string \<Rightarrow> string \<Rightarrow> string list exc" where
  "final_columns table_name file_name =
     (let fc = get_selected_columns table_name @ map snd (get_extra_detail_columns table_name file_name)
      in if table_name = ''books'' then py_list_remove ''details'' fc else Inr fc)"

text \<open>The dtypes passed to \<open>read_json\<close>.\<close>

datatype dtype = DStr | DFloat32 | DInt32 | DObject | DFloat | DDict | DCategory | DDatetimeNs | DBool

definition get_dtypes :: "string \<Rightarrow> (string \<times> dtype) list" where
  "get_dtypes table_name =
     (if table_name \<in> set [''meta'', ''books''] then
        [(''main_category'', DStr), (''title'', DStr), (''average_rating'', DFloat32),
         (''rating_number'', DInt32), (''features'', DObject), (''description'', DObject),
         (''price'', DFloat), (''images'', DObject), (''videos'', DObject), (''store'', DStr),
         (''categories'', DObject), (''details'', DDict), (''parent_asin'', DCategory),
         (''bought_together'', DObject)]
      else
        [(''rating'', DFloat32), (''title'', DStr), (''text'', DStr), (''images'', DObject),
         (''asin'', DStr), (''parent_asin'', DCategory), (''user_id'', DCategory),
         (''timestamp'', DDatetimeNs), (''verified_purchase'', DBool), (''helpful_vote'', DInt32)])"

section \<open>The copies in \<open>jsonl_postgres.py\<close>\<close>

definition check_file_name_pg :: "string \<Rightarrow> string \<Rightarrow> string" where
  "check_file_name_pg source table_name =
     (if \<not> py_endswith source ''.jsonl'' \<and> \<not> py_endswith source ''.jsonl.gz'' then ''''
      else if table_name \<notin> set [''meta'', ''reviews''] then ''''
      else let file_name = path_name source in
        if py_startswith file_name ''meta_'' \<and> table_name \<noteq> ''meta'' then ''''
        else if \<not> py_startswith file_name ''meta_'' \<and> table_name = ''meta'' then ''''
        else file_name)"

definition get_category_transformation_pg :: "string \<Rightarrow> string \<Rightarrow> rules" where
  "get_category_transformation_pg table_name file_name =
     (if table_name = ''meta'' then
        (if py_contains ''Software'' file_name then
           [(''Software'', [''AMAZON FASHION'', ''Books'', ''Computers'', ''Gift Cards'',
              ''Home Audio & Theater'', ''Toys & Games'', ''None''])]
         else if py_contains ''Magazine_Subscriptions'' file_name then
           [(''Magazine Subscriptions'', [''Books'', ''None''])]
         else if py_contains ''Video_Games'' file_name then
           [(''Video Games'', [''Amazon Devices'', ''Appliances'', ''Audible Audiobooks'',
              ''Baby'', ''Car Electronics'', ''Collectible Coins'', ''Gift Cards'',
              ''GPS & Navigation'', ''Grocery'', ''Handmade'', '''', ''None''])]
         else [])
      else [])"

definition get_selected_columns_pg :: "string \<Rightarrow> string list" where
  "get_selected_columns_pg table_name =
     (if table_name = ''meta'' then
        [''parent_asin'', ''title'', ''main_category'', ''average_rating'', ''rating_number'']
      else
        [''parent_asin'', ''verified_purchase'', ''rating'', ''helpful_vote'', ''user_id'',
         ''review_date''])"

definition get_dtypes_pg :: "string \<Rightarrow> (string \<times> dtype) list" where
  "get_dtypes_pg table_name =
     (if table_name = ''meta'' then get_dtypes ''meta'' else get_dtypes ''reviews'')"

section \<open>Lemmas on the input checks\<close>

lemma path_name_suffix:
  assumes "py_endswith s p" and "CHR ''/'' \<notin> set p"
  shows "py_endswith (path_name s) p"
proof -
  from assms(1) obtain zs where s: "s = zs @ p" by (auto simp: py_endswith_suffix suffix_def)
  have "takeWhile (\<lambda>c. c \<noteq> CHR ''/'') (rev p @ rev zs) =
        rev p @ takeWhile (\<lambda>c. c \<noteq> CHR ''/'') (rev zs)"
    using assms(2) by (subst takeWhile_append2) auto
  then have "path_name s = rev (takeWhile (\<lambda>c. c \<noteq> CHR ''/'') (rev zs)) @ p"
    by (simp add: path_name_def s)
  then show ?thesis by (simp add: py_endswith_suffix suffix_def)
qed

lemma path_name_jsonl_nonempty:
  assumes "py_endswith s ''.jsonl'' \<or> py_endswith s ''.jsonl.gz''"
  shows "path_name s \<noteq> []"
proof -
  from assms obtain p where "py_endswith s p" and "CHR ''/'' \<notin> set p" and "p \<noteq> []"
    by auto
  then have "suffix p (path_name s)" by (simp add: path_name_suffix py_endswith_suffix [symmetric])
  with \<open>p \<noteq> []\<close> show ?thesis by (auto simp: suffix_def)
qed

lemmas check_file_name_unfold = check_file_name_def check_file_name_pg_def Let_def

lemma check_file_name_result:
  "check_file_name source table_name \<noteq> [] \<Longrightarrow> check_file_name source table_name = path_name source"
  by (auto simp: check_file_name_unfold split: if_split_asm)

section \<open>Lemmas on the table profiles\<close>

lemma final_columns_Inr:
  "final_columns table_name file_name = Inr cs \<Longrightarrow>
   cs = get_selected_columns table_name \<and> table_name \<noteq> ''books''"
  by (auto simp: final_columns_def get_extra_detail_columns_def py_list_remove_def
      get_selected_columns_def split: if_splits)

lemma distinct_get_selected_columns: "distinct (get_selected_columns table_name)"
  by (simp add: get_selected_columns_def)

section \<open>Properties of the registry\<close>

text \<open>
  C6. \<open>check_file_name\<close> accepts exactly the valid inputs: a source ending in
  \<open>.jsonl\<close> or \<open>.jsonl.gz\<close>, a known table name, and a file name that starts
  with \<open>meta_\<close> exactly when the table is a product table. The empty string,
  which \<open>main\<close> tests for, is returned for every other input and never names
  an accepted file.
\<close>

theorem check_file_name_accepts:
  "check_file_name source table_name \<noteq> [] \<longleftrightarrow>
     (py_endswith source ''.jsonl'' \<or> py_endswith source ''.jsonl.gz'') \<and>
     table_name \<in> {''meta'', ''books'', ''reviews''} \<and>
     (py_startswith (path_name source) ''meta_'' \<longleftrightarrow> table_name \<in> {''meta'', ''books''})"
  using path_name_jsonl_nonempty [of source] by (auto simp: check_file_name_unfold)

text \<open>The \<open>books\<close> profile removes \<open>details\<close> from a list without it.\<close>

lemma final_columns_books_fails:
  "final_columns ''books'' file_name = Inl (ValueError ''list.remove(x): x not in list'')"
  by (simp add: final_columns_def get_selected_columns_def get_extra_detail_columns_def
      py_list_remove_def)

end
