(* ===== verification/Transform.thy ===== *)
theory Transform
  imports Registry
begin

text \<open>
  The record transformer: the per-chunk cleanup of \<open>src/process_jsonl.py\<close>
  (\<open>preprocess_meta\<close>, \<open>transform_meta\<close>, \<open>extract_kindle_meta\<close>, the renaming of
  \<open>timestamp\<close> for reviews and its conversion to seconds) and of
  \<open>src/jsonl_postgres.py\<close> (the same functions, applied in a different order).
  Each pandas statement of the source is one step over the frame; a statement
  that raises inside a \<open>try\<close> block ends the block with the frame as the
  statements before it left it (pandas mutates in place), and a statement
  outside any \<open>try\<close> propagates its exception as \<open>Inl\<close>. What the scripts
  print is kept as a log of events, since the warnings are part of the
  contract (rows with an empty id or title are reported, not dropped).
\<close>

section \<open>Cell conversions and comparisons\<close>

text \<open>Truncation towards zero, as numpy's float-to-int cast does.\<close>

definition rat_trunc :: "rat \<Rightarrow> int" where
  "rat_trunc r = (if 0 \<le> r then \<lfloor>r\<rfloor> else - \<lfloor>- r\<rfloor>)"

text \<open>
  The \<open>float64\<close> to \<open>int32\<close> conversion numpy compiles to on x86-64: the value
  truncated towards zero when it fits, otherwise the ``integer indefinite''
  value \<open>-2^31\<close> (there is no wrap-around).
\<close>

definition f64_to_i32 :: "rat \<Rightarrow> 32 word" where
  "f64_to_i32 r =
     (if - (2 ^ 31) \<le> rat_trunc r \<and> rat_trunc r < 2 ^ 31 then word_of_int (rat_trunc r)
      else word_of_int (- (2 ^ 31)))"

text \<open>
  \<open>astype('int32')\<close> on one cell: an \<open>int64\<close> value is cast to 32 bits with
  wrap-around (numpy's unsafe integer cast), a \<open>float64\<close> value (a count
  column that held nulls) with \<open>f64_to_i32\<close>, nulls raise, strings and other
  objects are not converted.
\<close>

fun astype_i32 :: "cell \<Rightarrow> cell exc" where
  "astype_i32 (VI32 w) = Inr (VI32 w)"
| "astype_i32 (VInt i) = Inr (VI32 (word_of_int i))"
| "astype_i32 (VFloat r) = Inr (VI32 (f64_to_i32 r))"
| "astype_i32 (VBool b) = Inr (VI32 (if b then 1 else 0))"
| "astype_i32 VNull = Inl (ValueError ''Cannot convert non-finite values (NA or inf) to integer'')"
| "astype_i32 (VStr s) = Inl (ValueError ''invalid literal for int()'')"
| "astype_i32 (VTime u t) = Inl (TypeError ''Cannot cast DatetimeArray to dtype int32'')"
| "astype_i32 VObj = Inl (TypeError ''int() argument must be a string or a number'')"

text \<open>\<open>astype('datetime64[s]')\<close> on one cell: nanoseconds are floored to seconds.\<close>

fun astype_sec :: "cell \<Rightarrow> cell exc" where
  "astype_sec (VTime Ns t) = Inr (VTime Sec (t div 1000000000))"
| "astype_sec (VTime Sec t) = Inr (VTime Sec t)"
| "astype_sec VNull = Inr VNull"
| "astype_sec (VInt i) = Inr (VTime Sec i)"
| "astype_sec (VStr s) = Inl (ValueError ''Error parsing datetime string'')"
| "astype_sec _ = Inl (TypeError ''Cannot cast to datetime64[s]'')"

text \<open>The element-wise comparison \<open>df[c] < 0\<close>; comparing a string raises.\<close>

fun py_lt0 :: "cell \<Rightarrow> bool exc" where
  "py_lt0 VNull = Inr False"
| "py_lt0 (VInt i) = Inr (i < 0)"
| "py_lt0 (VFloat r) = Inr (r < 0)"
| "py_lt0 (VI32 w) = Inr (sint w < 0)"
| "py_lt0 (VBool b) = Inr False"
| "py_lt0 (VStr s) = Inl (TypeError ''< not supported between str and int'')"
| "py_lt0 (VTime u t) = Inl (TypeError ''Invalid comparison between datetime64 and int'')"
| "py_lt0 VObj = Inl (TypeError ''< not supported between list and int'')"

fun is_i32 :: "cell \<Rightarrow> bool" where
  "is_i32 (VI32 w) = True"
| "is_i32 _ = False"

text \<open>The scalar \<open>0\<close> as pandas stores it into a column: \<open>int32\<close> stays \<open>int32\<close>.\<close>

definition zero_for :: "cell list \<Rightarrow> cell" where
  "zero_for vs = (if list_all is_i32 vs then VI32 0 else VInt 0)"

text \<open>\<open>df[c].astype(str).map(len) == 0\<close>: only the empty string has length 0.\<close>

fun is_empty_str :: "cell \<Rightarrow> bool" where
  "is_empty_str (VStr s) = (s = [])"
| "is_empty_str _ = False"

section \<open>Events\<close>

datatype event =
    NullReplaced string nat
  | CategoryReplaced string string nat
  | NegativeReplaced string nat
  | EmptyWarning string nat
  | CaughtError exn

type_synonym log = "event list"

definition note_if :: "nat \<Rightarrow> event \<Rightarrow> log" where
  "note_if n ev = (if n = 0 then [] else [ev])"

definition add_log :: "log \<Rightarrow> (frame \<times> log) exc \<Rightarrow> (frame \<times> log) exc" where
  "add_log l r = (case r of Inl e \<Rightarrow> Inl e | Inr (df, l') \<Rightarrow> Inr (df, l @ l'))"

section \<open>The statements of the transformer\<close>

text \<open>
  The idiom \<open>df_repl = df[p(df[c])]; if df_repl.shape[0]: df.loc[p(df[c]), c] = v\<close>:
  count the matching rows, and overwrite them if there are any.
\<close>

definition replace_where :: "string \<Rightarrow> (cell \<Rightarrow> bool) \<Rightarrow> cell \<Rightarrow> frame \<Rightarrow> (frame \<times> nat) exc" where
  "replace_where c p v df =
     (case get_col df c of
        Inl e \<Rightarrow> Inl e
      | Inr vs \<Rightarrow>
          (let n = count_where p vs in
           if n = 0 then Inr (df, 0)
           else (case loc_set df c p v of Inl e \<Rightarrow> Inl e | Inr df' \<Rightarrow> Inr (df', n))))"

text \<open>\<open>df[c] = df[c].astype(...)\<close>.\<close>

definition astype_col :: "string \<Rightarrow> (cell \<Rightarrow> cell exc) \<Rightarrow> frame \<Rightarrow> frame exc" where
  "astype_col c f df =
     (case get_col df c of
        Inl e \<Rightarrow> Inl e
      | Inr vs \<Rightarrow> (case map_exc f vs of Inl e \<Rightarrow> Inl e | Inr ws \<Rightarrow> Inr (set_col df c ws)))"

definition count_empty :: "string \<Rightarrow> frame \<Rightarrow> nat exc" where
  "count_empty c df = (case get_col df c of Inl e \<Rightarrow> Inl e | Inr vs \<Rightarrow> Inr (count_where is_empty_str vs))"

section \<open>preprocess_meta\<close>

text \<open>
  \<open>preprocess_meta\<close> (process_jsonl.py lines 164--190): null ratings become 3,
  null rating counts become 0, the rating count is cast to \<open>int32\<close>, and empty
  ids and titles are reported. The whole body is one \<open>try\<close> block whose
  \<open>except\<close> prints and passes.
\<close>

definition preprocess_meta :: "frame \<Rightarrow> frame \<times> log" where
  "preprocess_meta df =
     (case replace_where ''average_rating'' is_null (VFloat 3) df of
        Inl e \<Rightarrow> (df, [CaughtError e])
      | Inr (df1, n1) \<Rightarrow>
          (let l1 = note_if n1 (NullReplaced ''average_rating'' n1) in
           case replace_where ''rating_number'' is_null (VInt 0) df1 of
             Inl e \<Rightarrow> (df1, l1 @ [CaughtError e])
           | Inr (df2, n2) \<Rightarrow>
               (let l2 = l1 @ note_if n2 (NullReplaced ''rating_number'' n2) in
                case astype_col ''rating_number'' astype_i32 df2 of
                  Inl e \<Rightarrow> (df2, l2 @ [CaughtError e])
                | Inr df3 \<Rightarrow>
                    (case count_empty ''parent_asin'' df3 of
                       Inl e \<Rightarrow> (df3, l2 @ [CaughtError e])
                     | Inr k1 \<Rightarrow>
                         (let l3 = l2 @ note_if k1 (EmptyWarning ''parent_asin'' k1) in
                          case count_empty ''title'' df3 of
                            Inl e \<Rightarrow> (df3, l3 @ [CaughtError e])
                          | Inr k2 \<Rightarrow> (df3, l3 @ note_if k2 (EmptyWarning ''title'' k2)))))))"

section \<open>transform_meta\<close>

text \<open>The inner loop \<open>for category in category_transformation[replacement]\<close>.\<close>

fun replace_categories :: "string \<Rightarrow> string list \<Rightarrow> frame \<Rightarrow> (frame \<times> log) exc" where
  "replace_categories repl [] df = Inr (df, [])"
| "replace_categories repl (cat # cats) df =
     (case replace_where ''main_category'' (\<lambda>v. v = VStr cat) (VStr repl) df of
        Inl e \<Rightarrow> Inl e
      | Inr (df', n) \<Rightarrow>
          add_log (note_if n (CategoryReplaced cat repl n)) (replace_categories repl cats df'))"

text \<open>
  The \<open>try\<close> block on \<open>rating_number\<close> at the end of each iteration of the
  outer loop: nulls and negative counts become 0.
\<close>

definition fix_rating_number :: "frame \<Rightarrow> frame \<times> log" where
  "fix_rating_number df =
     (case replace_where ''rating_number'' is_null (VInt 0) df of
        Inl e \<Rightarrow> (df, [CaughtError e])
      | Inr (df1, n1) \<Rightarrow>
          (let l1 = note_if n1 (NullReplaced ''rating_number'' n1) in
           case get_col df1 ''rating_number'' of
             Inl e \<Rightarrow> (df1, l1 @ [CaughtError e])
           | Inr vs \<Rightarrow>
               (case map_exc py_lt0 vs of
                  Inl e \<Rightarrow> (df1, l1 @ [CaughtError e])
                | Inr negs \<Rightarrow>
                    (let n2 = count_list negs True in
                     if n2 = 0 then (df1, l1)
                     else (case loc_set df1 ''rating_number'' (\<lambda>v. py_lt0 v = Inr True) (zero_for vs) of
                             Inl e \<Rightarrow> (df1, l1 @ [CaughtError e])
                           | Inr df2 \<Rightarrow> (df2, l1 @ [NegativeReplaced ''rating_number'' n2]))))))"

text \<open>\<open>transform_meta\<close> (process_jsonl.py lines 192--222): the outer loop over the rules.\<close>

fun transform_meta :: "frame \<Rightarrow> rules \<Rightarrow> (frame \<times> log) exc" where
  "transform_meta df [] = Inr (df, [])"
| "transform_meta df ((repl, cats) # rest) =
     (case replace_categories repl cats df of
        Inl e \<Rightarrow> Inl e
      | Inr (df1, l1) \<Rightarrow>
          (case replace_where ''main_category'' (\<lambda>v. v = VStr ''None'') (VStr repl) df1 of
             Inl e \<Rightarrow> Inl e
           | Inr (df2, n) \<Rightarrow>
               (case fix_rating_number df2 of
                  (df3, l3) \<Rightarrow>
                    add_log (l1 @ note_if n (CategoryReplaced ''None'' repl n) @ l3)
                      (transform_meta df3 rest))))"

text \<open>\<open>extract_kindle_meta\<close> (lines 224--225) returns the frame unchanged.\<close>

definition extract_kindle_meta :: "frame \<Rightarrow> (string \<times> string) list \<Rightarrow> frame" where
  "extract_kindle_meta df selected_details = df"

section \<open>Reviews\<close>

text \<open>\<open>df.columns = df.columns.str.replace('timestamp', 'review_date')\<close>.\<close>

definition rename_reviews :: "frame \<Rightarrow> frame" where
  "rename_reviews df = rename_columns ''timestamp'' ''review_date'' df"

section \<open>The per-chunk transformation of the two scripts\<close>

text \<open>
  \<open>process_jsonl.py\<close>, \<open>main\<close>, lines 294--311: pre-processing of product
  chunks, then for reviews the renaming of \<open>timestamp\<close> and its conversion to
  whole seconds. No \<open>try\<close> protects these statements: an exception ends the run.
\<close>

definition prepare_chunk :: "string \<Rightarrow> frame \<Rightarrow> (frame \<times> log) exc" where
  "prepare_chunk table_name df =
     (let (df1, l1) = (if table_name \<in> set [''meta'', ''books''] then preprocess_meta df else (df, []))
      in if table_name = ''reviews'' then
           (case astype_col ''review_date'' astype_sec (rename_reviews df1) of
              Inl e \<Rightarrow> Inl e
            | Inr df2 \<Rightarrow> Inr (df2, l1))
         else Inr (df1, l1))"

text \<open>
  Lines 318--326, transformation \#2: \<open>transform_meta\<close> for \<open>meta\<close>; for \<open>books\<close>
  also \<open>extract_kindle_meta\<close> before and a call of \<open>rename_columns\<close> after, a
  name that \<open>process_jsonl.py\<close> never defines.
\<close>

definition clean_chunk :: "string \<Rightarrow> rules \<Rightarrow> (string \<times> string) list \<Rightarrow> frame \<Rightarrow> (frame \<times> log) exc" where
  "clean_chunk table_name rules extra_columns df =
     (if table_name = ''meta'' then transform_meta df rules
      else if table_name = ''books'' then
        (case transform_meta (extract_kindle_meta df extra_columns) rules of
           Inl e \<Rightarrow> Inl e
         | Inr _ \<Rightarrow> Inl (NameError ''rename_columns''))
      else Inr (df, []))"

text \<open>
  \<open>jsonl_postgres.py\<close> keeps its own copies of \<open>preprocess_meta\<close> (lines
  112--138) and \<open>transform_meta\<close> (lines 140--170), statement for statement
  those of \<open>process_jsonl.py\<close>; they share the helpers above, which translate
  the same lines of both files.
\<close>

definition preprocess_meta_pg :: "frame \<Rightarrow> frame \<times> log" where
  "preprocess_meta_pg df =
     (case replace_where ''average_rating'' is_null (VFloat 3) df of
        Inl e \<Rightarrow> (df, [CaughtError e])
      | Inr (df1, n1) \<Rightarrow>
          (let l1 = note_if n1 (NullReplaced ''average_rating'' n1) in
           case replace_where ''rating_number'' is_null (VInt 0) df1 of
             Inl e \<Rightarrow> (df1, l1 @ [CaughtError e])
           | Inr (df2, n2) \<Rightarrow>
               (let l2 = l1 @ note_if n2 (NullReplaced ''rating_number'' n2) in
                case astype_col ''rating_number'' astype_i32 df2 of
                  Inl e \<Rightarrow> (df2, l2 @ [CaughtError e])
                | Inr df3 \<Rightarrow>
                    (case count_empty ''parent_asin'' df3 of
                       Inl e \<Rightarrow> (df3, l2 @ [CaughtError e])
                     | Inr k1 \<Rightarrow>
                         (let l3 = l2 @ note_if k1 (EmptyWarning ''parent_asin'' k1) in
                          case count_empty ''title'' df3 of
                            Inl e \<Rightarrow> (df3, l3 @ [CaughtError e])
                          | Inr k2 \<Rightarrow> (df3, l3 @ note_if k2 (EmptyWarning ''title'' k2)))))))"

fun transform_meta_pg :: "frame \<Rightarrow> rules \<Rightarrow> (frame \<times> log) exc" where
  "transform_meta_pg df [] = Inr (df, [])"
| "transform_meta_pg df ((repl, cats) # rest) =
     (case replace_categories repl cats df of
        Inl e \<Rightarrow> Inl e
      | Inr (df1, l1) \<Rightarrow>
          (case replace_where ''main_category'' (\<lambda>v. v = VStr ''None'') (VStr repl) df1 of
             Inl e \<Rightarrow> Inl e
           | Inr (df2, n) \<Rightarrow>
               (case fix_rating_number df2 of
                  (df3, l3) \<Rightarrow>
                    add_log (l1 @ note_if n (CategoryReplaced ''None'' repl n) @ l3)
                      (transform_meta_pg df3 rest))))"

text \<open>
  \<open>jsonl_postgres.py\<close>, \<open>main\<close>, lines 241--254: pre-processing of product
  chunks and the renaming for reviews, without the conversion to seconds.
\<close>

definition prepare_chunk_pg :: "string \<Rightarrow> frame \<Rightarrow> frame \<times> log" where
  "prepare_chunk_pg table_name df =
     (let (df1, l1) = (if table_name = ''meta'' then preprocess_meta_pg df else (df, []))
      in if table_name = ''reviews'' then (rename_reviews df1, l1) else (df1, l1))"

text \<open>Lines 264--267: \<open>transform_meta\<close> runs after the projection in this script.\<close>

definition clean_chunk_pg :: "string \<Rightarrow> rules \<Rightarrow> frame \<Rightarrow> (frame \<times> log) exc" where
  "clean_chunk_pg table_name rules df =
     (if table_name = ''meta'' then transform_meta_pg df rules else Inr (df, []))"

section \<open>Sample chunks\<close>

text \<open>
  Two small chunks on which the witnesses below evaluate the theorems: a
  product chunk of \<open>meta_Software_sample.jsonl\<close> with a wrong and a missing
  category, a missing rating, a missing and a negative rating count, an empty
  id and an empty title; and a one-row review chunk with a millisecond
  timestamp, as \<open>read_json\<close> decodes it. \<open>sample_software_rules\<close> is the rule
  table the registry gives for that file name.
\<close>

definition sample_meta_chunk :: frame where
  "sample_meta_chunk =
     \<lparr>nrows = 2,
      cols = [(''parent_asin'', [VStr ''B01'', VStr '''']),
              (''title'', [VStr '''', VStr ''Chess'']),
              (''main_category'', [VStr ''Books'', VStr ''None'']),
              (''average_rating'', [VNull, VFloat (9 / 2)]),
              (''rating_number'', [VFloat (-5), VNull])]\<rparr>"

definition sample_software_rules :: rules where
  "sample_software_rules =
     [(''Software'', [''AMAZON FASHION'', ''Books'', ''Computers'', ''Gift Cards'',
        ''Home Audio & Theater'', ''Toys & Games'', ''None''])]"

definition sample_reviews_chunk :: frame where
  "sample_reviews_chunk =
     \<lparr>nrows = 1,
      cols = [(''parent_asin'', [VStr ''P1'']), (''rating'', [VFloat 5]),
              (''timestamp'', [VTime Ns 1588687728923000000]),
              (''verified_purchase'', [VBool True])]\<rparr>"

section \<open>Abstract specification of the categorical remap\<close>

text \<open>
  What the remap promises, cell by cell: each rule in turn rewrites a category
  equal to one of its variants, or to the missing-value sentinel \<open>'None'\<close>, to
  its canonical value, and leaves every other category as it is.
\<close>

fun remap_category :: "rules \<Rightarrow> cell \<Rightarrow> cell" where
  "remap_category [] v = v"
| "remap_category ((repl, cats) # rest) v =
     remap_category rest (if v \<in> set (map VStr (cats @ [''None''])) then VStr repl else v)"

text \<open>What the rating-count cleanup promises for an \<open>int32\<close> column: negatives become 0.\<close>

fun clamp_i32 :: "cell \<Rightarrow> cell" where
  "clamp_i32 (VI32 w) = VI32 (if sint w < 0 then 0 else w)"
| "clamp_i32 v = v"

fun nonneg_i32 :: "cell \<Rightarrow> bool" where
  "nonneg_i32 (VI32 w) = (0 \<le> sint w)"
| "nonneg_i32 _ = False"

text \<open>The numeric cells, which \<open>astype('int32')\<close> converts.\<close>

fun is_num :: "cell \<Rightarrow> bool" where
  "is_num (VInt i) = True"
| "is_num (VFloat r) = True"
| "is_num (VI32 w) = True"
| "is_num (VBool b) = True"
| "is_num _ = False"

text \<open>
  Two frames have the same shape when they have the same columns, in the same
  order, and the same number of rows; every statement of the transformer keeps
  the shape, and with it \<open>wf_frame\<close>.
\<close>

definition same_shape :: "frame \<Rightarrow> frame \<Rightarrow> bool" where
  "same_shape df df' \<longleftrightarrow> columns df' = columns df \<and> nrows df' = nrows df"

section \<open>Lemmas on the statements\<close>


lemma preprocess_meta_pg_eq [simp]: "preprocess_meta_pg = preprocess_meta"
  by (rule ext) (simp add: preprocess_meta_pg_def preprocess_meta_def)

lemma transform_meta_pg_eq [simp]: "transform_meta_pg df rules = transform_meta df rules"
  by (induction df rules rule: transform_meta.induct) (auto split: sum.splits prod.splits)

lemma same_shape_refl [simp]: "same_shape df df"
  by (simp add: same_shape_def)

lemma same_shape_trans [trans]: "same_shape a b \<Longrightarrow> same_shape b c \<Longrightarrow> same_shape a c"
  by (simp add: same_shape_def)

lemma no_match_map_id: "count_where p vs = 0 \<Longrightarrow> map (\<lambda>x. if p x then v else x) vs = vs"
  by (induction vs) (auto simp: count_where_def)

lemma replace_where_Inr_E:
  assumes "replace_where c p v df = Inr (df', n)"
  obtains vs where "get_col df c = Inr vs" and "n = count_where p vs"
    and "loc_set df c p v = Inr (set_col df c (map (\<lambda>x. if p x then v else x) vs))"
    and "n = 0 \<Longrightarrow> df' = df"
    and "n \<noteq> 0 \<Longrightarrow> df' = set_col df c (map (\<lambda>x. if p x then v else x) vs)"
  using assms by (auto simp: replace_where_def loc_set_present Let_def split: sum.splits if_splits)

lemma replace_where_shape:
  "replace_where c p v df = Inr (df', n) \<Longrightarrow> same_shape df df'"
  by (elim replace_where_Inr_E) (auto simp: same_shape_def dest: loc_set_shape)

lemma wf_replace_where:
  "wf_frame df \<Longrightarrow> replace_where c p v df = Inr (df', n) \<Longrightarrow> wf_frame df'"
  by (elim replace_where_Inr_E) (auto dest: wf_loc_set)

lemma get_col_replace_where_same:
  assumes "replace_where c p v df = Inr (df', n)" and "get_col df c = Inr vs"
  shows "get_col df' c = Inr (map (\<lambda>x. if p x then v else x) vs) \<and> n = count_where p vs"
  using assms(1)
proof (rule replace_where_Inr_E)
  fix vs' assume vs': "get_col df c = Inr vs'" and n: "n = count_where p vs'"
    and ls: "loc_set df c p v = Inr (set_col df c (map (\<lambda>x. if p x then v else x) vs'))"
    and z: "n = 0 \<Longrightarrow> df' = df"
    and nz: "n \<noteq> 0 \<Longrightarrow> df' = set_col df c (map (\<lambda>x. if p x then v else x) vs')"
  from vs' assms(2) have "vs' = vs" by simp
  show ?thesis
  proof (cases "n = 0")
    case True
    with z n \<open>vs' = vs\<close> assms(2) show ?thesis by (simp add: no_match_map_id)
  next
    case False
    with nz n ls \<open>vs' = vs\<close> assms(2) show ?thesis by (simp add: get_col_loc_set_same)
  qed
qed

lemma get_col_replace_where_other:
  "replace_where c p v df = Inr (df', n) \<Longrightarrow> d \<noteq> c \<Longrightarrow> get_col df' d = get_col df d"
  by (elim replace_where_Inr_E) (auto simp: get_col_loc_set_other dest: get_col_loc_set_other)

lemma replace_where_missing:
  "c \<notin> set (columns df) \<Longrightarrow> replace_where c p v df = Inl (KeyError c)"
  by (simp add: replace_where_def get_col_def columns_def map_of_eq_None_iff [symmetric])

lemma replace_where_present:
  "c \<in> set (columns df) \<Longrightarrow> \<exists>df' n. replace_where c p v df = Inr (df', n)"
  using get_col_Inl_iff [of df c]
  by (auto simp: replace_where_def loc_set_def Let_def split: sum.splits)

lemma astype_col_Inr_E:
  assumes "astype_col c f df = Inr df'"
  obtains vs ws where "get_col df c = Inr vs" and "map_exc f vs = Inr ws"
    and "df' = set_col df c ws"
  using assms by (auto simp: astype_col_def split: sum.splits)

lemma astype_col_shape: "astype_col c f df = Inr df' \<Longrightarrow> same_shape df df'"
  by (elim astype_col_Inr_E) (simp add: same_shape_def columns_set_col_present get_col_Inr_columns)

lemma wf_astype_col: "wf_frame df \<Longrightarrow> astype_col c f df = Inr df' \<Longrightarrow> wf_frame df'"
  by (elim astype_col_Inr_E)
     (simp add: wf_set_col get_col_Inr_columns get_col_length map_exc_length)

lemma get_col_astype_col_same:
  "astype_col c f df = Inr df' \<Longrightarrow> get_col df c = Inr vs \<Longrightarrow>
   \<exists>ws. get_col df' c = Inr ws \<and> map_exc f vs = Inr ws"
  by (elim astype_col_Inr_E) (auto simp: get_col_set_col_same get_col_Inr_columns)

lemma get_col_astype_col_other:
  "astype_col c f df = Inr df' \<Longrightarrow> d \<noteq> c \<Longrightarrow> get_col df' d = get_col df d"
  by (elim astype_col_Inr_E) (simp add: get_col_set_col_other get_col_Inr_columns)

section \<open>Lemmas on preprocess_meta\<close>

lemma astype_i32_num: "is_num v \<Longrightarrow> \<exists>w. astype_i32 v = Inr (VI32 w)"
  by (cases v) auto

lemma rat_trunc_of_int [simp]: "rat_trunc (of_int k) = k"
  by (simp add: rat_trunc_def)

lemma astype_i32_in_range:
  assumes "- (2 ^ 31) \<le> k" and "k < 2 ^ 31" and "v = VInt k \<or> v = VFloat (of_int k)"
  shows "astype_i32 v = Inr (VI32 (word_of_int k))"
  using assms by (auto simp: f64_to_i32_def)

lemma map_exc_astype_i32:
  "list_all (\<lambda>v. is_null v \<or> is_num v) vs \<Longrightarrow>
   \<exists>ws. map_exc astype_i32 (map (\<lambda>x. if is_null x then VInt 0 else x) vs) = Inr ws \<and> list_all is_i32 ws"
proof (induction vs)
  case Nil
  then show ?case by simp
next
  case (Cons v vs)
  then obtain ws where ws: "map_exc astype_i32 (map (\<lambda>x. if is_null x then VInt 0 else x) vs) = Inr ws"
    and i32: "list_all is_i32 ws" by auto
  from Cons.prems obtain w where "astype_i32 (if is_null v then VInt 0 else v) = Inr (VI32 w)"
    using astype_i32_num [of v] by (cases v) auto
  with ws i32 show ?case by simp
qed

text \<open>
  The exits of the \<open>try\<close> block of \<open>preprocess_meta\<close>: the frame it returns is
  the one left by the last numeric statement that succeeded.
\<close>

lemma preprocess_meta_cases:
  obtains (none) "fst (preprocess_meta df) = df"
  | (avg) df1 n1 where "replace_where ''average_rating'' is_null (VFloat 3) df = Inr (df1, n1)"
      and "fst (preprocess_meta df) = df1"
  | (cnt) df1 n1 df2 n2 where "replace_where ''average_rating'' is_null (VFloat 3) df = Inr (df1, n1)"
      and "replace_where ''rating_number'' is_null (VInt 0) df1 = Inr (df2, n2)"
      and "fst (preprocess_meta df) = df2"
  | (cast) df1 n1 df2 n2 df3 where "replace_where ''average_rating'' is_null (VFloat 3) df = Inr (df1, n1)"
      and "replace_where ''rating_number'' is_null (VInt 0) df1 = Inr (df2, n2)"
      and "astype_col ''rating_number'' astype_i32 df2 = Inr df3"
      and "fst (preprocess_meta df) = df3"
proof (cases "replace_where ''average_rating'' is_null (VFloat 3) df")
  case (Inl e)
  show ?thesis by (rule none) (simp add: preprocess_meta_def Inl)
next
  case (Inr p1)
  then obtain df1 n1 where r1: "replace_where ''average_rating'' is_null (VFloat 3) df = Inr (df1, n1)"
    by (cases p1) auto
  show ?thesis
  proof (cases "replace_where ''rating_number'' is_null (VInt 0) df1")
    case (Inl e)
    show ?thesis by (rule avg [OF r1]) (simp add: preprocess_meta_def r1 Inl)
  next
    case (Inr p2)
    then obtain df2 n2 where r2: "replace_where ''rating_number'' is_null (VInt 0) df1 = Inr (df2, n2)"
      by (cases p2) auto
    show ?thesis
    proof (cases "astype_col ''rating_number'' astype_i32 df2")
      case (Inl e)
      show ?thesis
        by (rule cnt [OF r1 r2]) (simp add: preprocess_meta_def Let_def r1 r2 Inl)
    next
      case (Inr df3)
      show ?thesis
        by (rule cast [OF r1 r2 Inr]) (simp add: preprocess_meta_def Let_def r1 r2 Inr split: sum.splits)
    qed
  qed
qed

lemma preprocess_meta_shape: "same_shape df (fst (preprocess_meta df))"
proof (cases df rule: preprocess_meta_cases)
  case none
  then show ?thesis by simp
next
  case (avg df1 n1)
  from avg(1) have "same_shape df df1" by (rule replace_where_shape)
  with avg(2) show ?thesis by simp
next
  case (cnt df1 n1 df2 n2)
  from cnt(1) have "same_shape df df1" by (rule replace_where_shape)
  also from cnt(2) have "same_shape df1 df2" by (rule replace_where_shape)
  finally show ?thesis using cnt(3) by simp
next
  case (cast df1 n1 df2 n2 df3)
  from cast(1) have "same_shape df df1" by (rule replace_where_shape)
  also from cast(2) have "same_shape df1 df2" by (rule replace_where_shape)
  also from cast(3) have "same_shape df2 df3" by (rule astype_col_shape)
  finally show ?thesis using cast(4) by simp
qed

lemma wf_preprocess_meta:
  assumes wf: "wf_frame df"
  shows "wf_frame (fst (preprocess_meta df))"
proof (cases df rule: preprocess_meta_cases)
  case none
  with wf show ?thesis by simp
next
  case (avg df1 n1)
  from wf avg(1) have "wf_frame df1" by (rule wf_replace_where)
  with avg(2) show ?thesis by simp
next
  case (cnt df1 n1 df2 n2)
  from wf cnt(1) have "wf_frame df1" by (rule wf_replace_where)
  from this cnt(2) have "wf_frame df2" by (rule wf_replace_where)
  with cnt(3) show ?thesis by simp
next
  case (cast df1 n1 df2 n2 df3)
  from wf cast(1) have "wf_frame df1" by (rule wf_replace_where)
  from this cast(2) have "wf_frame df2" by (rule wf_replace_where)
  from this cast(3) have "wf_frame df3" by (rule wf_astype_col)
  with cast(4) show ?thesis by simp
qed

section \<open>Lemmas on transform_meta\<close>

lemma add_log_Inr_E:
  assumes "add_log l r = Inr (df, l2)"
  obtains l' where "r = Inr (df, l')" and "l2 = l @ l'"
  using assms by (auto simp: add_log_def split: sum.splits)

lemma replace_categories_Cons_E:
  assumes "replace_categories repl (cat # cats) df = Inr (df', l)"
  obtains df1 n l' where
    "replace_where ''main_category'' (\<lambda>v. v = VStr cat) (VStr repl) df = Inr (df1, n)"
    and "replace_categories repl cats df1 = Inr (df', l')"
  using assms by (auto simp: add_log_def split: sum.splits)

lemma replace_categories_col:
  "replace_categories repl cats df = Inr (df', l) \<Longrightarrow>
   get_col df ''main_category'' = Inr vs \<Longrightarrow>
   get_col df' ''main_category'' = Inr (map (\<lambda>v. if v \<in> set (map VStr cats) then VStr repl else v) vs)"
proof (induction cats arbitrary: df l vs)
  case Nil
  then show ?case by simp
next
  case (Cons cat cats)
  from Cons.prems(1) show ?case
  proof (rule replace_categories_Cons_E)
    fix df1 n l'
    assume r: "replace_where ''main_category'' (\<lambda>v. v = VStr cat) (VStr repl) df = Inr (df1, n)"
      and rest: "replace_categories repl cats df1 = Inr (df', l')"
    from r Cons.prems(2) have "get_col df1 ''main_category'' =
        Inr (map (\<lambda>x. if x = VStr cat then VStr repl else x) vs)"
      by (simp add: get_col_replace_where_same)
    from Cons.IH [OF rest this] show ?thesis by auto
  qed
qed

lemma replace_categories_other:
  "replace_categories repl cats df = Inr (df', l) \<Longrightarrow> d \<noteq> ''main_category'' \<Longrightarrow>
   get_col df' d = get_col df d"
proof (induction cats arbitrary: df l)
  case (Cons cat cats)
  from Cons.prems(1) show ?case
    by (rule replace_categories_Cons_E) (simp add: Cons.IH Cons.prems(2) get_col_replace_where_other)
qed simp

lemma replace_categories_shape:
  "replace_categories repl cats df = Inr (df', l) \<Longrightarrow> same_shape df df' \<and> (wf_frame df \<longrightarrow> wf_frame df')"
proof (induction cats arbitrary: df l)
  case (Cons cat cats)
  from Cons.prems show ?case
  proof (rule replace_categories_Cons_E)
    fix df1 n l'
    assume r: "replace_where ''main_category'' (\<lambda>v. v = VStr cat) (VStr repl) df = Inr (df1, n)"
      and rest: "replace_categories repl cats df1 = Inr (df', l')"
    from r have "same_shape df df1" by (rule replace_where_shape)
    also from rest have "same_shape df1 df'" using Cons.IH by blast
    finally show ?thesis using r rest Cons.IH by (blast dest: wf_replace_where)
  qed
qed simp

lemma fix_rating_number_cases:
  obtains (none) "fst (fix_rating_number df) = df"
  | (nulls) df1 n1 where "replace_where ''rating_number'' is_null (VInt 0) df = Inr (df1, n1)"
      and "fst (fix_rating_number df) = df1"
  | (neg) df1 n1 vs df2 where "replace_where ''rating_number'' is_null (VInt 0) df = Inr (df1, n1)"
      and "get_col df1 ''rating_number'' = Inr vs"
      and "loc_set df1 ''rating_number'' (\<lambda>v. py_lt0 v = Inr True) (zero_for vs) = Inr df2"
      and "fst (fix_rating_number df) = df2"
proof (cases "replace_where ''rating_number'' is_null (VInt 0) df")
  case (Inl e)
  show ?thesis by (rule none) (simp add: fix_rating_number_def Inl)
next
  case (Inr p1)
  then obtain df1 n1 where r1: "replace_where ''rating_number'' is_null (VInt 0) df = Inr (df1, n1)"
    by (cases p1) auto
  show ?thesis
  proof (cases "get_col df1 ''rating_number''")
    case (Inl e)
    show ?thesis by (rule nulls [OF r1]) (simp add: fix_rating_number_def r1 Inl)
  next
    case (Inr vs)
    show ?thesis
    proof (cases "loc_set df1 ''rating_number'' (\<lambda>v. py_lt0 v = Inr True) (zero_for vs)")
      case (Inl e)
      show ?thesis
        by (rule nulls [OF r1])
           (simp add: fix_rating_number_def Let_def r1 Inr Inl split: sum.splits)
    next
      case (Inr df2)
      have "fst (fix_rating_number df) = df1 \<or> fst (fix_rating_number df) = df2"
        by (simp add: fix_rating_number_def Let_def r1 \<open>get_col df1 ''rating_number'' = Inr vs\<close> Inr
            split: sum.splits)
      then show ?thesis
        using nulls [OF r1] neg [OF r1 \<open>get_col df1 ''rating_number'' = Inr vs\<close> Inr] by blast
    qed
  qed
qed

lemma fix_rating_number_shape:
  "same_shape df (fst (fix_rating_number df)) \<and> (wf_frame df \<longrightarrow> wf_frame (fst (fix_rating_number df)))"
proof (cases df rule: fix_rating_number_cases)
  case none
  then show ?thesis by simp
next
  case (nulls df1 n1)
  then show ?thesis by (simp add: replace_where_shape wf_replace_where)
next
  case (neg df1 n1 vs df2)
  from neg(1) have "same_shape df df1" by (rule replace_where_shape)
  also from neg(3) have "same_shape df1 df2" by (simp add: same_shape_def loc_set_shape)
  finally show ?thesis using neg by (blast dest: wf_replace_where wf_loc_set)
qed

lemma fix_rating_number_other:
  "d \<noteq> ''rating_number'' \<Longrightarrow> get_col (fst (fix_rating_number df)) d = get_col df d"
  by (cases df rule: fix_rating_number_cases)
     (simp_all add: get_col_replace_where_other get_col_loc_set_other)

lemma count_where_i32_null: "list_all is_i32 vs \<Longrightarrow> count_where is_null vs = 0"
  by (induction vs rule: list.induct) (auto simp: count_where_def elim: is_i32.elims)

lemma py_lt0_i32: "is_i32 v \<Longrightarrow> py_lt0 v = Inr (\<not> nonneg_i32 v)"
  by (cases v) auto

lemma clamp_i32_neg: "is_i32 v \<Longrightarrow> (if py_lt0 v = Inr True then VI32 0 else v) = clamp_i32 v"
  by (cases v) auto

lemma clamp_i32_nonneg: "nonneg_i32 v \<Longrightarrow> clamp_i32 v = v"
  by (cases v) auto

lemma clamp_i32_idem [simp]: "clamp_i32 (clamp_i32 v) = clamp_i32 v"
  by (cases v) auto

lemma nonneg_clamp_i32: "is_i32 v \<Longrightarrow> nonneg_i32 (clamp_i32 v)"
  by (cases v) auto

text \<open>On an \<open>int32\<close> column the cleanup is exactly the clamp at zero.\<close>

lemma fix_rating_number_i32:
  assumes col: "get_col df ''rating_number'' = Inr vs" and i32: "list_all is_i32 vs"
  shows "get_col (fst (fix_rating_number df)) ''rating_number'' = Inr (map clamp_i32 vs)"
proof -
  have r0: "replace_where ''rating_number'' is_null (VInt 0) df = Inr (df, 0)"
    using col i32 by (simp add: replace_where_def count_where_i32_null)
  have lt: "map_exc py_lt0 vs = Inr (map (\<lambda>v. \<not> nonneg_i32 v) vs)"
    using i32 by (intro map_exc_map) (simp add: py_lt0_i32 list_all_iff)
  have z: "zero_for vs = VI32 0" using i32 by (simp add: zero_for_def)
  have clamp: "map (\<lambda>x. if py_lt0 x = Inr True then VI32 0 else x) vs = map clamp_i32 vs"
    using i32 by (simp add: clamp_i32_neg list_all_iff)
  show ?thesis
  proof (cases "count_list (map (\<lambda>v. \<not> nonneg_i32 v) vs) True = 0")
    case True
    then have "\<forall>v \<in> set vs. nonneg_i32 v" by (simp add: count_list_0_iff)
    then have "map clamp_i32 vs = vs" by (simp add: clamp_i32_nonneg map_idI)
    with True r0 lt col show ?thesis
      by (simp add: fix_rating_number_def note_if_def Let_def)
  next
    case False
    have "loc_set df ''rating_number'' (\<lambda>v. py_lt0 v = Inr True) (VI32 0) =
        Inr (set_col df ''rating_number'' (map (\<lambda>x. if py_lt0 x = Inr True then VI32 0 else x) vs))"
      using col by (rule loc_set_present)
    with False r0 lt col z clamp show ?thesis
      by (simp add: fix_rating_number_def note_if_def Let_def get_col_set_col_same get_col_Inr_columns)
  qed
qed

lemma transform_meta_Cons_E:
  assumes "transform_meta df ((repl, cats) # rest) = Inr (df', l)"
  obtains df1 l1 df2 n l' where "replace_categories repl cats df = Inr (df1, l1)"
    and "replace_where ''main_category'' (\<lambda>v. v = VStr ''None'') (VStr repl) df1 = Inr (df2, n)"
    and "transform_meta (fst (fix_rating_number df2)) rest = Inr (df', l')"
  using assms
  by (auto simp: add_log_def split: sum.splits prod.splits)

lemma transform_meta_shape:
  "transform_meta df rules = Inr (df', l) \<Longrightarrow> same_shape df df' \<and> (wf_frame df \<longrightarrow> wf_frame df')"
proof (induction df rules arbitrary: l rule: transform_meta.induct)
  case (2 df repl cats rest)
  from "2.prems" show ?case
  proof (rule transform_meta_Cons_E)
    fix df1 l1 df2 n l'
    assume a: "replace_categories repl cats df = Inr (df1, l1)"
      and b: "replace_where ''main_category'' (\<lambda>v. v = VStr ''None'') (VStr repl) df1 = Inr (df2, n)"
      and c: "transform_meta (fst (fix_rating_number df2)) rest = Inr (df', l')"
    have "same_shape df df1" using a by (simp add: replace_categories_shape)
    also have "same_shape df1 df2" using b by (rule replace_where_shape)
    also have "same_shape df2 (fst (fix_rating_number df2))" by (simp add: fix_rating_number_shape)
    also have "same_shape (fst (fix_rating_number df2)) df'"
      using "2.IH" [OF a refl b refl prod.collapse c] by simp
    finally show ?thesis
      using a b c "2.IH" [OF a refl b refl prod.collapse c] fix_rating_number_shape [of df2]
      by (blast dest: replace_categories_shape wf_replace_where)
  qed
qed simp

lemma transform_meta_other:
  "transform_meta df rules = Inr (df', l) \<Longrightarrow> d \<noteq> ''main_category'' \<Longrightarrow> d \<noteq> ''rating_number'' \<Longrightarrow>
   get_col df' d = get_col df d"
proof (induction df rules arbitrary: l rule: transform_meta.induct)
  case (2 df repl cats rest)
  from "2.prems"(1) show ?case
  proof (rule transform_meta_Cons_E)
    fix df1 l1 df2 n l'
    assume a: "replace_categories repl cats df = Inr (df1, l1)"
      and b: "replace_where ''main_category'' (\<lambda>v. v = VStr ''None'') (VStr repl) df1 = Inr (df2, n)"
      and c: "transform_meta (fst (fix_rating_number df2)) rest = Inr (df', l')"
    from "2.IH" [OF a refl b refl prod.collapse c] "2.prems"(2,3)
    have "get_col df' d = get_col (fst (fix_rating_number df2)) d" by blast
    with a b "2.prems"(2,3) show ?thesis
      by (simp add: fix_rating_number_other get_col_replace_where_other replace_categories_other)
  qed
qed simp

lemma transform_meta_rating:
  "transform_meta df rules = Inr (df', l) \<Longrightarrow> get_col df ''rating_number'' = Inr vs \<Longrightarrow>
   list_all is_i32 vs \<Longrightarrow>
   get_col df' ''rating_number'' = Inr (if rules = [] then vs else map clamp_i32 vs)"
proof (induction df rules arbitrary: l vs rule: transform_meta.induct)
  case (2 df repl cats rest)
  from "2.prems"(1) show ?case
  proof (rule transform_meta_Cons_E)
    fix df1 l1 df2 n l'
    assume a: "replace_categories repl cats df = Inr (df1, l1)"
      and b: "replace_where ''main_category'' (\<lambda>v. v = VStr ''None'') (VStr repl) df1 = Inr (df2, n)"
      and c: "transform_meta (fst (fix_rating_number df2)) rest = Inr (df', l')"
    from a b "2.prems"(2) have "get_col df2 ''rating_number'' = Inr vs"
      by (simp add: get_col_replace_where_other replace_categories_other)
    then have fx: "get_col (fst (fix_rating_number df2)) ''rating_number'' = Inr (map clamp_i32 vs)"
      using "2.prems"(3) by (rule fix_rating_number_i32)
    have "list_all is_i32 (map clamp_i32 vs)"
      using "2.prems"(3) by (auto simp: list_all_iff elim!: is_i32.elims)
    from "2.IH" [OF a refl b refl prod.collapse c fx this]
    show ?thesis by (simp add: comp_def)
  qed
qed simp

section \<open>Lemmas on the numeric columns of product chunks\<close>

lemma preprocess_meta_cast:
  assumes "replace_where ''average_rating'' is_null (VFloat 3) df = Inr (df1, n1)"
    and "replace_where ''rating_number'' is_null (VInt 0) df1 = Inr (df2, n2)"
    and "astype_col ''rating_number'' astype_i32 df2 = Inr df3"
  shows "fst (preprocess_meta df) = df3"
  using assms by (simp add: preprocess_meta_def Let_def split: sum.splits)

text \<open>
  With both rating columns present and the count column numeric, the numeric
  statements of \<open>preprocess_meta\<close> all succeed: nulls of the rating become 3,
  nulls of the count become 0 and the count is cast to \<open>int32\<close>.
\<close>

lemma preprocess_meta_steps:
  assumes avg: "get_col df ''average_rating'' = Inr avs"
    and cnt: "get_col df ''rating_number'' = Inr rvs"
    and num: "list_all (\<lambda>v. is_null v \<or> is_num v) rvs"
  obtains df1 n1 df2 n2 ws where
    "replace_where ''average_rating'' is_null (VFloat 3) df = Inr (df1, n1)"
    and "replace_where ''rating_number'' is_null (VInt 0) df1 = Inr (df2, n2)"
    and "astype_col ''rating_number'' astype_i32 df2 = Inr (set_col df2 ''rating_number'' ws)"
    and "map_exc astype_i32 (map (\<lambda>v. if is_null v then VInt 0 else v) rvs) = Inr ws"
    and "list_all is_i32 ws"
    and "get_col df2 ''average_rating'' = Inr (map (\<lambda>v. if is_null v then VFloat 3 else v) avs)"
    and "''rating_number'' \<in> set (columns df2)"
    and "n1 = count_where is_null avs" and "n2 = count_where is_null rvs"
proof -
  obtain df1 n1 where r1: "replace_where ''average_rating'' is_null (VFloat 3) df = Inr (df1, n1)"
    using replace_where_present [OF get_col_Inr_columns [OF avg]] by blast
  have avg1: "get_col df1 ''average_rating'' = Inr (map (\<lambda>v. if is_null v then VFloat 3 else v) avs)"
    and n1: "n1 = count_where is_null avs"
    using get_col_replace_where_same [OF r1 avg] by simp_all
  have cnt1: "get_col df1 ''rating_number'' = Inr rvs"
    using get_col_replace_where_other [OF r1] cnt by simp
  obtain df2 n2 where r2: "replace_where ''rating_number'' is_null (VInt 0) df1 = Inr (df2, n2)"
    using replace_where_present [OF get_col_Inr_columns [OF cnt1]] by blast
  have avg2: "get_col df2 ''average_rating'' = Inr (map (\<lambda>v. if is_null v then VFloat 3 else v) avs)"
    using get_col_replace_where_other [OF r2] avg1 by simp
  have cnt2: "get_col df2 ''rating_number'' = Inr (map (\<lambda>v. if is_null v then VInt 0 else v) rvs)"
    and n2: "n2 = count_where is_null rvs"
    using get_col_replace_where_same [OF r2 cnt1] by simp_all
  obtain ws where ws: "map_exc astype_i32 (map (\<lambda>v. if is_null v then VInt 0 else v) rvs) = Inr ws"
    and i32: "list_all is_i32 ws"
    using map_exc_astype_i32 [OF num] by blast
  have r3: "astype_col ''rating_number'' astype_i32 df2 = Inr (set_col df2 ''rating_number'' ws)"
    using cnt2 ws by (simp add: astype_col_def)
  show thesis
    using that [OF r1 r2 r3 ws i32 avg2 get_col_Inr_columns [OF cnt2] n1 n2] .
qed

text \<open>
  With both rating columns present and the count column numeric, the numeric
  statements of \<open>preprocess_meta\<close> all succeed: nulls of the rating become 3,
  nulls of the count become 0 and the count is cast to \<open>int32\<close>.
\<close>

lemma preprocess_meta_numeric:
  assumes avg: "get_col df ''average_rating'' = Inr avs"
    and cnt: "get_col df ''rating_number'' = Inr rvs"
    and num: "list_all (\<lambda>v. is_null v \<or> is_num v) rvs"
  shows "get_col (fst (preprocess_meta df)) ''average_rating'' =
           Inr (map (\<lambda>v. if is_null v then VFloat 3 else v) avs) \<and>
         (\<exists>ws. get_col (fst (preprocess_meta df)) ''rating_number'' = Inr ws \<and>
               map_exc astype_i32 (map (\<lambda>v. if is_null v then VInt 0 else v) rvs) = Inr ws \<and>
               list_all is_i32 ws)"
  using assms
proof (rule preprocess_meta_steps)
  fix df1 n1 df2 n2 ws
  assume r1: "replace_where ''average_rating'' is_null (VFloat 3) df = Inr (df1, n1)"
    and r2: "replace_where ''rating_number'' is_null (VInt 0) df1 = Inr (df2, n2)"
    and r3: "astype_col ''rating_number'' astype_i32 df2 = Inr (set_col df2 ''rating_number'' ws)"
    and ws: "map_exc astype_i32 (map (\<lambda>v. if is_null v then VInt 0 else v) rvs) = Inr ws"
    and i32: "list_all is_i32 ws"
    and avg2: "get_col df2 ''average_rating'' = Inr (map (\<lambda>v. if is_null v then VFloat 3 else v) avs)"
    and pres: "''rating_number'' \<in> set (columns df2)"
  have "fst (preprocess_meta df) = set_col df2 ''rating_number'' ws"
    using r1 r2 r3 by (rule preprocess_meta_cast)
  then show ?thesis
    using avg2 ws i32 pres by (simp add: get_col_set_col_same get_col_set_col_other)
qed

lemma preprocess_meta_other:
  "d \<notin> {''average_rating'', ''rating_number''} \<Longrightarrow>
   get_col (fst (preprocess_meta df)) d = get_col df d"
proof (cases df rule: preprocess_meta_cases)
  case (cast df1 n1 df2 n2 df3)
  assume "d \<notin> {''average_rating'', ''rating_number''}"
  with cast show ?thesis
    by (simp add: get_col_replace_where_other get_col_astype_col_other)
qed (auto simp: get_col_replace_where_other)

section \<open>Lemmas on the renaming of the review timestamp\<close>

lemma py_replace_timestamp: "py_replace ''timestamp'' ''review_date'' ''timestamp'' = ''review_date''"
  by (simp add: py_replace.simps)

lemma rename_reviews_no_timestamp: "''timestamp'' \<notin> set (columns (rename_reviews df))"
proof
  assume "''timestamp'' \<in> set (columns (rename_reviews df))"
  then obtain c where "py_replace ''timestamp'' ''review_date'' c = ''timestamp''"
    by (auto simp: rename_reviews_def dest: sym)
  moreover have "py_replace ''timestamp'' ''review_date'' c \<noteq> ''timestamp''"
    by (rule py_replace_not_old) simp
  ultimately show False by simp
qed

lemma rename_reviews_review_date:
  "distinct (columns (rename_reviews df)) \<Longrightarrow> get_col df ''timestamp'' = Inr vs \<Longrightarrow>
   get_col (rename_reviews df) ''review_date'' = Inr vs"
  using get_col_rename [of "''timestamp''" "''review_date''" df "''timestamp''" vs]
  by (simp add: rename_reviews_def py_replace_timestamp)

section \<open>Lemmas on the log and on the review branch\<close>

lemma preprocess_meta_log:
  assumes "replace_where ''average_rating'' is_null (VFloat 3) df = Inr (df1, n1)"
    and "replace_where ''rating_number'' is_null (VInt 0) df1 = Inr (df2, n2)"
    and "astype_col ''rating_number'' astype_i32 df2 = Inr df3"
    and "count_empty ''parent_asin'' df3 = Inr k1"
    and "count_empty ''title'' df3 = Inr k2"
  shows "snd (preprocess_meta df) =
           note_if n1 (NullReplaced ''average_rating'' n1) @ note_if n2 (NullReplaced ''rating_number'' n2) @
           note_if k1 (EmptyWarning ''parent_asin'' k1) @ note_if k2 (EmptyWarning ''title'' k2)"
  using assms by (simp add: preprocess_meta_def Let_def)

lemma count_empty_get_col: "get_col df c = Inr vs \<Longrightarrow> count_empty c df = Inr (count_where is_empty_str vs)"
  by (simp add: count_empty_def)

lemma prepare_chunk_reviews:
  "prepare_chunk ''reviews'' df =
     (case astype_col ''review_date'' astype_sec (rename_reviews df) of
        Inl e \<Rightarrow> Inl e
      | Inr df2 \<Rightarrow> Inr (df2, []))"
  by (simp add: prepare_chunk_def)

lemma transform_meta_Cons_missing:
  assumes "''main_category'' \<notin> set (columns df)"
  shows "transform_meta df ((repl, cats) # rest) = Inl (KeyError ''main_category'')"
proof (cases cats)
  case Nil
  with assms show ?thesis by (simp add: replace_where_missing)
next
  case (Cons cat cats')
  with assms show ?thesis by (simp add: replace_where_missing)
qed

section \<open>Properties of the transformer\<close>

text \<open>
  C1. Refinement of the categorical remap: whatever rule table it is given,
  \<open>transform_meta\<close>, with its loop of masked assignments, rewrites the
  \<open>main_category\<close> column exactly as the cell-wise specification
  \<open>remap_category\<close> says: each rule in turn maps a variant or the sentinel
  \<open>'None'\<close> to its canonical value and leaves every other category unchanged,
  row by row and in order.
\<close>

theorem transform_meta_category:
  "transform_meta df rules = Inr (df', l) \<Longrightarrow> get_col df ''main_category'' = Inr vs \<Longrightarrow>
   get_col df' ''main_category'' = Inr (map (remap_category rules) vs)"
proof (induction df rules arbitrary: l vs rule: transform_meta.induct)
  case (2 df repl cats rest)
  from "2.prems"(1) show ?case
  proof (rule transform_meta_Cons_E)
    fix df1 l1 df2 n l'
    assume a: "replace_categories repl cats df = Inr (df1, l1)"
      and b: "replace_where ''main_category'' (\<lambda>v. v = VStr ''None'') (VStr repl) df1 = Inr (df2, n)"
      and c: "transform_meta (fst (fix_rating_number df2)) rest = Inr (df', l')"
    let ?step = "\<lambda>v. if v \<in> set (map VStr (cats @ [''None''])) then VStr repl else v"
    from a "2.prems"(2) have "get_col df1 ''main_category'' =
        Inr (map (\<lambda>v. if v \<in> set (map VStr cats) then VStr repl else v) vs)"
      by (rule replace_categories_col)
    with b have "get_col df2 ''main_category'' = Inr (map ?step vs)"
      by (auto simp: get_col_replace_where_same)
    then have "get_col (fst (fix_rating_number df2)) ''main_category'' = Inr (map ?step vs)"
      by (simp add: fix_rating_number_other)
    from "2.IH" [OF a refl b refl prod.collapse c this] show ?thesis by simp
  qed
qed (simp add: map_idI)

text \<open>The remap of the Software file's chunk, evaluated.\<close>

theorem transform_meta_category_witness:
  "transform_meta sample_meta_chunk sample_software_rules =
     Inr (\<lparr>nrows = 2,
           cols = [(''parent_asin'', [VStr ''B01'', VStr '''']),
                   (''title'', [VStr '''', VStr ''Chess'']),
                   (''main_category'', [VStr ''Software'', VStr ''Software'']),
                   (''average_rating'', [VNull, VFloat (9 / 2)]),
                   (''rating_number'', [VInt 0, VInt 0])]\<rparr>,
          [CategoryReplaced ''Books'' ''Software'' 1, CategoryReplaced ''None'' ''Software'' 1,
           NullReplaced ''rating_number'' 1, NegativeReplaced ''rating_number'' 1]) \<and>
   get_col sample_meta_chunk ''main_category'' = Inr [VStr ''Books'', VStr ''None''] \<and>
   get_col \<lparr>nrows = 2,
           cols = [(''parent_asin'', [VStr ''B01'', VStr '''']),
                   (''title'', [VStr '''', VStr ''Chess'']),
                   (''main_category'', [VStr ''Software'', VStr ''Software'']),
                   (''average_rating'', [VNull, VFloat (9 / 2)]),
                   (''rating_number'', [VInt 0, VInt 0])]\<rparr> ''main_category'' =
     Inr (map (remap_category sample_software_rules) [VStr ''Books'', VStr ''None''])"
proof -
  have h1: "transform_meta sample_meta_chunk sample_software_rules =
     Inr (\<lparr>nrows = 2,
           cols = [(''parent_asin'', [VStr ''B01'', VStr '''']),
                   (''title'', [VStr '''', VStr ''Chess'']),
                   (''main_category'', [VStr ''Software'', VStr ''Software'']),
                   (''average_rating'', [VNull, VFloat (9 / 2)]),
                   (''rating_number'', [VInt 0, VInt 0])]\<rparr>,
          [CategoryReplaced ''Books'' ''Software'' 1, CategoryReplaced ''None'' ''Software'' 1,
           NullReplaced ''rating_number'' 1, NegativeReplaced ''rating_number'' 1])"
    by code_simp
  have h2: "get_col sample_meta_chunk ''main_category'' = Inr [VStr ''Books'', VStr ''None'']"
    by (simp add: sample_meta_chunk_def get_col_def)
  from transform_meta_category [OF h1 h2] h1 h2 show ?thesis by blast
qed

text \<open>
  C2. Bounds on the rating count after the product cleanup: when a chunk's
  \<open>rating_number\<close> column is numeric or null and the file has a remap rule,
  every rating count that \<open>preprocess_meta\<close> and \<open>transform_meta\<close> leave is
  an \<open>int32\<close> value that is not negative, one per input row.
\<close>

theorem meta_rating_number_nonneg:
  assumes avg: "get_col df ''average_rating'' = Inr avs"
    and cnt: "get_col df ''rating_number'' = Inr rvs"
    and num: "list_all (\<lambda>v. is_null v \<or> is_num v) rvs"
    and rules: "rules \<noteq> []"
    and tm: "transform_meta (fst (preprocess_meta df)) rules = Inr (df', l)"
  shows "\<exists>ws. get_col df' ''rating_number'' = Inr ws \<and> length ws = length rvs \<and> list_all nonneg_i32 ws"
proof -
  from preprocess_meta_numeric [OF avg cnt num] obtain ws
    where g: "get_col (fst (preprocess_meta df)) ''rating_number'' = Inr ws"
      and m: "map_exc astype_i32 (map (\<lambda>v. if is_null v then VInt 0 else v) rvs) = Inr ws"
      and i: "list_all is_i32 ws"
    by blast
  from transform_meta_rating [OF tm g i] rules
  have "get_col df' ''rating_number'' = Inr (map clamp_i32 ws)" by simp
  moreover have "length (map clamp_i32 ws) = length rvs"
    using map_exc_length [OF m] by simp
  moreover have "list_all nonneg_i32 (map clamp_i32 ws)"
    using i by (simp add: list_all_iff nonneg_clamp_i32)
  ultimately show ?thesis by blast
qed

text \<open>The Software sample: the count \<open>-5\<close> is cast to \<open>int32\<close>, then clamped to 0.\<close>

theorem meta_rating_number_nonneg_witness:
  "get_col sample_meta_chunk ''average_rating'' = Inr [VNull, VFloat (9 / 2)] \<and>
   get_col sample_meta_chunk ''rating_number'' = Inr [VFloat (- 5), VNull] \<and>
   list_all (\<lambda>v. is_null v \<or> is_num v) [VFloat (- 5), VNull] \<and>
   sample_software_rules \<noteq> [] \<and>
   transform_meta (fst (preprocess_meta sample_meta_chunk)) sample_software_rules =
     Inr (\<lparr>nrows = 2,
           cols = [(''parent_asin'', [VStr ''B01'', VStr '''']),
                   (''title'', [VStr '''', VStr ''Chess'']),
                   (''main_category'', [VStr ''Software'', VStr ''Software'']),
                   (''average_rating'', [VFloat 3, VFloat (9 / 2)]),
                   (''rating_number'', [VI32 0, VI32 0])]\<rparr>,
          [CategoryReplaced ''Books'' ''Software'' 1, CategoryReplaced ''None'' ''Software'' 1,
           NegativeReplaced ''rating_number'' 1]) \<and>
   (\<exists>ws. get_col \<lparr>nrows = 2,
           cols = [(''parent_asin'', [VStr ''B01'', VStr '''']),
                   (''title'', [VStr '''', VStr ''Chess'']),
                   (''main_category'', [VStr ''Software'', VStr ''Software'']),
                   (''average_rating'', [VFloat 3, VFloat (9 / 2)]),
                   (''rating_number'', [VI32 0, VI32 0])]\<rparr> ''rating_number'' = Inr ws \<and>
         length ws = length [VFloat (- 5), VNull] \<and> list_all nonneg_i32 ws)"
proof -
  have h1: "get_col sample_meta_chunk ''average_rating'' = Inr [VNull, VFloat (9 / 2)]"
    and h2: "get_col sample_meta_chunk ''rating_number'' = Inr [VFloat (- 5), VNull]"
    by (simp_all add: sample_meta_chunk_def get_col_def)
  have h3: "list_all (\<lambda>v. is_null v \<or> is_num v) [VFloat (- 5), VNull]" by simp
  have h4: "sample_software_rules \<noteq> []" by (simp add: sample_software_rules_def)
  have h5: "transform_meta (fst (preprocess_meta sample_meta_chunk)) sample_software_rules =
     Inr (\<lparr>nrows = 2,
           cols = [(''parent_asin'', [VStr ''B01'', VStr '''']),
                   (''title'', [VStr '''', VStr ''Chess'']),
                   (''main_category'', [VStr ''Software'', VStr ''Software'']),
                   (''average_rating'', [VFloat 3, VFloat (9 / 2)]),
                   (''rating_number'', [VI32 0, VI32 0])]\<rparr>,
          [CategoryReplaced ''Books'' ''Software'' 1, CategoryReplaced ''None'' ''Software'' 1,
           NegativeReplaced ''rating_number'' 1])"
    by code_simp
  from meta_rating_number_nonneg [OF h1 h2 h3 h4 h5] h1 h2 h3 h4 h5 show ?thesis by blast
qed

text \<open>
  C3. Null repair of product chunks, row by row: after \<open>preprocess_meta\<close>, a
  row whose \<open>average_rating\<close> was missing holds 3.0 and every other rating is
  kept; a row whose \<open>rating_number\<close> was missing holds 0, and every count is
  then the \<open>int32\<close> cast of the repaired value.
\<close>

theorem preprocess_meta_defaults:
  assumes avg: "get_col df ''average_rating'' = Inr avs"
    and cnt: "get_col df ''rating_number'' = Inr rvs"
    and num: "list_all (\<lambda>v. is_null v \<or> is_num v) rvs"
    and j: "j < length avs" and i: "i < length rvs"
  shows "(\<exists>avs'. get_col (fst (preprocess_meta df)) ''average_rating'' = Inr avs' \<and>
            avs' ! j = (if is_null (avs ! j) then VFloat 3 else avs ! j)) \<and>
         (\<exists>ws. get_col (fst (preprocess_meta df)) ''rating_number'' = Inr ws \<and>
            astype_i32 (if is_null (rvs ! i) then VInt 0 else rvs ! i) = Inr (ws ! i) \<and>
            is_i32 (ws ! i))"
proof -
  from preprocess_meta_numeric [OF avg cnt num] obtain ws
    where a: "get_col (fst (preprocess_meta df)) ''average_rating'' =
              Inr (map (\<lambda>v. if is_null v then VFloat 3 else v) avs)"
      and g: "get_col (fst (preprocess_meta df)) ''rating_number'' = Inr ws"
      and m: "map_exc astype_i32 (map (\<lambda>v. if is_null v then VInt 0 else v) rvs) = Inr ws"
      and t: "list_all is_i32 ws"
    by blast
  from m have rel: "list_all2 (\<lambda>x y. astype_i32 x = Inr y)
      (map (\<lambda>v. if is_null v then VInt 0 else v) rvs) ws"
    by (simp add: map_exc_Inr_iff)
  then have len: "length ws = length rvs" using list_all2_lengthD [OF rel] by simp
  from rel i have "astype_i32 (if is_null (rvs ! i) then VInt 0 else rvs ! i) = Inr (ws ! i)"
    by (auto dest: list_all2_nthD)
  moreover from t i len have "is_i32 (ws ! i)" by (simp add: list_all_length)
  ultimately show ?thesis using a g j by auto
qed

theorem preprocess_meta_defaults_witness:
  "get_col sample_meta_chunk ''average_rating'' = Inr [VNull, VFloat (9 / 2)] \<and>
   get_col sample_meta_chunk ''rating_number'' = Inr [VFloat (- 5), VNull] \<and>
   list_all (\<lambda>v. is_null v \<or> is_num v) [VFloat (- 5), VNull] \<and>
   (0::nat) < length [VNull, VFloat (9 / 2)] \<and> (1::nat) < length [VFloat (- 5), VNull] \<and>
   (\<exists>avs'. get_col (fst (preprocess_meta sample_meta_chunk)) ''average_rating'' = Inr avs' \<and>
      avs' ! 0 = VFloat 3) \<and>
   (\<exists>ws. get_col (fst (preprocess_meta sample_meta_chunk)) ''rating_number'' = Inr ws \<and>
      astype_i32 (VInt 0) = Inr (ws ! 1) \<and> is_i32 (ws ! 1))"
proof -
  have h1: "get_col sample_meta_chunk ''average_rating'' = Inr [VNull, VFloat (9 / 2)]"
    and h2: "get_col sample_meta_chunk ''rating_number'' = Inr [VFloat (- 5), VNull]"
    by (simp_all add: sample_meta_chunk_def get_col_def)
  have h3: "list_all (\<lambda>v. is_null v \<or> is_num v) [VFloat (- 5), VNull]" by simp
  have h4: "(0::nat) < length [VNull, VFloat (9 / 2)]" and h5: "(1::nat) < length [VFloat (- 5), VNull]"
    by simp_all
  from preprocess_meta_defaults [OF h1 h2 h3 h4 h5] h1 h2 h3 h4 h5 show ?thesis by simp
qed

text \<open>
  C4. Product cleanup keeps every row and every column in place: after
  \<open>preprocess_meta\<close> and \<open>transform_meta\<close> a well-formed chunk is still
  well-formed, has the same columns in the same order and the same number of
  rows, and every column other than the three it repairs is unchanged.
\<close>

theorem meta_transform_keeps_rows:
  assumes wf: "wf_frame df"
    and tm: "transform_meta (fst (preprocess_meta df)) rules = Inr (df', l)"
  shows "wf_frame df' \<and> columns df' = columns df \<and> nrows df' = nrows df \<and>
         (\<forall>d. d \<notin> {''main_category'', ''average_rating'', ''rating_number''} \<longrightarrow>
              get_col df' d = get_col df d)"
proof -
  have s1: "same_shape df (fst (preprocess_meta df))" by (rule preprocess_meta_shape)
  have w1: "wf_frame (fst (preprocess_meta df))" using wf by (rule wf_preprocess_meta)
  from transform_meta_shape [OF tm] w1
  have s2: "same_shape (fst (preprocess_meta df)) df'" and w2: "wf_frame df'" by simp_all
  have "get_col df' d = get_col df d"
    if "d \<notin> {''main_category'', ''average_rating'', ''rating_number''}" for d
    using that transform_meta_other [OF tm, of d] preprocess_meta_other [of d df] by simp
  with s1 s2 w2 show ?thesis by (simp add: same_shape_def)
qed

theorem meta_transform_keeps_rows_witness:
  "wf_frame sample_meta_chunk \<and>
   transform_meta (fst (preprocess_meta sample_meta_chunk)) sample_software_rules =
     Inr (\<lparr>nrows = 2,
           cols = [(''parent_asin'', [VStr ''B01'', VStr '''']),
                   (''title'', [VStr '''', VStr ''Chess'']),
                   (''main_category'', [VStr ''Software'', VStr ''Software'']),
                   (''average_rating'', [VFloat 3, VFloat (9 / 2)]),
                   (''rating_number'', [VI32 0, VI32 0])]\<rparr>,
          [CategoryReplaced ''Books'' ''Software'' 1, CategoryReplaced ''None'' ''Software'' 1,
           NegativeReplaced ''rating_number'' 1]) \<and>
   wf_frame \<lparr>nrows = 2,
           cols = [(''parent_asin'', [VStr ''B01'', VStr '''']),
                   (''title'', [VStr '''', VStr ''Chess'']),
                   (''main_category'', [VStr ''Software'', VStr ''Software'']),
                   (''average_rating'', [VFloat 3, VFloat (9 / 2)]),
                   (''rating_number'', [VI32 0, VI32 0])]\<rparr> \<and> columns \<lparr>nrows = 2,
           cols = [(''parent_asin'', [VStr ''B01'', VStr '''']),
                   (''title'', [VStr '''', VStr ''Chess'']),
                   (''main_category'', [VStr ''Software'', VStr ''Software'']),
                   (''average_rating'', [VFloat 3, VFloat (9 / 2)]),
                   (''rating_number'', [VI32 0, VI32 0])]\<rparr> = columns sample_meta_chunk \<and>
   nrows \<lparr>nrows = 2,
           cols = [(''parent_asin'', [VStr ''B01'', VStr '''']),
                   (''title'', [VStr '''', VStr ''Chess'']),
                   (''main_category'', [VStr ''Software'', VStr ''Software'']),
                   (''average_rating'', [VFloat 3, VFloat (9 / 2)]),
                   (''rating_number'', [VI32 0, VI32 0])]\<rparr> = nrows sample_meta_chunk \<and>
   get_col \<lparr>nrows = 2,
           cols = [(''parent_asin'', [VStr ''B01'', VStr '''']),
                   (''title'', [VStr '''', VStr ''Chess'']),
                   (''main_category'', [VStr ''Software'', VStr ''Software'']),
                   (''average_rating'', [VFloat 3, VFloat (9 / 2)]),
                   (''rating_number'', [VI32 0, VI32 0])]\<rparr> ''title'' = get_col sample_meta_chunk ''title''"
proof -
  have h1: "wf_frame sample_meta_chunk"
    by (simp add: sample_meta_chunk_def wf_frame_def columns_def)
  have h2: "transform_meta (fst (preprocess_meta sample_meta_chunk)) sample_software_rules =
     Inr (\<lparr>nrows = 2,
           cols = [(''parent_asin'', [VStr ''B01'', VStr '''']),
                   (''title'', [VStr '''', VStr ''Chess'']),
                   (''main_category'', [VStr ''Software'', VStr ''Software'']),
                   (''average_rating'', [VFloat 3, VFloat (9 / 2)]),
                   (''rating_number'', [VI32 0, VI32 0])]\<rparr>,
          [CategoryReplaced ''Books'' ''Software'' 1, CategoryReplaced ''None'' ''Software'' 1,
           NegativeReplaced ''rating_number'' 1])"
    by code_simp
  have h3: "''title'' \<notin> {''main_category'', ''average_rating'', ''rating_number''}" by simp
  note c = meta_transform_keeps_rows [OF h1 h2]
  show ?thesis
    using h1 h2 c [THEN conjunct1] c [THEN conjunct2, THEN conjunct1]
      c [THEN conjunct2, THEN conjunct2, THEN conjunct1]
      c [THEN conjunct2, THEN conjunct2, THEN conjunct2, THEN spec, THEN mp, OF h3]
    by (intro conjI)
qed

text \<open>
  C5. Renaming of the review timestamp (process_jsonl.py): after the
  pre-processing of a review chunk, no column is named \<open>timestamp\<close>, the
  number of rows is unchanged, and the \<open>review_date\<close> column holds the
  original timestamps converted to whole seconds, provided the renaming
  creates no duplicate column name.
\<close>

theorem prepare_reviews_chunk:
  assumes dist: "distinct (columns (rename_reviews df))"
    and ts: "get_col df ''timestamp'' = Inr vs"
    and pc: "prepare_chunk ''reviews'' df = Inr (df', l)"
  shows "''timestamp'' \<notin> set (columns df') \<and> nrows df' = nrows df \<and>
         (\<exists>ws. get_col df' ''review_date'' = Inr ws \<and> map_exc astype_sec vs = Inr ws)"
proof -
  from pc have ac: "astype_col ''review_date'' astype_sec (rename_reviews df) = Inr df'"
    by (simp add: prepare_chunk_reviews split: sum.splits)
  from ac have "same_shape (rename_reviews df) df'" by (rule astype_col_shape)
  then have shape: "columns df' = columns (rename_reviews df)" "nrows df' = nrows df"
    by (simp_all add: same_shape_def rename_reviews_def)
  have "get_col (rename_reviews df) ''review_date'' = Inr vs"
    using dist ts by (rule rename_reviews_review_date)
  from get_col_astype_col_same [OF ac this] shape rename_reviews_no_timestamp [of df]
  show ?thesis by simp
qed

theorem prepare_reviews_chunk_witness:
  "distinct (columns (rename_reviews sample_reviews_chunk)) \<and>
   get_col sample_reviews_chunk ''timestamp'' = Inr [VTime Ns 1588687728923000000] \<and>
   prepare_chunk ''reviews'' sample_reviews_chunk =
     Inr (\<lparr>nrows = 1,
           cols = [(''parent_asin'', [VStr ''P1'']), (''rating'', [VFloat 5]),
                   (''review_date'', [VTime Sec 1588687728]),
                   (''verified_purchase'', [VBool True])]\<rparr>, []) \<and>
   ''timestamp'' \<notin> set (columns \<lparr>nrows = 1,
           cols = [(''parent_asin'', [VStr ''P1'']), (''rating'', [VFloat 5]),
                   (''review_date'', [VTime Sec 1588687728]),
                   (''verified_purchase'', [VBool True])]\<rparr>) \<and>
   (\<exists>ws. get_col \<lparr>nrows = 1,
           cols = [(''parent_asin'', [VStr ''P1'']), (''rating'', [VFloat 5]),
                   (''review_date'', [VTime Sec 1588687728]),
                   (''verified_purchase'', [VBool True])]\<rparr> ''review_date'' = Inr ws \<and>
      map_exc astype_sec [VTime Ns 1588687728923000000] = Inr ws)"
proof -
  have h1: "distinct (columns (rename_reviews sample_reviews_chunk))" by code_simp
  have h2: "get_col sample_reviews_chunk ''timestamp'' = Inr [VTime Ns 1588687728923000000]"
    by (simp add: sample_reviews_chunk_def get_col_def)
  have h3: "prepare_chunk ''reviews'' sample_reviews_chunk =
     Inr (\<lparr>nrows = 1,
           cols = [(''parent_asin'', [VStr ''P1'']), (''rating'', [VFloat 5]),
                   (''review_date'', [VTime Sec 1588687728]),
                   (''verified_purchase'', [VBool True])]\<rparr>, [])"
    by code_simp
  from prepare_reviews_chunk [OF h1 h2 h3] h1 h2 h3 show ?thesis by blast
qed

text \<open>
  C8. Empty identifiers and titles are reported, not dropped: on a product
  chunk whose numeric columns clean up, \<open>preprocess_meta\<close> keeps every row and
  leaves the \<open>parent_asin\<close> and \<open>title\<close> columns unchanged, and it logs a
  warning for one of them exactly when some of its cells are empty, with the
  number of empty cells.
\<close>

theorem preprocess_meta_warns_empty:
  assumes avg: "get_col df ''average_rating'' = Inr avs"
    and cnt: "get_col df ''rating_number'' = Inr rvs"
    and num: "list_all (\<lambda>v. is_null v \<or> is_num v) rvs"
    and ps: "get_col df ''parent_asin'' = Inr ps"
    and ts: "get_col df ''title'' = Inr ts"
  shows "nrows (fst (preprocess_meta df)) = nrows df \<and>
         get_col (fst (preprocess_meta df)) ''parent_asin'' = Inr ps \<and>
         get_col (fst (preprocess_meta df)) ''title'' = Inr ts \<and>
         (EmptyWarning ''parent_asin'' k \<in> set (snd (preprocess_meta df)) \<longleftrightarrow>
            k = count_where is_empty_str ps \<and> k \<noteq> 0) \<and>
         (EmptyWarning ''title'' k \<in> set (snd (preprocess_meta df)) \<longleftrightarrow>
            k = count_where is_empty_str ts \<and> k \<noteq> 0)"
  using avg cnt num
proof (rule preprocess_meta_steps)
  fix df1 n1 df2 n2 ws
  assume r1: "replace_where ''average_rating'' is_null (VFloat 3) df = Inr (df1, n1)"
    and r2: "replace_where ''rating_number'' is_null (VInt 0) df1 = Inr (df2, n2)"
    and r3: "astype_col ''rating_number'' astype_i32 df2 = Inr (set_col df2 ''rating_number'' ws)"
  have ps3: "get_col (set_col df2 ''rating_number'' ws) ''parent_asin'' = Inr ps"
    and ts3: "get_col (set_col df2 ''rating_number'' ws) ''title'' = Inr ts"
    using ps ts get_col_astype_col_other [OF r3] get_col_replace_where_other [OF r1]
      get_col_replace_where_other [OF r2] by simp_all
  have df3: "fst (preprocess_meta df) = set_col df2 ''rating_number'' ws"
    using r1 r2 r3 by (rule preprocess_meta_cast)
  have log: "snd (preprocess_meta df) =
      note_if n1 (NullReplaced ''average_rating'' n1) @ note_if n2 (NullReplaced ''rating_number'' n2) @
      note_if (count_where is_empty_str ps) (EmptyWarning ''parent_asin'' (count_where is_empty_str ps)) @
      note_if (count_where is_empty_str ts) (EmptyWarning ''title'' (count_where is_empty_str ts))"
    using r1 r2 r3 count_empty_get_col [OF ps3] count_empty_get_col [OF ts3]
    by (rule preprocess_meta_log)
  have rows: "nrows (fst (preprocess_meta df)) = nrows df"
    using preprocess_meta_shape [of df] by (simp add: same_shape_def)
  show ?thesis
    using df3 ps3 ts3 rows log by (auto simp: note_if_def)
qed

theorem preprocess_meta_warns_empty_witness:
  "get_col sample_meta_chunk ''average_rating'' = Inr [VNull, VFloat (9 / 2)] \<and>
   get_col sample_meta_chunk ''rating_number'' = Inr [VFloat (- 5), VNull] \<and>
   list_all (\<lambda>v. is_null v \<or> is_num v) [VFloat (- 5), VNull] \<and>
   get_col sample_meta_chunk ''parent_asin'' = Inr [VStr ''B01'', VStr ''''] \<and>
   get_col sample_meta_chunk ''title'' = Inr [VStr '''', VStr ''Chess''] \<and>
   nrows (fst (preprocess_meta sample_meta_chunk)) = nrows sample_meta_chunk \<and>
   EmptyWarning ''title'' 1 \<in> set (snd (preprocess_meta sample_meta_chunk))"
proof -
  have h1: "get_col sample_meta_chunk ''average_rating'' = Inr [VNull, VFloat (9 / 2)]"
    and h2: "get_col sample_meta_chunk ''rating_number'' = Inr [VFloat (- 5), VNull]"
    and h4: "get_col sample_meta_chunk ''parent_asin'' = Inr [VStr ''B01'', VStr '''']"
    and h5: "get_col sample_meta_chunk ''title'' = Inr [VStr '''', VStr ''Chess'']"
    by (simp_all add: sample_meta_chunk_def get_col_def)
  have h3: "list_all (\<lambda>v. is_null v \<or> is_num v) [VFloat (- 5), VNull]" by simp
  from preprocess_meta_warns_empty [OF h1 h2 h3 h4 h5, of 1] h1 h2 h3 h4 h5 show ?thesis
    by (simp add: count_where_def)
qed

text \<open>
  C9. A product chunk without a \<open>main_category\<close> column aborts the run: with
  a non-empty rule table, \<open>transform_meta\<close> raises \<open>KeyError\<close> on that column,
  outside any \<open>try\<close> block.
\<close>

theorem transform_meta_missing_category:
  assumes "rules \<noteq> []" and "''main_category'' \<notin> set (columns df)"
  shows "transform_meta df rules = Inl (KeyError ''main_category'')"
proof -
  from assms(1) obtain repl cats rest where r: "rules = (repl, cats) # rest"
    by (metis list.exhaust prod.exhaust)
  show ?thesis unfolding r by (rule transform_meta_Cons_missing [OF assms(2)])
qed

theorem transform_meta_missing_category_witness:
  "sample_software_rules \<noteq> [] \<and> ''main_category'' \<notin> set (columns sample_reviews_chunk) \<and>
   transform_meta sample_reviews_chunk sample_software_rules = Inl (KeyError ''main_category'')"
proof -
  have h1: "sample_software_rules \<noteq> []" by (simp add: sample_software_rules_def)
  have h2: "''main_category'' \<notin> set (columns sample_reviews_chunk)"
    by (simp add: sample_reviews_chunk_def columns_def)
  from transform_meta_missing_category [OF h1 h2] h1 h2 show ?thesis by blast
qed

end
