(* ===== verification/Chunks.thy ===== *)
theory Chunks
  imports Frame
begin

text \<open>
  The chunk source: \<open>pd.read_json(jsonl_name, lines=True, chunksize=c,
  dtype=dtypes)\<close> in both drivers. The file is a sequence of JSON objects, one
  per line; the model takes them decoded (and coerced to the requested dtypes
  by pandas) as a list of records, each an association list from keys to
  cells. The reader validates the chunk size, then yields one frame per run of
  \<open>c\<close> consecutive records; the columns of a chunk are the keys in the order
  they first appear in it, and a key a record lacks reads as a null cell.
\<close>

type_synonym json_record = "(string \<times> cell) list"

section \<open>Splitting into chunks\<close>

function chunk_split :: "nat \<Rightarrow> 'a list \<Rightarrow> 'a list list" where
  "chunk_split n xs = (if n = 0 \<or> xs = [] then [] else take n xs # chunk_split n (drop n xs))"
  by pat_completeness auto
termination
  by (relation "measure (\<lambda>(n, xs). length xs)") auto

declare chunk_split.simps [simp del]

section \<open>One chunk as a frame\<close>

text \<open>Keys in the order of their first appearance: duplicates are dropped from the right.\<close>

definition record_columns :: "json_record list \<Rightarrow> string list" where
  "record_columns rs = rev (remdups (rev (concat (map (map fst) rs))))"

definition record_get :: "json_record \<Rightarrow> string \<Rightarrow> cell" where
  "record_get r c = (case map_of r c of None \<Rightarrow> VNull | Some v \<Rightarrow> v)"

definition frame_of_records :: "json_record list \<Rightarrow> frame" where
  "frame_of_records rs =
     \<lparr>nrows = length rs, cols = map (\<lambda>c. (c, map (\<lambda>r. record_get r c) rs)) (record_columns rs)\<rparr>"

text \<open>
  The reader: \<open>chunksize\<close> is validated when the reader is built (pandas
  raises \<open>ValueError\<close> for a value below 1), then the chunks follow.
\<close>

definition read_json_chunks :: "int \<Rightarrow> json_record list \<Rightarrow> frame list exc" where
  "read_json_chunks chunksize rs =
     (if chunksize < 1 then Inl (ValueError ''chunksize must be an integer >=1'')
      else Inr (map frame_of_records (chunk_split (nat chunksize) rs)))"

section \<open>The split\<close>

lemma chunk_split_Nil [simp]: "chunk_split n [] = []"
  by (simp add: chunk_split.simps)

lemma chunk_split_Cons:
  "0 < n \<Longrightarrow> xs \<noteq> [] \<Longrightarrow> chunk_split n xs = take n xs # chunk_split n (drop n xs)"
  by (simp add: chunk_split.simps)

lemma chunk_split_concat: "0 < n \<Longrightarrow> concat (chunk_split n xs) = xs"
proof (induction n xs rule: chunk_split.induct)
  case (1 n xs)
  then show ?case by (cases "xs = []") (simp_all add: chunk_split_Cons)
qed

lemma chunk_split_chunks:
  "ys \<in> set (chunk_split n xs) \<Longrightarrow> ys \<noteq> [] \<and> length ys \<le> n"
proof (induction n xs rule: chunk_split.induct)
  case (1 n xs)
  show ?case
  proof (cases "n = 0 \<or> xs = []")
    case True
    with "1.prems" show ?thesis by (auto simp: chunk_split.simps)
  next
    case False
    with "1.prems" have "ys = take n xs \<or> ys \<in> set (chunk_split n (drop n xs))"
      by (simp add: chunk_split_Cons)
    with False "1.IH" show ?thesis by auto
  qed
qed

lemma length_chunk_split:
  "0 < n \<Longrightarrow> length (chunk_split n xs) = (length xs + n - 1) div n"
proof (induction n xs rule: chunk_split.induct)
  case (1 n xs)
  show ?case
  proof (cases "xs = []")
    case True
    with "1.prems" show ?thesis by simp
  next
    case False
    with "1.prems" "1.IH" have "length (chunk_split n xs) = 1 + (length xs - n + n - 1) div n"
      by (simp add: chunk_split_Cons)
    also have "\<dots> = (length xs + n - 1) div n"
    proof (cases "length xs \<le> n")
      case True
      from \<open>xs \<noteq> []\<close> have "0 < length xs" by simp
      with True have "n * Suc 0 \<le> length xs + n - 1" "length xs + n - 1 < n * Suc (Suc 0)"
        by linarith+
      with True show ?thesis by (simp add: div_nat_eqI [symmetric])
    next
      case False
      then have "length xs - n + n - 1 = (length xs + n - 1) - n" by simp
      with False "1.prems" show ?thesis by (simp add: le_div_geq)
    qed
    finally show ?thesis .
  qed
qed

section \<open>A chunk as a frame\<close>

lemma columns_frame_of_records [simp]: "columns (frame_of_records rs) = record_columns rs"
  by (simp add: frame_of_records_def columns_def comp_def)

lemma nrows_frame_of_records [simp]: "nrows (frame_of_records rs) = length rs"
  by (simp add: frame_of_records_def)

section \<open>Properties of the reader\<close>

lemma read_json_chunks_Inr_E:
  assumes "read_json_chunks c rs = Inr fs"
  obtains "0 < nat c" and "fs = map frame_of_records (chunk_split (nat c) rs)"
  using assms by (simp add: read_json_chunks_def split: if_splits)

end
