(* ===== verification/Sinks.thy ===== *)
theory Sinks
  imports Chunks "HOL-Library.AList"
begin

text \<open>
  The world the scripts act on and the sinks that change it. One record holds
  the files (the JSON source, the Parquet and CSV exports, the credentials
  file), the environment variables, the PostgreSQL tables with the status of
  the server, and the BigQuery datasets with the outcomes the service gives;
  every table, file and dataset is an association list updated with
  \<open>AList.update\<close>. The sinks of \<open>process_jsonl.py\<close> and \<open>jsonl_postgres.py\<close>
  (\<open>reset_table\<close>, \<open>DataFrame.to_sql\<close> in append mode,
  \<open>export_data_to_parquet\<close>, \<open>DataFrame.to_csv\<close>) are functions from the
  world to the world, with the exception they raise as an \<open>Inl\<close>.
\<close>

section \<open>The world\<close>

datatype fcontent =
    FJsonl "json_record list"
  | FParquet frame
  | FCsv frame
  | FData

text \<open>A PostgreSQL table: its column names and its rows, in insertion order.\<close>

record sqltable =
  t_cols :: "string list"
  t_rows :: "cell list list"

datatype bqtype = BqString | BqFloat | BqInteger | BqBoolean | BqTimestamp

type_synonym bqschema = "(string \<times> bqtype) list"

text \<open>A BigQuery table: the schema it was created with and the rows loaded into it.\<close>

record bqtable =
  bq_schema :: bqschema
  bq_rows :: "(string \<times> cell) list list"

record world =
  w_files :: "(string \<times> fcontent) list"
  w_env :: "(string \<times> string) list"
  w_pg :: "(string \<times> sqltable) list"
  w_pg_up :: bool
  w_bq :: "(string \<times> (string \<times> bqtable) list) list"
  w_bq_client_ok :: bool
  w_bq_fail :: "string list"
  w_engine_fail :: "string list"

text \<open>
  \<open>w_pg_up\<close> is whether the PostgreSQL server accepts the connection,
  \<open>w_bq_client_ok\<close> whether \<open>bigquery.Client\<close> can be built,
  \<open>w_bq_fail\<close> the files whose load job BigQuery rejects, and
  \<open>w_engine_fail\<close> the database URLs \<open>create_engine\<close> rejects (it parses the
  URL, converts the port with \<open>int()\<close> and loads the driver, without
  connecting).
\<close>

section \<open>PostgreSQL\<close>

text \<open>
  \<open>create_engine(url)\<close>: an engine for an accepted URL, an exception for a
  URL the world says is rejected.
\<close>

definition create_engine :: "string \<Rightarrow> world \<Rightarrow> unit exc" where
  "create_engine url w =
     (if url \<in> set (w_engine_fail w) then Inl (ValueError ''invalid database URL'') else Inr ())"

text \<open>
  A row of a frame written into a table with columns \<open>tcols\<close>: the insert
  names the frame's columns, the others get NULL.
\<close>

definition table_row :: "string list \<Rightarrow> (string \<times> cell) list \<Rightarrow> cell list" where
  "table_row tcols row = map (record_get row) tcols"

text \<open>
  \<open>df.to_sql(name=table_name, con=engine, index=False, if_exists='append')\<close>:
  the table is created with the frame's columns when missing; a frame column
  the table lacks makes the insert fail.
\<close>

definition pg_append :: "string \<Rightarrow> frame \<Rightarrow> world \<Rightarrow> world exc" where
  "pg_append name df w =
     (if \<not> w_pg_up w then Inl (DatabaseError ''connection refused'')
      else
        let t = (case map_of (w_pg w) name of
                   None \<Rightarrow> \<lparr>t_cols = columns df, t_rows = []\<rparr>
                 | Some t \<Rightarrow> t)
        in if set (columns df) \<subseteq> set (t_cols t)
           then Inr (w\<lparr>w_pg := AList.update name
                     (t\<lparr>t_rows := t_rows t @ map (table_row (t_cols t)) (frame_rows df)\<rparr>) (w_pg w)\<rparr>)
           else Inl (DatabaseError ''column of relation does not exist''))"

text \<open>
  The label pandas gives the unnamed index it writes (\<open>SQLTable._index_name\<close>):
  \<open>index\<close>, or \<open>level_0\<close> when the frame already has a column \<open>index\<close>.
\<close>

definition index_label :: "string list \<Rightarrow> string" where
  "index_label cs = (if ''index'' \<in> set cs then ''level_0'' else ''index'')"

text \<open>
  \<open>df.head(n=0).to_sql(name=table_name, con=engine, if_exists='replace')\<close>:
  the table is dropped and created again, empty. \<open>index\<close> keeps its default
  \<open>True\<close>, so the frame's unnamed index becomes a first column, labelled by
  \<open>index_label\<close>.
\<close>

definition pg_replace_empty :: "string \<Rightarrow> frame \<Rightarrow> world \<Rightarrow> world exc" where
  "pg_replace_empty name df w =
     (if \<not> w_pg_up w then Inl (DatabaseError ''connection refused'')
      else Inr (w\<lparr>w_pg := AList.update name
                  \<lparr>t_cols = index_label (columns df) # columns df, t_rows = []\<rparr> (w_pg w)\<rparr>))"

text \<open>
  \<open>reset_table\<close> (\<open>process_jsonl.py\<close> lines 59--66, the same code in
  \<open>jsonl_postgres.py\<close> lines 19--26): any exception is caught and reported as
  \<open>False\<close>.
\<close>

definition reset_table :: "string \<Rightarrow> frame \<Rightarrow> world \<Rightarrow> bool \<times> world" where
  "reset_table table_name df w =
     (case pg_replace_empty table_name (head 0 df) w of
        Inl e \<Rightarrow> (False, w)
      | Inr w' \<Rightarrow> (True, w'))"

text \<open>The copy of \<open>reset_table\<close> in \<open>jsonl_postgres.py\<close> (lines 19--26).\<close>

definition reset_table_pg :: "string \<Rightarrow> frame \<Rightarrow> world \<Rightarrow> bool \<times> world" where
  "reset_table_pg table_name df w =
     (case pg_replace_empty table_name (head 0 df) w of
        Inl e \<Rightarrow> (False, w)
      | Inr w' \<Rightarrow> (True, w'))"

section \<open>Files\<close>

definition write_file :: "string \<Rightarrow> fcontent \<Rightarrow> world \<Rightarrow> world" where
  "write_file name c w = w\<lparr>w_files := AList.update name c (w_files w)\<rparr>"

text \<open>
  \<open>export_data_to_parquet\<close> (\<open>process_jsonl.py\<close> lines 227--230): the frame is
  written without its index and the name appended to the export list.
\<close>

definition export_data_to_parquet ::
  "frame \<Rightarrow> string \<Rightarrow> string list \<Rightarrow> world \<Rightarrow> string list \<times> world" where
  "export_data_to_parquet df file_name file_name_list w =
     (file_name_list @ [file_name], write_file file_name (FParquet df) w)"

text \<open>\<open>df.head(SAMPLE_SIZE).to_csv(name, index=False)\<close>.\<close>

definition to_csv :: "string \<Rightarrow> frame \<Rightarrow> world \<Rightarrow> world" where
  "to_csv name df w = write_file name (FCsv df) w"

text \<open>The name of the \<open>i\<close>-th Parquet export: \<open>f'{jsonl_name}-{i:02d}.parquet'\<close>.\<close>

definition parquet_name :: "string \<Rightarrow> nat \<Rightarrow> string" where
  "parquet_name jsonl_name i = jsonl_name @ ''-'' @ fmt02d i @ ''.parquet''"

section \<open>Rows written to a table\<close>

lemma index_label_absent [simp]: "''index'' \<notin> set cs \<Longrightarrow> index_label cs = ''index''"
  by (simp add: index_label_def)

lemma record_get_keys: "distinct (map fst row) \<Longrightarrow> map (record_get row) (map fst row) = map snd row"
proof (induction row)
  case Nil
  then show ?case by simp
next
  case (Cons x row)
  have "map (record_get (x # row)) (map fst row) = map (record_get row) (map fst row)"
  proof (rule map_cong [OF refl])
    fix k assume "k \<in> set (map fst row)"
    with Cons.prems have "k \<noteq> fst x" by force
    then show "record_get (x # row) k = record_get row k" by (cases x) (simp add: record_get_def)
  qed
  with Cons show ?case by (cases x) (simp add: record_get_def)
qed

lemma record_get_absent: "k \<notin> set (map fst row) \<Longrightarrow> record_get row k = VNull"
proof -
  assume "k \<notin> set (map fst row)"
  then have "map_of row k = None" by (simp add: map_of_eq_None_iff)
  then show ?thesis by (simp add: record_get_def)
qed

lemma frame_rows_keys: "row \<in> set (frame_rows df) \<Longrightarrow> map fst row = columns df"
  by (auto simp: frame_rows_def columns_def comp_def case_prod_beta)

lemma table_row_index:
  assumes "distinct (columns f)" and "''index'' \<notin> set (columns f)" and "row \<in> set (frame_rows f)"
  shows "table_row (''index'' # columns f) row = VNull # map snd row"
proof -
  from assms(3) have k: "map fst row = columns f" by (rule frame_rows_keys)
  with assms(2) have "record_get row ''index'' = VNull" by (simp add: record_get_absent)
  moreover from assms(1) k have "map (record_get row) (columns f) = map snd row"
    using record_get_keys [of row] by simp
  ultimately show ?thesis by (simp add: table_row_def)
qed

lemma reset_table_pg_eq [simp]: "reset_table_pg = reset_table"
  by (simp add: fun_eq_iff reset_table_pg_def reset_table_def)

end
