(* ===== verification/BigQuery.thy ===== *)
theory BigQuery
  imports Sinks
begin

text \<open>
  The BigQuery loader, \<open>src/export_bigquery.py\<close>: after a Parquet export
  \<open>process_jsonl.py\<close> calls \<open>export_parquet_to_bigquery\<close>, which connects
  (credentials, project and dataset from the environment, the dataset and the
  table created when missing) and loads the files one by one. The service is
  part of the world: whether a client can be built, and which load jobs fail.
  Every function returns the world it leaves and its result or the exception
  it lets escape.
\<close>

section \<open>Schemas and connection\<close>

text \<open>\<open>get_schema\<close> (lines 13--35).\<close>

definition get_schema :: "string \<Rightarrow> bqschema" where
  "get_schema table_name =
     (if table_name = ''meta'' then
        [(''parent_asin'', BqString), (''title'', BqString), (''main_category'', BqString),
         (''average_rating'', BqFloat), (''rating_number'', BqInteger)]
      else if table_name = ''books'' then []
      else
        [(''parent_asin'', BqString), (''verified_purchase'', BqBoolean), (''rating'', BqFloat),
         (''helpful_vote'', BqInteger), (''user_id'', BqString), (''review_date'', BqTimestamp)])"

text \<open>A table reference: the dataset and the table name.\<close>

type_synonym table_ref = "string \<times> string"

definition bq_tables :: "world \<Rightarrow> string \<Rightarrow> (string \<times> bqtable) list" where
  "bq_tables w ds = (case map_of (w_bq w) ds of None \<Rightarrow> [] | Some ts \<Rightarrow> ts)"

text \<open>
  \<open>connect_bigquery\<close> (lines 37--94). A missing credentials variable or file,
  or a client that cannot be built, gives \<open>(None, None, None)\<close>; a missing
  \<open>GC_PROJECT_NAME\<close> or \<open>BQ_DATASET\<close> raises \<open>KeyError\<close> (\<open>os.environ[...]\<close>
  outside any \<open>try\<close>). A missing dataset is created, then a missing table with
  the table's schema; both creations succeed in the model.
\<close>

definition connect_bigquery ::
  "string \<Rightarrow> world \<Rightarrow> world \<times> (table_ref \<times> bqschema) option exc" where
  "connect_bigquery table_name w =
     (case map_of (w_env w) ''GOOGLE_APPLICATION_CREDENTIALS'' of
        None \<Rightarrow> (w, Inr None)
      | Some cred \<Rightarrow>
          if map_of (w_files w) cred = None then (w, Inr None)
          else
            (case map_of (w_env w) ''GC_PROJECT_NAME'' of
               None \<Rightarrow> (w, Inl (KeyError ''GC_PROJECT_NAME''))
             | Some project_name \<Rightarrow>
                 (case map_of (w_env w) ''BQ_DATASET'' of
                    None \<Rightarrow> (w, Inl (KeyError ''BQ_DATASET''))
                  | Some ds \<Rightarrow>
                      let schema = get_schema table_name in
                      if \<not> w_bq_client_ok w then (w, Inr None)
                      else
                        let ts = bq_tables w ds;
                            ts' = (case map_of ts table_name of
                                     None \<Rightarrow> AList.update table_name \<lparr>bq_schema = schema, bq_rows = []\<rparr> ts
                                   | Some _ \<Rightarrow> ts)
                        in (w\<lparr>w_bq := AList.update ds ts' (w_bq w)\<rparr>,
                            Inr (Some ((ds, table_name), schema))))))"

section \<open>Loading\<close>

text \<open>
  One load job (lines 117--128): it fails for a file the service rejects, for
  a file that is not Parquet, and for a table that does not exist; otherwise
  the file's rows are appended (\<open>WRITE_APPEND\<close>).
\<close>

definition bq_load :: "table_ref \<Rightarrow> string \<Rightarrow> fcontent \<Rightarrow> world \<Rightarrow> world option" where
  "bq_load ref f c w =
     (let (ds, t) = ref in
      if f \<in> set (w_bq_fail w) then None
      else (case (c, map_of (bq_tables w ds) t) of
              (FParquet df, Some tb) \<Rightarrow>
                Some (w\<lparr>w_bq := AList.update ds
                        (AList.update t (tb\<lparr>bq_rows := bq_rows tb @ frame_rows df\<rparr>) (bq_tables w ds))
                        (w_bq w)\<rparr>)
            | _ \<Rightarrow> None))"

text \<open>
  \<open>export_data_to_bigquery\<close> (lines 96--130): names not ending in
  \<open>parquet\<close> are skipped; \<open>open\<close> a missing file raises \<open>FileNotFoundError\<close>
  outside the \<open>try\<close>; the first failed job returns 1.
\<close>

fun export_data_to_bigquery :: "table_ref \<Rightarrow> string list \<Rightarrow> world \<Rightarrow> world \<times> int exc" where
  "export_data_to_bigquery ref [] w = (w, Inr 0)"
| "export_data_to_bigquery ref (f # fs) w =
     (if \<not> py_endswith f ''parquet'' then export_data_to_bigquery ref fs w
      else (case map_of (w_files w) f of
              None \<Rightarrow> (w, Inl (OSError ''No such file or directory''))
            | Some c \<Rightarrow>
                (case bq_load ref f c w of
                   None \<Rightarrow> (w, Inr 1)
                 | Some w' \<Rightarrow> export_data_to_bigquery ref fs w')))"

text \<open>
  \<open>export_parquet_to_bigquery\<close> (lines 132--147): 1 when the connection
  fails; otherwise the loads run, their result is dropped, and 0 is returned.
\<close>

definition export_parquet_to_bigquery ::
  "string \<Rightarrow> string list \<Rightarrow> string \<Rightarrow> world \<Rightarrow> world \<times> int exc" where
  "export_parquet_to_bigquery table_name file_list description w =
     (case connect_bigquery table_name w of
        (w1, Inl e) \<Rightarrow> (w1, Inl e)
      | (w1, Inr None) \<Rightarrow> (w1, Inr 1)
      | (w1, Inr (Some (ref, schema))) \<Rightarrow>
          (case export_data_to_bigquery ref file_list w1 of
             (w2, Inl e) \<Rightarrow> (w2, Inl e)
           | (w2, Inr _) \<Rightarrow> (w2, Inr 0)))"

text \<open>
  A world for the witnesses: two one-row Parquet exports on disk and an empty
  table \<open>amazon.reviews\<close>.
\<close>

definition sample_bq_world :: world where
  "sample_bq_world =
     \<lparr>w_files = [(''data/x-01.parquet'', FParquet \<lparr>nrows = 1, cols = [(''parent_asin'', [VStr ''B01''])]\<rparr>),
                (''data/x-02.parquet'', FParquet \<lparr>nrows = 1, cols = [(''parent_asin'', [VStr ''B02''])]\<rparr>)],
      w_env = [], w_pg = [], w_pg_up = False,
      w_bq = [(''amazon'', [(''reviews'', \<lparr>bq_schema = get_schema ''reviews'', bq_rows = []\<rparr>)])],
      w_bq_client_ok = True, w_bq_fail = [], w_engine_fail = []\<rparr>"

section \<open>Properties of the loader\<close>

lemma bq_tables_update [simp]:
  "bq_tables (w\<lparr>w_bq := AList.update ds ts (w_bq w)\<rparr>) ds = ts"
  by (simp add: bq_tables_def update_conv')

lemma bq_load_ok:
  assumes "f \<notin> set (w_bq_fail w)" and "map_of (bq_tables w ds) t = Some tb"
  shows "bq_load (ds, t) f (FParquet df) w =
           Some (w\<lparr>w_bq := AList.update ds
                   (AList.update t (tb\<lparr>bq_rows := bq_rows tb @ frame_rows df\<rparr>) (bq_tables w ds))
                   (w_bq w)\<rparr>)"
  using assms by (simp add: bq_load_def)

lemma export_data_prefix:
  assumes "list_all (\<lambda>f. py_endswith f ''parquet'' \<and> f \<notin> set (w_bq_fail w)) pre"
    and "list_all2 (\<lambda>f df. map_of (w_files w) f = Some (FParquet df)) pre dfs"
    and "map_of (bq_tables w ds) t = Some tb"
  shows "\<exists>w'. (\<forall>rest. export_data_to_bigquery (ds, t) (pre @ rest) w =
                         export_data_to_bigquery (ds, t) rest w') \<and>
           w_files w' = w_files w \<and> w_bq_fail w' = w_bq_fail w \<and>
           map_of (bq_tables w' ds) t = Some (tb\<lparr>bq_rows := bq_rows tb @ concat (map frame_rows dfs)\<rparr>)"
  using assms
proof (induction pre arbitrary: dfs w tb)
  case Nil
  then show ?case by (intro exI [of _ w]) simp
next
  case (Cons f pre)
  from Cons.prems(2) obtain df dfs' where dfs: "dfs = df # dfs'"
    and fdf: "map_of (w_files w) f = Some (FParquet df)"
    and rest: "list_all2 (\<lambda>f df. map_of (w_files w) f = Some (FParquet df)) pre dfs'"
    by (auto simp: list_all2_Cons1)
  let ?tb1 = "tb\<lparr>bq_rows := bq_rows tb @ frame_rows df\<rparr>"
  let ?w1 = "w\<lparr>w_bq := AList.update ds (AList.update t ?tb1 (bq_tables w ds)) (w_bq w)\<rparr>"
  from Cons.prems(1) have ok: "py_endswith f ''parquet''" "f \<notin> set (w_bq_fail w)" by simp_all
  have ld: "bq_load (ds, t) f (FParquet df) w = Some ?w1" by (rule bq_load_ok [OF ok(2) Cons.prems(3)])
  have "list_all (\<lambda>f. py_endswith f ''parquet'' \<and> f \<notin> set (w_bq_fail ?w1)) pre"
    using Cons.prems(1) by simp
  moreover have "list_all2 (\<lambda>f df. map_of (w_files ?w1) f = Some (FParquet df)) pre dfs'"
    using rest by simp
  moreover have "map_of (bq_tables ?w1 ds) t = Some ?tb1" by (simp add: update_conv')
  ultimately obtain w' where
    "\<forall>rest. export_data_to_bigquery (ds, t) (pre @ rest) ?w1 = export_data_to_bigquery (ds, t) rest w'"
    "w_files w' = w_files ?w1" "w_bq_fail w' = w_bq_fail ?w1"
    "map_of (bq_tables w' ds) t = Some (?tb1\<lparr>bq_rows := bq_rows ?tb1 @ concat (map frame_rows dfs')\<rparr>)"
    using Cons.IH by blast
  with ok ld fdf dfs show ?case by (intro exI [of _ w']) simp
qed

text \<open>
  C17. \<open>export_parquet_to_bigquery\<close> returns 1 exactly when the connection
  fails: a load job that fails makes \<open>export_data_to_bigquery\<close> return 1,
  and that result is dropped.
\<close>

theorem export_parquet_result:
  "snd (export_parquet_to_bigquery table_name files description w) = Inr 1 \<longleftrightarrow>
   snd (connect_bigquery table_name w) = Inr None"
  by (auto simp: export_parquet_to_bigquery_def split: prod.splits sum.splits option.splits)

text \<open>
  C18. Loading into an existing table: when every listed file is a Parquet
  export present on disk and no job is rejected, \<open>export_data_to_bigquery\<close>
  returns 0 and the table gains the rows of all the files, in the order of
  the list.
\<close>

theorem export_data_loads_all:
  assumes "list_all (\<lambda>f. py_endswith f ''parquet'' \<and> f \<notin> set (w_bq_fail w)) files"
    and "list_all2 (\<lambda>f df. map_of (w_files w) f = Some (FParquet df)) files dfs"
    and "map_of (bq_tables w ds) t = Some tb"
  shows "\<exists>w'. export_data_to_bigquery (ds, t) files w = (w', Inr 0) \<and>
           map_of (bq_tables w' ds) t = Some (tb\<lparr>bq_rows := bq_rows tb @ concat (map frame_rows dfs)\<rparr>)"
  using assms
proof (induction files arbitrary: dfs w tb)
  case Nil
  then show ?case by simp
next
  case (Cons f files)
  from Cons.prems(2) obtain df dfs' where dfs: "dfs = df # dfs'"
    and fdf: "map_of (w_files w) f = Some (FParquet df)"
    and rest: "list_all2 (\<lambda>f df. map_of (w_files w) f = Some (FParquet df)) files dfs'"
    by (auto simp: list_all2_Cons1)
  let ?tb1 = "tb\<lparr>bq_rows := bq_rows tb @ frame_rows df\<rparr>"
  let ?w1 = "w\<lparr>w_bq := AList.update ds (AList.update t ?tb1 (bq_tables w ds)) (w_bq w)\<rparr>"
  from Cons.prems(1) have ok: "py_endswith f ''parquet''" "f \<notin> set (w_bq_fail w)" by simp_all
  from bq_load_ok [OF ok(2) Cons.prems(3)] have ld: "bq_load (ds, t) f (FParquet df) w = Some ?w1" .
  have "list_all (\<lambda>f. py_endswith f ''parquet'' \<and> f \<notin> set (w_bq_fail ?w1)) files"
    using Cons.prems(1) by simp
  moreover have "list_all2 (\<lambda>f df. map_of (w_files ?w1) f = Some (FParquet df)) files dfs'"
    using rest by simp
  moreover have "map_of (bq_tables ?w1 ds) t = Some ?tb1" by (simp add: update_conv')
  ultimately obtain w' where
    "export_data_to_bigquery (ds, t) files ?w1 = (w', Inr 0)"
    "map_of (bq_tables w' ds) t = Some (?tb1\<lparr>bq_rows := bq_rows ?tb1 @ concat (map frame_rows dfs')\<rparr>)"
    using Cons.IH by blast
  with ok ld fdf dfs show ?case by simp
qed

theorem export_data_loads_all_witness:
  "list_all (\<lambda>f. py_endswith f ''parquet'' \<and> f \<notin> set (w_bq_fail sample_bq_world))
     [''data/x-01.parquet'', ''data/x-02.parquet''] \<and>
   list_all2 (\<lambda>f df. map_of (w_files sample_bq_world) f = Some (FParquet df))
     [''data/x-01.parquet'', ''data/x-02.parquet'']
     [\<lparr>nrows = 1, cols = [(''parent_asin'', [VStr ''B01''])]\<rparr>,
      \<lparr>nrows = 1, cols = [(''parent_asin'', [VStr ''B02''])]\<rparr>] \<and>
   map_of (bq_tables sample_bq_world ''amazon'') ''reviews'' =
     Some \<lparr>bq_schema = get_schema ''reviews'', bq_rows = []\<rparr> \<and>
   (\<exists>w'. export_data_to_bigquery (''amazon'', ''reviews'') [''data/x-01.parquet'', ''data/x-02.parquet'']
            sample_bq_world = (w', Inr 0) \<and>
      map_of (bq_tables w' ''amazon'') ''reviews'' =
        Some \<lparr>bq_schema = get_schema ''reviews'',
              bq_rows = concat (map frame_rows
                [\<lparr>nrows = 1, cols = [(''parent_asin'', [VStr ''B01''])]\<rparr>,
                 \<lparr>nrows = 1, cols = [(''parent_asin'', [VStr ''B02''])]\<rparr>])\<rparr>)"
proof -
  have h1: "list_all (\<lambda>f. py_endswith f ''parquet'' \<and> f \<notin> set (w_bq_fail sample_bq_world))
     [''data/x-01.parquet'', ''data/x-02.parquet'']" by code_simp
  have h2: "list_all2 (\<lambda>f df. map_of (w_files sample_bq_world) f = Some (FParquet df))
     [''data/x-01.parquet'', ''data/x-02.parquet'']
     [\<lparr>nrows = 1, cols = [(''parent_asin'', [VStr ''B01''])]\<rparr>,
      \<lparr>nrows = 1, cols = [(''parent_asin'', [VStr ''B02''])]\<rparr>]"
    by (simp add: sample_bq_world_def)
  have h3: "map_of (bq_tables sample_bq_world ''amazon'') ''reviews'' =
     Some \<lparr>bq_schema = get_schema ''reviews'', bq_rows = []\<rparr>"
    by (simp add: sample_bq_world_def bq_tables_def)
  from export_data_loads_all [OF h1 h2 h3] obtain w' where
    e: "export_data_to_bigquery (''amazon'', ''reviews'') [''data/x-01.parquet'', ''data/x-02.parquet'']
          sample_bq_world = (w', Inr 0)" and
    m: "map_of (bq_tables w' ''amazon'') ''reviews'' =
          Some (\<lparr>bq_schema = get_schema ''reviews'', bq_rows = []\<rparr>\<lparr>bq_rows :=
            bq_rows \<lparr>bq_schema = get_schema ''reviews'', bq_rows = []\<rparr> @ concat (map frame_rows
              [\<lparr>nrows = 1, cols = [(''parent_asin'', [VStr ''B01''])]\<rparr>,
               \<lparr>nrows = 1, cols = [(''parent_asin'', [VStr ''B02''])]\<rparr>])\<rparr>)"
    by blast
  from m have m': "map_of (bq_tables w' ''amazon'') ''reviews'' =
        Some \<lparr>bq_schema = get_schema ''reviews'',
              bq_rows = concat (map frame_rows
                [\<lparr>nrows = 1, cols = [(''parent_asin'', [VStr ''B01''])]\<rparr>,
                 \<lparr>nrows = 1, cols = [(''parent_asin'', [VStr ''B02''])]\<rparr>])\<rparr>"
    by simp
  from h1 h2 h3 e m' show ?thesis by (intro conjI exI [of _ w'])
qed

text \<open>
  C27. A rejected load job stops the loader: when the files before it are
  Parquet exports on disk whose jobs succeed, and the next Parquet file is on
  disk but its job is rejected, \<open>export_data_to_bigquery\<close> returns 1; the
  table holds the rows of exactly the files before it, and no file after it
  is loaded.
\<close>

theorem export_data_stops_at_rejected:
  assumes "list_all (\<lambda>f. py_endswith f ''parquet'' \<and> f \<notin> set (w_bq_fail w)) pre"
    and "list_all2 (\<lambda>f df. map_of (w_files w) f = Some (FParquet df)) pre dfs"
    and "map_of (bq_tables w ds) t = Some tb"
    and "py_endswith bad ''parquet''" and "bad \<in> set (w_bq_fail w)"
    and "map_of (w_files w) bad = Some c"
  shows "\<exists>w'. export_data_to_bigquery (ds, t) (pre @ bad # post) w = (w', Inr 1) \<and>
           map_of (bq_tables w' ds) t = Some (tb\<lparr>bq_rows := bq_rows tb @ concat (map frame_rows dfs)\<rparr>)"
proof -
  from export_data_prefix [OF assms(1-3)] obtain w' where
    e: "\<forall>rest. export_data_to_bigquery (ds, t) (pre @ rest) w = export_data_to_bigquery (ds, t) rest w'"
    and fs: "w_files w' = w_files w" "w_bq_fail w' = w_bq_fail w"
    and m: "map_of (bq_tables w' ds) t = Some (tb\<lparr>bq_rows := bq_rows tb @ concat (map frame_rows dfs)\<rparr>)"
    by blast
  have "export_data_to_bigquery (ds, t) (bad # post) w' = (w', Inr 1)"
    using assms(4-6) fs by (simp add: bq_load_def)
  with e m show ?thesis by auto
qed

theorem export_data_stops_at_rejected_witness:
  "\<exists>w'. export_data_to_bigquery (''amazon'', ''reviews'')
           [''data/x-01.parquet'', ''data/x-02.parquet'', ''data/x-01.parquet'']
           (sample_bq_world\<lparr>w_bq_fail := [''data/x-02.parquet'']\<rparr>) = (w', Inr 1) \<and>
      map_of (bq_tables w' ''amazon'') ''reviews'' =
        Some \<lparr>bq_schema = get_schema ''reviews'',
              bq_rows = frame_rows \<lparr>nrows = 1, cols = [(''parent_asin'', [VStr ''B01''])]\<rparr>\<rparr>"
  using export_data_stops_at_rejected
    [where pre = "[''data/x-01.parquet'']"
       and w = "sample_bq_world\<lparr>w_bq_fail := [''data/x-02.parquet'']\<rparr>"
       and dfs = "[\<lparr>nrows = 1, cols = [(''parent_asin'', [VStr ''B01''])]\<rparr>]"
       and ds = "''amazon''" and t = "''reviews''"
       and tb = "\<lparr>bq_schema = get_schema ''reviews'', bq_rows = []\<rparr>"
       and bad = "''data/x-02.parquet''"
       and c = "FParquet \<lparr>nrows = 1, cols = [(''parent_asin'', [VStr ''B02''])]\<rparr>"
       and post = "[''data/x-01.parquet'']"]
  by (simp add: sample_bq_world_def bq_tables_def py_endswith_def)

end
