(* ===== verification/Driver.thy ===== *)
theory Driver
  imports Transform BigQuery
begin

text \<open>
  The pipeline drivers: \<open>main\<close> of \<open>src/process_jsonl.py\<close> (modes \<open>postgres\<close>,
  \<open>parquet\<close>, \<open>sample\<close>) and \<open>main\<close> of \<open>src/jsonl_postgres.py\<close>. Both
  validate their inputs, build the table profile, open the chunk source and
  run \<open>for chunk in chunks\<close>; the loop is \<open>run_loop\<close>, one definition for both
  scripts, driven by the script's body for one chunk (\<open>chunk_step\<close>,
  \<open>chunk_step_pg\<close>). A body ends in one of three ways: an exception escapes
  (\<open>Raise\<close>), \<open>main\<close> returns (\<open>Return\<close>), or the loop goes on with its
  accumulator (\<open>Continue\<close>: the export list of \<open>process_jsonl.py\<close>, whether a
  chunk has been appended in \<open>jsonl_postgres.py\<close>). The result of a run is the
  world it leaves, the transformer's log, and the exit code or the exception.
\<close>

section \<open>The chunk loop\<close>

datatype 'a step_out = Raise exn | Return int | Continue 'a

type_synonym 'a step = "nat \<Rightarrow> frame \<Rightarrow> 'a \<Rightarrow> world \<Rightarrow> world \<times> log \<times> 'a step_out"

text \<open>
  \<open>i = 0\<close> before the loop and \<open>i += 1\<close> at the top of its body: the body of
  the \<open>k\<close>-th chunk runs with \<open>i = k\<close>.
\<close>

fun run_loop :: "'a step \<Rightarrow> nat \<Rightarrow> 'a \<Rightarrow> frame list \<Rightarrow> world \<Rightarrow> world \<times> log \<times> 'a step_out" where
  "run_loop step i acc [] w = (w, [], Continue acc)"
| "run_loop step i acc (df # dfs) w =
     (case step (Suc i) df acc w of
        (w1, l1, Continue acc1) \<Rightarrow>
          (case run_loop step (Suc i) acc1 dfs w1 of (w2, l2, r) \<Rightarrow> (w2, l1 @ l2, r))
      | (w1, l1, r) \<Rightarrow> (w1, l1, r))"

section \<open>The chunk source on the world\<close>

text \<open>
  \<open>pd.read_json(jsonl_name, lines=True, chunksize=chunksize, dtype=dtypes)\<close>:
  the chunk size is validated first, then the file is opened; a file that is
  not line-delimited JSON fails to decode.
\<close>

definition read_json :: "string \<Rightarrow> int \<Rightarrow> world \<Rightarrow> frame list exc" where
  "read_json path chunksize w =
     (if chunksize < 1 then Inl (ValueError ''chunksize must be an integer >=1'')
      else (case map_of (w_files w) path of
              None \<Rightarrow> Inl (OSError ''File does not exist'')
            | Some (FJsonl rs) \<Rightarrow> read_json_chunks chunksize rs
            | Some _ \<Rightarrow> Inl (ValueError ''Expected object or value'')))"

section \<open>process\_jsonl.py\<close>

text \<open>What the loop body reads from \<open>main\<close>'s locals.\<close>

record cfg =
  c_source :: string
  c_table :: string
  c_mode :: string
  c_reset :: "string option"
  c_engine :: bool
  c_final :: "string list"
  c_rules :: rules
  c_extra :: "(string \<times> string) list"

text \<open>\<open>reset and reset.lower()=='true'\<close>.\<close>

definition reset_requested :: "string option \<Rightarrow> bool" where
  "reset_requested r = (case r of None \<Rightarrow> False | Some s \<Rightarrow> s \<noteq> [] \<and> py_lower s = ''true'')"

text \<open>
  Lines 354--371, the PostgreSQL branch of the body: on the first chunk with
  \<open>--reset true\<close> the table is reset (the call reads \<open>engine\<close>, unbound unless
  the mode is \<open>postgres\<close>), then the chunk is appended; an exception of the
  append, an unbound \<open>engine\<close> included, is caught and returns 1.
\<close>

definition pg_sink :: "cfg \<Rightarrow> nat \<Rightarrow> frame \<Rightarrow> 'a \<Rightarrow> log \<Rightarrow> world \<Rightarrow> world \<times> log \<times> 'a step_out" where
  "pg_sink c i df acc l w =
     (let append = (\<lambda>w. if \<not> c_engine c then (w, l, Return 1)
                        else (case pg_append (c_table c) df w of
                                Inl e \<Rightarrow> (w, l, Return 1)
                              | Inr w' \<Rightarrow> (w', l, Continue acc)))
      in if i = 1 \<and> reset_requested (c_reset c) then
           (if \<not> c_engine c then (w, l, Raise (UnboundLocalError ''engine''))
            else (case reset_table (c_table c) df w of
                    (False, w') \<Rightarrow> (w', l, Return 1)
                  | (True, w') \<Rightarrow> append w'))
         else append w)"

text \<open>
  The body of the loop (lines 284--371): pre-processing, the first sample,
  transformation \#2, the projection on the final columns (whose failure
  returns 1), the second sample and return in \<open>sample\<close> mode, the Parquet
  export, or the PostgreSQL branch.
\<close>

definition chunk_step :: "cfg \<Rightarrow> string list step" where
  "chunk_step c i df exports w =
     (case prepare_chunk (c_table c) df of
        Inl e \<Rightarrow> (w, [], Raise e)
      | Inr (df1, l1) \<Rightarrow>
          (let w1 = (if i = 1 \<and> c_mode c = SAMPLE
                     then to_csv (c_source c @ ''_0.csv'') (head SAMPLE_SIZE df1) w else w)
           in case clean_chunk (c_table c) (c_rules c) (c_extra c) df1 of
                Inl e \<Rightarrow> (w1, l1, Raise e)
              | Inr (df2, l2) \<Rightarrow>
                  (case select df2 (c_final c) of
                     Inl e \<Rightarrow> (w1, l1 @ l2, Return 1)
                   | Inr df3 \<Rightarrow>
                       if i = 1 \<and> c_mode c = SAMPLE
                       then (to_csv (c_source c @ ''_1.csv'') (head SAMPLE_SIZE df3) w1, l1 @ l2, Return 0)
                       else if c_mode c = PARQUET
                       then (case export_data_to_parquet df3 (parquet_name (c_source c) i) exports w1 of
                               (exports', w2) \<Rightarrow> (w2, l1 @ l2, Continue exports'))
                       else pg_sink c i df3 exports (l1 @ l2) w1)))"

text \<open>
  \<open>main\<close> (lines 232--381): the checks of the file name and of the
  parameters return 1; \<open>final_columns\<close> and \<open>get_category_transformation\<close>
  may raise; after the loop, in \<open>parquet\<close> mode, the export list goes to
  BigQuery and the loader's result is not looked at. In \<open>postgres\<close> mode a
  URL \<open>create_engine\<close> rejects returns 1 (lines 250--257).
\<close>

text \<open>
  The URL both scripts build with an f-string: \<open>postgresql://\<close>, then the
  user, \<open>:\<close>, the password, an at sign, the host, \<open>:\<close>, the port, \<open>/\<close>
  and the database; an absent argument is formatted as \<open>None\<close>.
\<close>

definition py_fstr :: "string option \<Rightarrow> string" where
  "py_fstr v = (case v of None \<Rightarrow> ''None'' | Some s \<Rightarrow> s)"

definition engine_url :: "params \<Rightarrow> string" where
  "engine_url ps =
     ''postgresql://'' @ py_fstr (p_user ps) @ '':'' @ py_fstr (p_password ps) @ ''@'' @
     py_fstr (p_host ps) @ '':'' @ py_fstr (p_port ps) @ ''/'' @ py_fstr (p_db ps)"

text \<open>
  The locals of \<open>main\<close> the loop body reads (lines 233--275): the command
  line, whether \<open>engine\<close> was bound (only in \<open>postgres\<close> mode), the final
  columns, the rule table and the extra columns of the table profile.
\<close>

definition main_cfg :: "params \<Rightarrow> string \<Rightarrow> string list \<Rightarrow> rules \<Rightarrow> cfg" where
  "main_cfg ps file_name final rules =
     \<lparr>c_source = p_source ps, c_table = p_table_name ps, c_mode = p_mode ps,
      c_reset = p_reset ps, c_engine = (p_mode ps = POSTGRES), c_final = final,
      c_rules = rules, c_extra = get_extra_detail_columns (p_table_name ps) file_name\<rparr>"

definition main :: "params \<Rightarrow> world \<Rightarrow> world \<times> log \<times> int exc" where
  "main ps w =
     (let jsonl_name = p_source ps; table_name = p_table_name ps; mode = p_mode ps;
          file_name = check_file_name jsonl_name table_name
      in if file_name = [] then (w, [], Inr 1)
      else if \<not> check_params mode ps then (w, [], Inr 1)
      else if mode = POSTGRES \<and> isl (create_engine (engine_url ps) w) then (w, [], Inr 1)
      else
        (case final_columns table_name file_name of
           Inl e \<Rightarrow> (w, [], Inl e)
         | Inr final \<Rightarrow>
             (case get_category_transformation table_name file_name of
                Inl e \<Rightarrow> (w, [], Inl e)
              | Inr rules \<Rightarrow>
                  (case read_json jsonl_name (p_chunksize ps) w of
                     Inl e \<Rightarrow> (w, [], Inl e)
                   | Inr chunks \<Rightarrow>
                       (case run_loop (chunk_step (main_cfg ps file_name final rules)) 0 [] chunks w of
                          (w1, l, Raise e) \<Rightarrow> (w1, l, Inl e)
                        | (w1, l, Return k) \<Rightarrow> (w1, l, Inr k)
                        | (w1, l, Continue exports) \<Rightarrow>
                            if mode = PARQUET then
                              (case export_parquet_to_bigquery table_name exports file_name w1 of
                                 (w2, Inl e) \<Rightarrow> (w2, l, Inl e)
                               | (w2, Inr _) \<Rightarrow> (w2, l, Inr 0))
                            else (w1, l, Inr 0))))))"

section \<open>jsonl\_postgres.py\<close>

text \<open>
  Lines 269--282, the PostgreSQL part of the body: \<open>engine\<close> is always
  bound here; with \<open>--reset true\<close> the first chunk resets the table with this
  file's \<open>reset_table\<close>, then the chunk is appended and a failure returns 1.
\<close>

definition pg_sink_pg :: "cfg \<Rightarrow> nat \<Rightarrow> frame \<Rightarrow> 'a \<Rightarrow> log \<Rightarrow> world \<Rightarrow> world \<times> log \<times> 'a step_out" where
  "pg_sink_pg c i df acc l w =
     (let append = (\<lambda>w. case pg_append (c_table c) df w of
                          Inl e \<Rightarrow> (w, l, Return 1)
                        | Inr w' \<Rightarrow> (w', l, Continue acc))
      in if reset_requested (c_reset c) \<and> i = 1 then
           (case reset_table_pg (c_table c) df w of
              (False, w') \<Rightarrow> (w', l, Return 1)
            | (True, w') \<Rightarrow> append w')
         else append w)"

text \<open>
  The body of the loop (lines 231--286): pre-processing and renaming, the
  projection on the selected columns (whose failure returns 1),
  \<open>transform_meta\<close>, the reset on the first chunk, the append. The
  accumulator records that an iteration reached \<open>t_end = time()\<close>.
\<close>

definition chunk_step_pg :: "cfg \<Rightarrow> bool step" where
  "chunk_step_pg c i df appended w =
     (case prepare_chunk_pg (c_table c) df of
        (df1, l1) \<Rightarrow>
          (case select df1 (c_final c) of
             Inl e \<Rightarrow> (w, l1, Return 1)
           | Inr df2 \<Rightarrow>
               (case clean_chunk_pg (c_table c) (c_rules c) df2 of
                  Inl e \<Rightarrow> (w, l1, Raise e)
                | Inr (df3, l2) \<Rightarrow> pg_sink_pg c i df3 True (l1 @ l2) w)))"

text \<open>\<open>CHUNKSIZE\<close> of \<open>jsonl_postgres.py\<close> (line 11); this script has no \<open>--chunksize\<close>.\<close>

definition CHUNKSIZE_pg :: nat where "CHUNKSIZE_pg = 50000"

text \<open>
  \<open>main\<close> (lines 195--288): a URL \<open>create_engine\<close> rejects returns 1
  (lines 209--214); after the loop the final message reads \<open>t_end\<close>,
  a local bound only inside the loop, so a file without records raises
  \<open>UnboundLocalError\<close>; otherwise \<open>main\<close> falls off its end and returns
  \<open>None\<close>.
\<close>

definition main_pg :: "params \<Rightarrow> world \<Rightarrow> world \<times> log \<times> int option exc" where
  "main_pg ps w =
     (let jsonl_name = p_source ps; table_name = p_table_name ps;
          file_name = check_file_name_pg jsonl_name table_name
      in if file_name = [] then (w, [], Inr (Some 1))
      else if isl (create_engine (engine_url ps) w) then (w, [], Inr (Some 1))
      else
        (case read_json jsonl_name (int CHUNKSIZE_pg) w of
           Inl e \<Rightarrow> (w, [], Inl e)
         | Inr chunks \<Rightarrow>
             (let c = \<lparr>c_source = jsonl_name, c_table = table_name, c_mode = POSTGRES,
                       c_reset = p_reset ps, c_engine = True,
                       c_final = get_selected_columns_pg table_name,
                       c_rules = get_category_transformation_pg table_name file_name, c_extra = []\<rparr>
              in case run_loop (chunk_step_pg c) 0 False chunks w of
                   (w1, l, Raise e) \<Rightarrow> (w1, l, Inl e)
                 | (w1, l, Return k) \<Rightarrow> (w1, l, Inr (Some k))
                 | (w1, l, Continue False) \<Rightarrow> (w1, l, Inl (UnboundLocalError ''t_end''))
                 | (w1, l, Continue True) \<Rightarrow> (w1, l, Inr None))))"

section \<open>Abstract view of a run\<close>

text \<open>
  The frame a chunk becomes before it reaches a sink (pre-processing,
  transformation \#2 and the projection), when none of them fails; and whether
  a loop body let the loop go on.
\<close>

definition transform_chunk :: "cfg \<Rightarrow> frame \<Rightarrow> frame option" where
  "transform_chunk c df =
     (case prepare_chunk (c_table c) df of
        Inl e \<Rightarrow> None
      | Inr (df1, l1) \<Rightarrow>
          (case clean_chunk (c_table c) (c_rules c) (c_extra c) df1 of
             Inl e \<Rightarrow> None
           | Inr (df2, l2) \<Rightarrow> (case select df2 (c_final c) of Inl e \<Rightarrow> None | Inr df3 \<Rightarrow> Some df3)))"

fun is_continue :: "'a step_out \<Rightarrow> bool" where
  "is_continue (Continue a) = True"
| "is_continue _ = False"

section \<open>Sample inputs\<close>

text \<open>
  Two review lines as \<open>read_json\<close> decodes them, a world holding them in
  \<open>data/Software.jsonl\<close> with a PostgreSQL table \<open>reviews\<close> of the selected
  columns, credentials for BigQuery, and the command line of a run in a given
  mode with \<open>--chunksize 1\<close>; \<open>sample_cfg\<close> is what \<open>main\<close> hands to the loop
  for that command line.
\<close>

definition sample_review_lines :: "json_record list" where
  "sample_review_lines =
     [[(''rating'', VFloat 5), (''parent_asin'', VStr ''B01''), (''user_id'', VStr ''U1''),
       (''timestamp'', VTime Ns 1588687728923000000), (''helpful_vote'', VI32 2),
       (''verified_purchase'', VBool True)],
      [(''rating'', VFloat 1), (''parent_asin'', VStr ''B02''), (''user_id'', VStr ''U2''),
       (''timestamp'', VTime Ns 1600000000000000000), (''helpful_vote'', VI32 0),
       (''verified_purchase'', VBool False)]]"

definition sample_world :: world where
  "sample_world =
     \<lparr>w_files = [(''data/Software.jsonl'', FJsonl sample_review_lines), (''creds.json'', FData)],
      w_env = [(''GOOGLE_APPLICATION_CREDENTIALS'', ''creds.json''), (''GC_PROJECT_NAME'', ''proj''),
               (''BQ_DATASET'', ''amazon'')],
      w_pg = [(''reviews'', \<lparr>t_cols = get_selected_columns ''reviews'', t_rows = []\<rparr>)],
      w_pg_up = True, w_bq = [], w_bq_client_ok = True, w_bq_fail = [], w_engine_fail = []\<rparr>"

definition sample_params :: "string \<Rightarrow> params" where
  "sample_params mode =
     \<lparr>p_source = ''data/Software.jsonl'', p_table_name = ''reviews'', p_mode = mode,
      p_host = Some ''localhost'', p_port = Some ''5432'', p_db = Some ''amazon'',
      p_user = Some ''user'', p_password = Some ''secret'', p_reset = Some ''False'',
      p_chunksize = 1\<rparr>"

definition sample_cfg :: "string \<Rightarrow> cfg" where
  "sample_cfg mode =
     \<lparr>c_source = ''data/Software.jsonl'', c_table = ''reviews'', c_mode = mode,
      c_reset = Some ''False'', c_engine = (mode = POSTGRES),
      c_final = get_selected_columns ''reviews'', c_rules = [], c_extra = []\<rparr>"

definition sample_chunks :: "frame list" where
  "sample_chunks = map frame_of_records (chunk_split 1 sample_review_lines)"

section \<open>The loop\<close>

lemma run_loop_Cons_E:
  assumes "run_loop step i acc (df # dfs) w = (w', l, r)"
  obtains (cont) w1 l1 acc1 l2 where "step (Suc i) df acc w = (w1, l1, Continue acc1)"
      "run_loop step (Suc i) acc1 dfs w1 = (w', l2, r)" "l = l1 @ l2"
  | (stop) "step (Suc i) df acc w = (w', l, r)" "\<not> is_continue r"
proof -
  obtain w1 l1 r1 where s: "step (Suc i) df acc w = (w1, l1, r1)" by (metis prod_cases3)
  show ?thesis
  proof (cases r1)
    case (Continue acc1)
    obtain w2 l2 r2 where rl: "run_loop step (Suc i) acc1 dfs w1 = (w2, l2, r2)"
      by (metis prod_cases3)
    with assms s Continue have "w' = w2" "l = l1 @ l2" "r = r2" by simp_all
    with s Continue rl show ?thesis by (intro cont) simp_all
  next
    case (Raise e)
    with assms s have "w' = w1" "l = l1" "r = r1" by simp_all
    with s Raise show ?thesis by (intro stop) simp_all
  next
    case (Return k)
    with assms s have "w' = w1" "l = l1" "r = r1" by simp_all
    with s Return show ?thesis by (intro stop) simp_all
  qed
qed

section \<open>The sinks of one chunk\<close>

lemma pg_sink_pg_eq: "c_engine c \<Longrightarrow> pg_sink_pg c = pg_sink c"
  by (simp add: fun_eq_iff pg_sink_pg_def pg_sink_def conj_commute)

lemma pg_append_existing:
  assumes "map_of (w_pg w) n = Some t" and "pg_append n f w = Inr w'"
  shows "map_of (w_pg w') n = Some (t\<lparr>t_rows := t_rows t @ map (table_row (t_cols t)) (frame_rows f)\<rparr>)"
  using assms by (auto simp: pg_append_def update_conv' split: if_splits)

lemma mode_names_distinct [simp]:
  "POSTGRES \<noteq> SAMPLE" "POSTGRES \<noteq> PARQUET" "PARQUET \<noteq> SAMPLE"
  "SAMPLE \<noteq> POSTGRES" "PARQUET \<noteq> POSTGRES" "SAMPLE \<noteq> PARQUET"
  by (simp_all add: POSTGRES_def SAMPLE_def PARQUET_def)

lemma chunk_step_postgres:
  assumes "c_mode c = POSTGRES" and "c_engine c" and "\<not> (i = 1 \<and> reset_requested (c_reset c))"
    and "chunk_step c i df ex w = (w', l, r)"
  shows "(\<exists>f. r = Continue ex \<and> transform_chunk c df = Some f \<and> pg_append (c_table c) f w = Inr w') \<or>
         (\<not> is_continue r \<and> w' = w)"
  using assms
  by (auto simp: chunk_step_def transform_chunk_def pg_sink_def split: sum.splits prod.splits)

lemma chunk_step_parquet:
  assumes "c_mode c = PARQUET" and "chunk_step c i df ex w = (w', l, r)"
  shows "(\<exists>f. r = Continue (ex @ [parquet_name (c_source c) i]) \<and> transform_chunk c df = Some f \<and>
              w' = write_file (parquet_name (c_source c) i) (FParquet f) w) \<or>
         (\<not> is_continue r \<and> w' = w)"
  using assms
  by (auto simp: chunk_step_def transform_chunk_def export_data_to_parquet_def
      split: sum.splits prod.splits)

lemma map_of_write_file [simp]:
  "map_of (w_files (write_file n c w)) m = (if m = n then Some c else map_of (w_files w) m)"
  by (simp add: write_file_def update_conv')

lemma parquet_name_eq_iff: "parquet_name s i = parquet_name s j \<longleftrightarrow> i = j"
  by (simp add: parquet_name_def fmt02d_inj)

section \<open>Runs of process\_jsonl.py\<close>

lemma indexed_files_Cons:
  assumes "m (n (Suc i)) = Some (FParquet f)"
    and "\<forall>j < length fs. m (n (Suc (Suc i) + j)) = Some (FParquet (fs ! j))"
  shows "\<forall>j < length (f # fs). m (n (Suc i + j)) = Some (FParquet ((f # fs) ! j))"
proof (intro allI impI)
  fix j assume "j < length (f # fs)"
  with assms show "m (n (Suc i + j)) = Some (FParquet ((f # fs) ! j))" by (cases j) simp_all
qed

lemma upt_shift_Cons: "[Suc i..<Suc i + length (x # xs)] = Suc i # [Suc (Suc i)..<Suc (Suc i) + length xs]"
  by (simp add: upt_conv_Cons del: upt_Suc)

lemma parquet_run_other_files:
  assumes "c_mode c = PARQUET" and "run_loop (chunk_step c) i ex dfs w = (w', l, r)"
    and "\<forall>k > i. n \<noteq> parquet_name (c_source c) k"
  shows "map_of (w_files w') n = map_of (w_files w) n"
  using assms(2,3)
proof (induction dfs arbitrary: i ex w l)
  case Nil
  then show ?case by simp
next
  case (Cons df dfs)
  from Cons.prems(1) show ?case
  proof (cases rule: run_loop_Cons_E)
    case (cont w1 l1 acc1 l2)
    from chunk_step_parquet [OF assms(1) cont(1)] obtain f
      where "w1 = write_file (parquet_name (c_source c) (Suc i)) (FParquet f) w" by auto
    moreover from Cons.prems(2) have "\<forall>k > Suc i. n \<noteq> parquet_name (c_source c) k" by simp
    moreover from Cons.prems(2) have "n \<noteq> parquet_name (c_source c) (Suc i)" by simp
    ultimately show ?thesis using Cons.IH [OF cont(2)] by simp
  next
    case stop
    with chunk_step_parquet [OF assms(1) stop(1)] show ?thesis by auto
  qed
qed



section \<open>Runs of main\<close>

text \<open>Every run of \<open>main\<close> either stops before the loop, leaving the world as it was, or runs the loop.\<close>

lemma main_E:
  assumes "main ps w = (w', l, r)"
  obtains (early) "w' = w"
  | (loop) final rules chunks l1 r1 w1 where
      "check_file_name (p_source ps) (p_table_name ps) \<noteq> []"
      "final_columns (p_table_name ps) (check_file_name (p_source ps) (p_table_name ps)) = Inr final"
      "get_category_transformation (p_table_name ps) (check_file_name (p_source ps) (p_table_name ps)) = Inr rules"
      "read_json (p_source ps) (p_chunksize ps) w = Inr chunks"
      "run_loop (chunk_step (main_cfg ps (check_file_name (p_source ps) (p_table_name ps)) final rules))
         0 [] chunks w = (w1, l1, r1)"
      "w' = w1 \<or> (p_mode ps = PARQUET \<and> (\<exists>ex. r1 = Continue ex \<and>
         w' = fst (export_parquet_to_bigquery (p_table_name ps) ex
                     (check_file_name (p_source ps) (p_table_name ps)) w1)))"
  using assms unfolding main_def Let_def
  by (auto split: if_splits sum.splits prod.splits step_out.splits intro: early loop)

lemma chunk_step_sample:
  assumes "c_mode c = SAMPLE" and "chunk_step c (Suc 0) df ex w = (w', l, r)"
  shows "\<not> is_continue r \<and> w_pg w' = w_pg w \<and> w_bq w' = w_bq w \<and>
         (\<forall>n. n \<noteq> c_source c @ ''_0.csv'' \<and> n \<noteq> c_source c @ ''_1.csv'' \<longrightarrow>
              map_of (w_files w') n = map_of (w_files w) n)"
  using assms
  by (auto simp: chunk_step_def to_csv_def write_file_def update_conv' Let_def split: sum.splits prod.splits)



lemma prepare_chunk_meta: "prepare_chunk ''meta'' df = Inr (preprocess_meta df)"
  by (simp add: prepare_chunk_def split: prod.splits)

lemma transform_chunk_meta_no_rules:
  assumes "c_table c = ''meta''" and "c_rules c = []"
  shows "transform_chunk c df =
           (case select (fst (preprocess_meta df)) (c_final c) of Inl e \<Rightarrow> None | Inr f \<Rightarrow> Some f)"
  using assms
  by (simp add: transform_chunk_def prepare_chunk_meta clean_chunk_def split: prod.splits)


section \<open>The frames that reach a sink\<close>

lemma prepare_chunk_wf:
  assumes "wf_frame df" and "table_name = ''reviews'' \<longrightarrow> distinct (columns (rename_reviews df))"
    and "prepare_chunk table_name df = Inr (df1, l1)"
  shows "wf_frame df1 \<and> nrows df1 = nrows df"
proof (cases "table_name \<in> set [''meta'', ''books'']")
  case True
  with assms(3) have "df1 = fst (preprocess_meta df)"
    by (auto simp: prepare_chunk_def split: prod.splits)
  with wf_preprocess_meta [OF assms(1)] preprocess_meta_shape [of df] show ?thesis
    by (simp add: same_shape_def)
next
  case False
  show ?thesis
  proof (cases "table_name = ''reviews''")
    case True
    with assms(3) have ac: "astype_col ''review_date'' astype_sec (rename_reviews df) = Inr df1"
      by (simp add: prepare_chunk_reviews split: sum.splits)
    from assms(1,2) True have "wf_frame (rename_reviews df)" by (simp add: rename_reviews_def wf_rename)
    with wf_astype_col [OF this ac] astype_col_shape [OF ac] show ?thesis
      by (simp add: same_shape_def rename_reviews_def)
  next
    case False
    with \<open>table_name \<notin> set [''meta'', ''books'']\<close> assms(1,3) show ?thesis
      by (simp add: prepare_chunk_def)
  qed
qed

lemma clean_chunk_wf:
  assumes "wf_frame df1" and "clean_chunk table_name rules extra df1 = Inr (df2, l2)"
  shows "wf_frame df2 \<and> nrows df2 = nrows df1"
proof (cases "table_name = ''meta''")
  case True
  with assms(2) have "transform_meta df1 rules = Inr (df2, l2)" by (simp add: clean_chunk_def)
  from transform_meta_shape [OF this] assms(1) show ?thesis by (simp add: same_shape_def)
next
  case False
  with assms show ?thesis by (auto simp: clean_chunk_def split: sum.splits if_splits)
qed


section \<open>Runs that complete\<close>

lemma pg_append_ok:
  assumes "w_pg_up w" and "map_of (w_pg w) n = Some t" and "set (columns f) \<subseteq> set (t_cols t)"
  shows "pg_append n f w =
           Inr (w\<lparr>w_pg := AList.update n (t\<lparr>t_rows := t_rows t @ map (table_row (t_cols t)) (frame_rows f)\<rparr>)
                  (w_pg w)\<rparr>)"
  using assms by (simp add: pg_append_def)

lemma transform_chunk_columns: "transform_chunk c df = Some f \<Longrightarrow> columns f = c_final c"
  by (auto simp: transform_chunk_def select_shape split: sum.splits prod.splits)

lemma chunk_step_postgres_some:
  assumes "c_mode c = POSTGRES" and "c_engine c" and "\<not> (i = 1 \<and> reset_requested (c_reset c))"
    and "transform_chunk c df = Some f"
  obtains l where "chunk_step c i df ex w =
      (case pg_append (c_table c) f w of Inl e \<Rightarrow> (w, l, Return 1) | Inr w' \<Rightarrow> (w', l, Continue ex))"
  using assms
  by (auto simp: chunk_step_def transform_chunk_def pg_sink_def split: sum.splits prod.splits)

lemma transformed_columns_sub:
  assumes "list_all2 (\<lambda>df f. transform_chunk c df = Some f) dfs fs" and "set (c_final c) \<subseteq> set cs"
  shows "list_all (\<lambda>f. set (columns f) \<subseteq> set cs) fs"
  unfolding list_all_iff
proof
  fix f assume "f \<in> set fs"
  with list_all2_set2 [OF assms(1)] obtain df where "transform_chunk c df = Some f" by blast
  with transform_chunk_columns assms(2) show "set (columns f) \<subseteq> set cs" by simp
qed

lemma postgres_run_complete:
  assumes mode: "c_mode c = POSTGRES" and eng: "c_engine c" and nr: "0 < i \<or> \<not> reset_requested (c_reset c)"
    and "list_all2 (\<lambda>df f. transform_chunk c df = Some f) dfs fs"
    and "list_all (\<lambda>f. set (columns f) \<subseteq> set (t_cols t)) fs"
    and "w_pg_up w" and "map_of (w_pg w) (c_table c) = Some t"
  shows "\<exists>l w'. run_loop (chunk_step c) i ex dfs w = (w', l, Continue ex) \<and> w_pg_up w' \<and>
           map_of (w_pg w') (c_table c) =
             Some (t\<lparr>t_rows := t_rows t @ concat (map (\<lambda>f. map (table_row (t_cols t)) (frame_rows f)) fs)\<rparr>)"
  using nr assms(4-)
proof (induction dfs arbitrary: fs i w t)
  case Nil
  then show ?case by simp
next
  case (Cons df dfs)
  from Cons.prems(2) obtain f fs' where fs: "fs = f # fs'" and tf: "transform_chunk c df = Some f"
    and rest: "list_all2 (\<lambda>df f. transform_chunk c df = Some f) dfs fs'"
    by (auto simp: list_all2_Cons1)
  let ?t1 = "t\<lparr>t_rows := t_rows t @ map (table_row (t_cols t)) (frame_rows f)\<rparr>"
  let ?w1 = "w\<lparr>w_pg := AList.update (c_table c) ?t1 (w_pg w)\<rparr>"
  from Cons.prems(3) fs have sub: "set (columns f) \<subseteq> set (t_cols t)" by simp
  from pg_append_ok [OF Cons.prems(4,5) sub] have ap: "pg_append (c_table c) f w = Inr ?w1" .
  from Cons.prems(1) have "\<not> (Suc i = 1 \<and> reset_requested (c_reset c))" by auto
  from chunk_step_postgres_some [OF mode eng this tf, of ex w] ap
  obtain l1 where st: "chunk_step c (Suc i) df ex w = (?w1, l1, Continue ex)" by auto
  have "list_all (\<lambda>f. set (columns f) \<subseteq> set (t_cols ?t1)) fs'" using Cons.prems(3) fs by simp
  moreover have "w_pg_up ?w1" using Cons.prems(4) by simp
  moreover have "map_of (w_pg ?w1) (c_table c) = Some ?t1" by (simp add: update_conv')
  ultimately obtain l w' where
    "run_loop (chunk_step c) (Suc i) ex dfs ?w1 = (w', l, Continue ex)" "w_pg_up w'"
    "map_of (w_pg w') (c_table c) =
       Some (?t1\<lparr>t_rows := t_rows ?t1 @ concat (map (\<lambda>f. map (table_row (t_cols ?t1)) (frame_rows f)) fs')\<rparr>)"
    using Cons.IH [OF _ rest, of "Suc i"] by blast
  with st fs show ?case by simp
qed

text \<open>
  The first chunk of a run with \<open>--reset true\<close>: the table is recreated with
  the \<open>index\<close> column and the chunk's columns, then the chunk is appended.
\<close>

lemma chunk_step_reset_first:
  assumes mode: "c_mode c = POSTGRES" and eng: "c_engine c" and rs: "reset_requested (c_reset c)"
    and tf: "transform_chunk c df = Some f" and up: "w_pg_up w"
  shows "\<exists>l w1. chunk_step c (Suc 0) df ex w = (w1, l, Continue ex) \<and> w_pg_up w1 \<and>
           map_of (w_pg w1) (c_table c) =
             Some \<lparr>t_cols = index_label (c_final c) # c_final c, t_rows = map (table_row (index_label (c_final c) # c_final c)) (frame_rows f)\<rparr>"
proof -
  from tf have cols: "columns f = c_final c" by (rule transform_chunk_columns)
  from mode tf obtain l where st: "chunk_step c (Suc 0) df ex w = pg_sink c (Suc 0) f ex l w"
    by (auto simp: chunk_step_def transform_chunk_def split: sum.splits prod.splits)
  let ?t0 = "\<lparr>t_cols = index_label (c_final c) # c_final c, t_rows = []\<rparr>"
  let ?w0 = "w\<lparr>w_pg := AList.update (c_table c) ?t0 (w_pg w)\<rparr>"
  have reset: "reset_table (c_table c) f w = (True, ?w0)"
    using up cols by (simp add: reset_table_def pg_replace_empty_def)
  let ?t1 = "\<lparr>t_cols = index_label (c_final c) # c_final c, t_rows = map (table_row (index_label (c_final c) # c_final c)) (frame_rows f)\<rparr>"
  have "pg_append (c_table c) f ?w0 = Inr (w\<lparr>w_pg := AList.update (c_table c) ?t1 (w_pg w)\<rparr>)"
    using up cols by (simp add: pg_append_def update_conv' Let_def subset_insertI)
  with st reset rs eng up show ?thesis by (auto simp: pg_sink_def update_conv')
qed

end
