(* ===== verification/Cli.thy ===== *)
theory Cli
  imports Driver
begin

text \<open>
  The command line of both scripts and their exit status. Each script builds an
  \<open>argparse.ArgumentParser\<close>, declares its options (\<open>process_jsonl.py\<close>
  lines 384--395, \<open>jsonl_postgres.py\<close> lines 291--300), parses \<open>sys.argv\<close>,
  calls \<open>main\<close> and passes its result to \<open>exit\<close>. The option tables are
  translated from the source; the parser is modelled after the behaviour of
  Python 3.11's \<open>argparse\<close> for parsers with only optional arguments: tokens
  are first classified (exact option, \<open>--opt=value\<close>, unique prefix,
  \<open>-h\<close>/\<open>--help\<close>, negative number, \<open>--\<close>), an ambiguous prefix failing
  at once; the options then take their values left to right, a missing value
  or an invalid \<open>int\<close> failing at once and \<open>-h\<close> printing the help and
  exiting with 0; then the required options are checked, then the leftover
  tokens. A parse error exits with status 2 and leaves the world unchanged.
\<close>

section \<open>Python's \<open>int()\<close> on a string\<close>

text \<open>
  \<open>int(s)\<close> strips white space, reads an optional sign and decimal digits
  with single underscores between digits (ASCII characters only).
\<close>

definition is_py_space :: "char \<Rightarrow> bool" where
  "is_py_space c = (let k = (of_char c :: nat) in k = 32 \<or> (9 \<le> k \<and> k \<le> 13) \<or> (28 \<le> k \<and> k \<le> 31))"

definition py_strip :: "string \<Rightarrow> string" where
  "py_strip s = rev (dropWhile is_py_space (rev (dropWhile is_py_space s)))"

fun no_double_us :: "string \<Rightarrow> bool" where
  "no_double_us (a # b # s) = (\<not> (a = CHR ''_'' \<and> b = CHR ''_'') \<and> no_double_us (b # s))"
| "no_double_us _ = True"

definition valid_int_body :: "string \<Rightarrow> bool" where
  "valid_int_body b =
     (b \<noteq> [] \<and> hd b \<in> decimal_digits \<and> last b \<in> decimal_digits \<and>
      list_all (\<lambda>c. c \<in> decimal_digits \<or> c = CHR ''_'') b \<and> no_double_us b)"

definition py_int :: "string \<Rightarrow> int option" where
  "py_int s =
     (let t = py_strip s;
          (neg, b) = (case t of
                        c # r \<Rightarrow> if c = CHR ''-'' then (True, r)
                                  else if c = CHR ''+'' then (False, r) else (False, t)
                      | [] \<Rightarrow> (False, []))
      in if valid_int_body b
         then Some ((if neg then -1 else 1) * int (parse_nat (filter (\<lambda>c. c \<noteq> CHR ''_'') b)))
         else None)"

section \<open>Option tables\<close>

datatype argkind = KStr | KInt

datatype argval = AStr string | AInt int

text \<open>One \<open>parser.add_argument('--dest', required=..., type=..., default=...)\<close>.\<close>

record optspec =
  o_dest :: string
  o_required :: bool
  o_kind :: argkind
  o_default :: "argval option"

definition flag :: "optspec \<Rightarrow> string" where
  "flag opt = ''--'' @ o_dest opt"

definition str_opt :: "string \<Rightarrow> bool \<Rightarrow> optspec" where
  "str_opt d req = \<lparr>o_dest = d, o_required = req, o_kind = KStr, o_default = None\<rparr>"

text \<open>\<open>process_jsonl.py\<close> lines 384--395.\<close>

definition mode_opt :: optspec where
  "mode_opt = \<lparr>o_dest = ''mode'', o_required = False, o_kind = KStr, o_default = Some (AStr POSTGRES)\<rparr>"

definition reset_opt :: optspec where
  "reset_opt = \<lparr>o_dest = ''reset'', o_required = False, o_kind = KStr, o_default = Some (AStr ''False'')\<rparr>"

definition chunksize_opt :: optspec where
  "chunksize_opt = \<lparr>o_dest = ''chunksize'', o_required = False, o_kind = KInt, o_default = Some (AInt (int CHUNKSIZE))\<rparr>"

definition process_jsonl_options :: "optspec list" where
  "process_jsonl_options =
     [str_opt ''source'' True, str_opt ''table_name'' True, mode_opt,
      str_opt ''host'' False, str_opt ''port'' False, str_opt ''db'' False,
      str_opt ''user'' False, str_opt ''password'' False, reset_opt, chunksize_opt]"

text \<open>\<open>jsonl_postgres.py\<close> lines 291--300.\<close>

definition jsonl_postgres_options :: "optspec list" where
  "jsonl_postgres_options =
     [str_opt ''user'' True, str_opt ''password'' True, str_opt ''host'' True,
      str_opt ''port'' True, str_opt ''db'' True, str_opt ''table_name'' True,
      str_opt ''source'' True, str_opt ''reset'' False]"

section \<open>Classifying the tokens\<close>

datatype argexit = ArgHelp | ArgError string

datatype tok =
    TArg string
  | TOpt optspec "string option"
  | THelp
  | THelpArg string
  | TUnknown string
  | TSep

text \<open>\<open>_negative_number_matcher\<close>: \<open>^-\d+$|^-\d*\.\d+$\<close>.\<close>

definition is_negative_number :: "string \<Rightarrow> bool" where
  "is_negative_number s =
     (case s of
        c # r \<Rightarrow> c = CHR ''-'' \<and>
          ((r \<noteq> [] \<and> list_all (\<lambda>d. d \<in> decimal_digits) r) \<or>
           (let a = takeWhile (\<lambda>d. d \<noteq> CHR ''.'') r; b = drop (Suc (length a)) r
            in length a < length r \<and> list_all (\<lambda>d. d \<in> decimal_digits) a \<and>
               b \<noteq> [] \<and> list_all (\<lambda>d. d \<in> decimal_digits) b))
      | [] \<Rightarrow> False)"

text \<open>
  \<open>_parse_optional\<close> for one token that is not \<open>--\<close>: an argument, an option
  with or without an explicit value, the help option, an unknown option-like
  token, or the error of an ambiguous prefix (\<open>_get_option_tuples\<close>, with
  \<open>allow_abbrev\<close>). \<open>-hX\<close> runs the help unless \<open>X\<close> is \<open>=\<close> or \<open>-\<close>.
\<close>

definition classify :: "optspec list \<Rightarrow> string \<Rightarrow> argexit + tok" where
  "classify opts s =
     (if s = [] \<or> hd s \<noteq> CHR ''-'' then Inr (TArg s)
      else if s = ''-h'' \<or> s = ''--help'' then Inr THelp
      else (case find (\<lambda>opt. flag opt = s) opts of
        Some opt \<Rightarrow> Inr (TOpt opt None)
      | None \<Rightarrow>
        if length s = 1 then Inr (TArg s)
        else
          (let pre = takeWhile (\<lambda>c. c \<noteq> CHR ''='') s; has_eq = (pre \<noteq> s);
               arg = drop (Suc (length pre)) s
           in if has_eq \<and> (pre = ''-h'' \<or> pre = ''--help'') then Inr (THelpArg arg)
           else case (if has_eq then find (\<lambda>opt. flag opt = pre) opts else None) of
             Some opt \<Rightarrow> Inr (TOpt opt (Some arg))
           | None \<Rightarrow>
             if py_startswith s ''--'' then
               (case filter (\<lambda>f. py_startswith f pre) (''--help'' # map flag opts) of
                  [] \<Rightarrow> (if is_negative_number s \<or> CHR '' '' \<in> set s then Inr (TArg s) else Inr (TUnknown s))
                | [f] \<Rightarrow>
                    (if f = ''--help'' then (if has_eq then Inr (THelpArg arg) else Inr THelp)
                     else (case find (\<lambda>opt. flag opt = f) opts of
                             Some opt \<Rightarrow> Inr (TOpt opt (if has_eq then Some arg else None))
                           | None \<Rightarrow> Inr (TUnknown s)))
                | _ \<Rightarrow> Inl (ArgError ''ambiguous option''))
             else if py_startswith s ''-h'' then
               (if s ! 2 = CHR ''='' \<or> s ! 2 = CHR ''-'' then Inr (THelpArg (drop 2 s)) else Inr THelp)
             else if is_negative_number s \<or> CHR '' '' \<in> set s then Inr (TArg s)
             else Inr (TUnknown s))))"

text \<open>All tokens: after the first \<open>--\<close> every token is an argument.\<close>

fun classify_all :: "optspec list \<Rightarrow> string list \<Rightarrow> argexit + tok list" where
  "classify_all opts [] = Inr []"
| "classify_all opts (s # ss) =
     (if s = ''--'' then Inr (TSep # map TArg ss)
      else case classify opts s of
             Inl e \<Rightarrow> Inl e
           | Inr t \<Rightarrow> (case classify_all opts ss of Inl e \<Rightarrow> Inl e | Inr ts \<Rightarrow> Inr (t # ts)))"

section \<open>Consuming the tokens\<close>

type_synonym namespace = "(string \<times> argval option) list"

text \<open>\<open>type=int\<close> converts with \<open>int()\<close>; \<open>type=str\<close> and no type keep the string.\<close>

definition convert :: "optspec \<Rightarrow> string \<Rightarrow> argexit + argval" where
  "convert opt v =
     (case o_kind opt of
        KStr \<Rightarrow> Inr (AStr v)
      | KInt \<Rightarrow> (case py_int v of None \<Rightarrow> Inl (ArgError ''invalid int value'') | Some i \<Rightarrow> Inr (AInt i)))"

text \<open>
  The loop of \<open>_parse_known_args\<close>: an option takes its explicit value or the
  next token if that is an argument; the value is converted and stored (the
  last occurrence wins); the help exits; arguments no option takes, unknown
  options and \<open>--\<close> are extras. The state is the stored values, the options
  seen and whether there are extras.
\<close>

fun consume :: "tok list \<Rightarrow> (string \<times> argval) list \<Rightarrow> string list \<Rightarrow> bool \<Rightarrow>
                argexit + (string \<times> argval) list \<times> string list \<times> bool" where
  "consume [] vals seen ex = Inr (vals, seen, ex)"
| "consume (TArg s # ts) vals seen ex = consume ts vals seen True"
| "consume (TSep # ts) vals seen ex = consume ts vals seen True"
| "consume (TUnknown s # ts) vals seen ex = consume ts vals seen True"
| "consume (THelp # ts) vals seen ex = Inl ArgHelp"
| "consume (THelpArg a # ts) vals seen ex = Inl (ArgError ''ignored explicit argument'')"
| "consume (TOpt opt (Some v) # ts) vals seen ex =
     (case convert opt v of
        Inl e \<Rightarrow> Inl e
      | Inr x \<Rightarrow> consume ts (AList.update (o_dest opt) x vals) (o_dest opt # seen) ex)"
| "consume (TOpt opt None # TArg v # ts) vals seen ex =
     (case convert opt v of
        Inl e \<Rightarrow> Inl e
      | Inr x \<Rightarrow> consume ts (AList.update (o_dest opt) x vals) (o_dest opt # seen) ex)"
| "consume (TOpt opt None # ts) vals seen ex = Inl (ArgError ''expected one argument'')"

text \<open>
  \<open>parser.parse_args()\<close>: classification, consumption, the check of the
  required options, the check of the extras; the namespace holds every
  option's value or its default (\<open>None\<close> without one).
\<close>

definition parse_args :: "optspec list \<Rightarrow> string list \<Rightarrow> argexit + namespace" where
  "parse_args opts argv =
     (case classify_all opts argv of
        Inl e \<Rightarrow> Inl e
      | Inr ts \<Rightarrow>
          (case consume ts [] [] False of
             Inl e \<Rightarrow> Inl e
           | Inr (vals, seen, ex) \<Rightarrow>
               if list_ex (\<lambda>opt. o_required opt \<and> o_dest opt \<notin> set seen) opts
               then Inl (ArgError ''the following arguments are required'')
               else if ex then Inl (ArgError ''unrecognized arguments'')
               else Inr (map (\<lambda>opt. (o_dest opt, case map_of vals (o_dest opt) of
                                              Some v \<Rightarrow> Some v | None \<Rightarrow> o_default opt)) opts)))"

section \<open>The scripts\<close>

definition ns_str :: "namespace \<Rightarrow> string \<Rightarrow> string option" where
  "ns_str ns k = (case map_of ns k of Some (Some (AStr s)) \<Rightarrow> Some s | _ \<Rightarrow> None)"

text \<open>
  The \<open>args\<close> object \<open>main\<close> reads, as the \<open>params\<close> record; the fallbacks
  are never used on a namespace \<open>parse_args\<close> returns. \<open>jsonl_postgres.py\<close>
  has no \<open>--mode\<close> and no \<open>--chunksize\<close>: its \<open>main\<close> uses PostgreSQL and
  \<open>CHUNKSIZE\<close>.
\<close>

definition args_params :: "namespace \<Rightarrow> params" where
  "args_params ns =
     \<lparr>p_source = (case ns_str ns ''source'' of Some s \<Rightarrow> s | None \<Rightarrow> []),
      p_table_name = (case ns_str ns ''table_name'' of Some s \<Rightarrow> s | None \<Rightarrow> []),
      p_mode = (case ns_str ns ''mode'' of Some s \<Rightarrow> s | None \<Rightarrow> POSTGRES),
      p_host = ns_str ns ''host'', p_port = ns_str ns ''port'', p_db = ns_str ns ''db'',
      p_user = ns_str ns ''user'', p_password = ns_str ns ''password'',
      p_reset = ns_str ns ''reset'',
      p_chunksize = (case map_of ns ''chunksize'' of Some (Some (AInt i)) \<Rightarrow> i | _ \<Rightarrow> int CHUNKSIZE)\<rparr>"

text \<open>
  The status the process exits with: \<open>exit(k)\<close> gives \<open>k mod 256\<close>,
  \<open>exit(None)\<close> gives 0, an uncaught exception prints its traceback and gives
  1, the help gives 0 and a usage error 2.
\<close>

fun argexit_code :: "argexit \<Rightarrow> int" where
  "argexit_code ArgHelp = 0"
| "argexit_code (ArgError m) = 2"

fun exit_code :: "int exc \<Rightarrow> int" where
  "exit_code (Inl e) = 1"
| "exit_code (Inr k) = k mod 256"

fun exit_code_opt :: "int option exc \<Rightarrow> int" where
  "exit_code_opt (Inl e) = 1"
| "exit_code_opt (Inr None) = 0"
| "exit_code_opt (Inr (Some k)) = k mod 256"

text \<open>\<open>process_jsonl.py\<close> lines 383--400: \<open>res = main(args); exit(res)\<close>.\<close>

definition process_jsonl_cli :: "string list \<Rightarrow> world \<Rightarrow> world \<times> log \<times> int" where
  "process_jsonl_cli argv w =
     (case parse_args process_jsonl_options argv of
        Inl a \<Rightarrow> (w, [], argexit_code a)
      | Inr ns \<Rightarrow> (case main (args_params ns) w of (w', l, r) \<Rightarrow> (w', l, exit_code r)))"

text \<open>\<open>jsonl_postgres.py\<close> lines 290--305.\<close>

definition jsonl_postgres_cli :: "string list \<Rightarrow> world \<Rightarrow> world \<times> log \<times> int" where
  "jsonl_postgres_cli argv w =
     (case parse_args jsonl_postgres_options argv of
        Inl a \<Rightarrow> (w, [], argexit_code a)
      | Inr ns \<Rightarrow> (case main_pg (args_params ns) w of (w', l, r) \<Rightarrow> (w', l, exit_code_opt r)))"

section \<open>Canonical command lines\<close>

text \<open>
  A value written back as \<open>argparse\<close> reads it: a string as itself, an integer
  in decimal with its sign.
\<close>

definition show_int :: "int \<Rightarrow> string" where
  "show_int i = (if i < 0 then CHR ''-'' # show_nat (nat (- i)) else show_nat (nat i))"

fun render_val :: "argval \<Rightarrow> string" where
  "render_val (AStr s) = s"
| "render_val (AInt i) = show_int i"

definition opt_arg :: "optspec \<Rightarrow> argval \<Rightarrow> string" where
  "opt_arg opt x = flag opt @ ''='' @ render_val x"

definition given :: "optspec \<Rightarrow> string option \<Rightarrow> (optspec \<times> argval) list" where
  "given opt v = (case v of None \<Rightarrow> [] | Some s \<Rightarrow> [(opt, AStr s)])"

text \<open>The command line \<open>--source=... --table_name=... ...\<close> that asks \<open>process_jsonl.py\<close> for a run with parameters \<open>ps\<close>.\<close>

definition cli_pairs :: "params \<Rightarrow> (optspec \<times> argval) list" where
  "cli_pairs ps =
     [(str_opt ''source'' True, AStr (p_source ps)), (str_opt ''table_name'' True, AStr (p_table_name ps)),
      (mode_opt, AStr (p_mode ps))] @
     given (str_opt ''host'' False) (p_host ps) @ given (str_opt ''port'' False) (p_port ps) @
     given (str_opt ''db'' False) (p_db ps) @ given (str_opt ''user'' False) (p_user ps) @
     given (str_opt ''password'' False) (p_password ps) @ given reset_opt (p_reset ps) @
     [(chunksize_opt, AInt (p_chunksize ps))]"

definition cli_line :: "params \<Rightarrow> string list" where
  "cli_line ps = map (\<lambda>(opt, x). opt_arg opt x) (cli_pairs ps)"

text \<open>An option table whose names are distinct, contain no \<open>=\<close> and are not \<open>help\<close>.\<close>

definition wf_opts :: "optspec list \<Rightarrow> bool" where
  "wf_opts opts =
     (distinct (map o_dest opts) \<and> list_all (\<lambda>opt. CHR ''='' \<notin> set (o_dest opt) \<and> o_dest opt \<noteq> ''help'') opts)"

section \<open>Typing the stored values\<close>

fun arg_kind :: "argval \<Rightarrow> argkind" where
  "arg_kind (AStr s) = KStr"
| "arg_kind (AInt i) = KInt"

text \<open>Every stored value belongs to an option of the table and has its type.\<close>

definition vals_typed :: "optspec list \<Rightarrow> (string \<times> argval) list \<Rightarrow> bool" where
  "vals_typed opts vals =
     (\<forall>d x. map_of vals d = Some x \<longrightarrow> (\<exists>opt \<in> set opts. o_dest opt = d \<and> arg_kind x = o_kind opt))"

section \<open>The values main returns\<close>

lemma run_loop_return:
  assumes "run_loop step i acc dfs w = (w', l, Return k)"
    and "\<And>i df acc w w' l k. step i df acc w = (w', l, Return k) \<Longrightarrow> P k"
  shows "P k"
  using assms(1)
proof (induction dfs arbitrary: i acc w l)
  case Nil
  then show ?case by simp
next
  case (Cons df dfs)
  from Cons.prems show ?case
  proof (cases rule: run_loop_Cons_E)
    case (cont w1 l1 acc1 l2)
    from cont(2) show ?thesis by (rule Cons.IH)
  next
    case stop
    from stop(1) show ?thesis by (rule assms(2))
  qed
qed

lemma chunk_step_return: "chunk_step c i df ex w = (w', l, Return k) \<Longrightarrow> k = 0 \<or> k = 1"
  by (auto simp: chunk_step_def pg_sink_def Let_def export_data_to_parquet_def
      split: sum.splits prod.splits if_splits bool.splits)

lemma chunk_step_pg_return: "chunk_step_pg c i df ex w = (w', l, Return k) \<Longrightarrow> k = 1"
  by (auto simp: chunk_step_pg_def pg_sink_pg_def Let_def split: sum.splits prod.splits if_splits bool.splits)

lemma main_returns: "main ps w = (w', l, Inr k) \<Longrightarrow> k = 0 \<or> k = 1"
proof -
  have loop: "run_loop (chunk_step c) i ex dfs w0 = (w1, l1, Return k') \<Longrightarrow> k' = 0 \<or> k' = 1"
    for c i ex dfs w0 w1 l1 k'
    by (erule run_loop_return) (rule chunk_step_return)
  assume "main ps w = (w', l, Inr k)"
  then show ?thesis unfolding main_def Let_def
    by (auto split: if_splits sum.splits prod.splits step_out.splits dest: loop)
qed

lemma main_pg_returns: "main_pg ps w = (w', l, Inr (Some k)) \<Longrightarrow> k = 1"
proof -
  have loop: "run_loop (chunk_step_pg c) i ex dfs w0 = (w1, l1, Return k') \<Longrightarrow> k' = 1"
    for c i ex dfs w0 w1 l1 k'
    by (erule run_loop_return) (rule chunk_step_pg_return)
  assume "main_pg ps w = (w', l, Inr (Some k))"
  then show ?thesis unfolding main_pg_def Let_def
    by (auto split: if_splits sum.splits prod.splits step_out.splits bool.splits dest: loop)
qed

lemma main_exit_code: "exit_code (snd (snd (main ps w))) \<in> {0, 1}"
proof -
  obtain w' l r where m: "main ps w = (w', l, r)" by (metis prod_cases3)
  show ?thesis
  proof (cases r)
    case (Inl e)
    with m show ?thesis by simp
  next
    case (Inr k)
    with m main_returns [of ps w w' l k] show ?thesis by auto
  qed
qed

lemma main_pg_exit_code: "exit_code_opt (snd (snd (main_pg ps w))) \<in> {0, 1}"
proof -
  obtain w' l r where m: "main_pg ps w = (w', l, r)" by (metis prod_cases3)
  show ?thesis
  proof (cases r)
    case (Inl e)
    with m show ?thesis by simp
  next
    case (Inr k)
    with m main_pg_returns [of ps w w' l] show ?thesis by (cases k) auto
  qed
qed

lemma argexit_code_range: "argexit_code a \<in> {0, 2}"
  by (cases a) simp_all

lemma process_jsonl_cli_code:
  "snd (snd (process_jsonl_cli argv w)) =
     (case parse_args process_jsonl_options argv of
        Inl a \<Rightarrow> argexit_code a | Inr ns \<Rightarrow> exit_code (snd (snd (main (args_params ns) w))))"
  by (simp add: process_jsonl_cli_def split: sum.split prod.split)

lemma jsonl_postgres_cli_code:
  "snd (snd (jsonl_postgres_cli argv w)) =
     (case parse_args jsonl_postgres_options argv of
        Inl a \<Rightarrow> argexit_code a | Inr ns \<Rightarrow> exit_code_opt (snd (snd (main_pg (args_params ns) w))))"
  by (simp add: jsonl_postgres_cli_def split: sum.split prod.split)

lemma main_small_chunksize:
  "p_chunksize ps < 1 \<Longrightarrow> \<exists>r. main ps w = (w, [], r) \<and> exit_code r = 1"
  by (auto simp: main_def Let_def read_json_def split: sum.splits)

lemma args_params_chunksize:
  "map_of ns ''chunksize'' = Some (Some (AInt c)) \<Longrightarrow> p_chunksize (args_params ns) = c"
  by (simp add: args_params_def)

section \<open>Properties of the command line\<close>

text \<open>
  C22. Both scripts exit with status 0, 1 or 2 whatever the command line and
  the world: 2 for a usage error, 0 for the help and for a run that ends
  normally, 1 for a run that returns 1 or dies of an exception.
\<close>

theorem cli_exit_status:
  "snd (snd (process_jsonl_cli argv w)) \<in> {0, 1, 2} \<and>
   snd (snd (jsonl_postgres_cli argv w)) \<in> {0, 1, 2}"
proof
  show "snd (snd (process_jsonl_cli argv w)) \<in> {0, 1, 2}"
    using argexit_code_range main_exit_code
    by (auto simp: process_jsonl_cli_code split: sum.split)
  show "snd (snd (jsonl_postgres_cli argv w)) \<in> {0, 1, 2}"
    using argexit_code_range main_pg_exit_code
    by (auto simp: jsonl_postgres_cli_code split: sum.split)
qed

section \<open>What a parse returns\<close>

lemma find_in_set: "find P xs = Some x \<Longrightarrow> x \<in> set xs"
  by (induction xs) (auto split: if_splits)

lemma convert_kind: "convert opt v = Inr x \<Longrightarrow> arg_kind x = o_kind opt"
  by (auto simp: convert_def split: argkind.splits option.splits)

lemma classify_opt: "classify opts s = Inr (TOpt opt v) \<Longrightarrow> opt \<in> set opts"
  unfolding classify_def Let_def
  by (auto split: if_splits option.splits list.splits dest: find_in_set)

lemma classify_all_opts: "classify_all opts ss = Inr ts \<Longrightarrow> TOpt opt v \<in> set ts \<Longrightarrow> opt \<in> set opts"
proof (induction ss arbitrary: ts)
  case Nil
  then show ?case by simp
next
  case (Cons s ss)
  then show ?case
    by (auto split: if_splits sum.splits dest: classify_opt)
qed

lemma store_inv:
  assumes "convert opt v = Inr x" and "opt \<in> set opts"
    and "vals_typed opts vals" and "\<forall>d \<in> set seen. map_of vals d \<noteq> None"
  shows "vals_typed opts (AList.update (o_dest opt) x vals) \<and>
         (\<forall>d \<in> set (o_dest opt # seen). map_of (AList.update (o_dest opt) x vals) d \<noteq> None)"
  using assms convert_kind [OF assms(1)] by (auto simp: vals_typed_def update_conv')

lemma consume_inv:
  "consume ts vals seen ex = Inr (vals', seen', ex') \<Longrightarrow>
   (\<forall>opt v. TOpt opt v \<in> set ts \<longrightarrow> opt \<in> set opts) \<Longrightarrow>
   vals_typed opts vals \<Longrightarrow> (\<forall>d \<in> set seen. map_of vals d \<noteq> None) \<Longrightarrow>
   vals_typed opts vals' \<and> (\<forall>d \<in> set seen'. map_of vals' d \<noteq> None)"
proof (induction ts vals seen ex rule: consume.induct)
  case (7 opt v ts vals seen ex)
  from "7.prems"(1) obtain x where cv: "convert opt v = Inr x"
    and rest: "consume ts (AList.update (o_dest opt) x vals) (o_dest opt # seen) ex = Inr (vals', seen', ex')"
    by (auto split: sum.splits)
  from "7.prems"(2) have o: "opt \<in> set opts" and ts: "\<forall>opt v. TOpt opt v \<in> set ts \<longrightarrow> opt \<in> set opts"
    by auto
  from store_inv [OF cv o "7.prems"(3,4)] show ?case
    using "7.IH" [OF cv rest ts] by blast
next
  case (8 opt v ts vals seen ex)
  from "8.prems"(1) obtain x where cv: "convert opt v = Inr x"
    and rest: "consume ts (AList.update (o_dest opt) x vals) (o_dest opt # seen) ex = Inr (vals', seen', ex')"
    by (auto split: sum.splits)
  from "8.prems"(2) have o: "opt \<in> set opts" and ts: "\<forall>opt v. TOpt opt v \<in> set ts \<longrightarrow> opt \<in> set opts"
    by auto
  from store_inv [OF cv o "8.prems"(3,4)] show ?case
    using "8.IH" [OF cv rest ts] by blast
qed simp_all

lemma map_of_map_dest:
  assumes "distinct (map o_dest opts)" and "opt \<in> set opts"
  shows "map_of (map (\<lambda>opt. (o_dest opt, f opt)) opts) (o_dest opt) = Some (f opt)"
proof -
  have "map fst (map (\<lambda>opt. (o_dest opt, f opt)) opts) = map o_dest opts" by (simp add: comp_def)
  with assms(1) have d: "distinct (map fst (map (\<lambda>opt. (o_dest opt, f opt)) opts))" by (simp only:)
  from assms(2) have "(o_dest opt, f opt) \<in> set (map (\<lambda>opt. (o_dest opt, f opt)) opts)" by force
  with map_of_eq_Some_iff [OF d] show ?thesis by blast
qed

text \<open>
  Each option of a parsed namespace holds its default, and is then not
  required, or a value of its type.
\<close>

lemma parse_args_value:
  assumes "parse_args opts argv = Inr ns" and "distinct (map o_dest opts)" and "opt \<in> set opts"
  shows "(map_of ns (o_dest opt) = Some (o_default opt) \<and> \<not> o_required opt) \<or>
         (\<exists>x. map_of ns (o_dest opt) = Some (Some x) \<and> arg_kind x = o_kind opt)"
proof -
  from assms(1) obtain ts vals seen ex where c: "classify_all opts argv = Inr ts"
    and k: "consume ts [] [] False = Inr (vals, seen, ex)"
    and req: "\<not> list_ex (\<lambda>opt. o_required opt \<and> o_dest opt \<notin> set seen) opts"
    and ns: "ns = map (\<lambda>opt. (o_dest opt, case map_of vals (o_dest opt) of
                                           Some v \<Rightarrow> Some v | None \<Rightarrow> o_default opt)) opts"
    by (auto simp: parse_args_def split: sum.splits prod.splits if_splits)
  have "\<forall>opt v. TOpt opt v \<in> set ts \<longrightarrow> opt \<in> set opts"
    using classify_all_opts [OF c] by blast
  from consume_inv [OF k this] have typed: "vals_typed opts vals"
    and seen: "\<forall>d \<in> set seen. map_of vals d \<noteq> None"
    by (simp_all add: vals_typed_def)
  have ns_opt: "map_of ns (o_dest opt) =
      Some (case map_of vals (o_dest opt) of Some v \<Rightarrow> Some v | None \<Rightarrow> o_default opt)"
    unfolding ns by (rule map_of_map_dest [OF assms(2,3)])
  show ?thesis
  proof (cases "map_of vals (o_dest opt)")
    case None
    with seen have "o_dest opt \<notin> set seen" by blast
    with req assms(3) have "\<not> o_required opt" by (auto simp: list_ex_iff)
    with None ns_opt show ?thesis by simp
  next
    case (Some x)
    with typed obtain opt' where o': "opt' \<in> set opts" "o_dest opt' = o_dest opt" "arg_kind x = o_kind opt'"
      by (auto simp: vals_typed_def)
    from assms(2) have "inj_on o_dest (set opts)" by (simp add: distinct_map)
    with o'(1,2) assms(3) have "opt' = opt" by (auto dest: inj_onD)
    with Some ns_opt o'(3) show ?thesis by simp
  qed
qed

lemma ns_str_kind: "map_of ns k = Some (Some x) \<Longrightarrow> arg_kind x = KStr \<Longrightarrow> \<exists>s. ns_str ns k = Some s"
  by (cases x) (simp_all add: ns_str_def)

text \<open>
  Hence a string option that is required or has a string default holds a
  string, and an integer option with an integer default holds an integer.
\<close>

lemma parse_args_str:
  assumes "parse_args opts argv = Inr ns" and "distinct (map o_dest opts)" and "opt \<in> set opts"
    and "o_kind opt = KStr" and "o_required opt \<or> (\<exists>s. o_default opt = Some (AStr s))"
  shows "\<exists>s. ns_str ns (o_dest opt) = Some s"
  using parse_args_value [OF assms(1-3)]
proof
  assume a: "map_of ns (o_dest opt) = Some (o_default opt) \<and> \<not> o_required opt"
  with assms(5) obtain s where "o_default opt = Some (AStr s)" by blast
  with a show ?thesis by (simp add: ns_str_def)
next
  assume "\<exists>x. map_of ns (o_dest opt) = Some (Some x) \<and> arg_kind x = o_kind opt"
  with assms(4) show ?thesis by (auto dest: ns_str_kind)
qed

lemma parse_args_int:
  assumes "parse_args opts argv = Inr ns" and "distinct (map o_dest opts)" and "opt \<in> set opts"
    and "o_kind opt = KInt" and "\<exists>i. o_default opt = Some (AInt i)"
  shows "\<exists>i. map_of ns (o_dest opt) = Some (Some (AInt i))"
  using parse_args_value [OF assms(1-3)]
proof
  assume "map_of ns (o_dest opt) = Some (o_default opt) \<and> \<not> o_required opt"
  with assms(5) show ?thesis by auto
next
  assume "\<exists>x. map_of ns (o_dest opt) = Some (Some x) \<and> arg_kind x = o_kind opt"
  then obtain x where "map_of ns (o_dest opt) = Some (Some x)" "arg_kind x = o_kind opt" by blast
  with assms(4) show ?thesis by (cases x) auto
qed

text \<open>
  C23. Every command line \<open>process_jsonl.py\<close> accepts gives \<open>main\<close> an
  \<open>args\<close> whose \<open>source\<close>, \<open>table_name\<close>, \<open>mode\<close> and \<open>reset\<close> are strings
  and whose \<open>chunksize\<close> is an integer, so \<open>reset.lower()\<close> and the uses of
  the others cannot fail on \<open>None\<close> or on a value of the wrong type.
\<close>

theorem process_jsonl_args_typed:
  assumes "parse_args process_jsonl_options argv = Inr ns"
  shows "(\<exists>s. ns_str ns ''source'' = Some s) \<and> (\<exists>s. ns_str ns ''table_name'' = Some s) \<and>
         (\<exists>s. ns_str ns ''mode'' = Some s) \<and> (\<exists>s. ns_str ns ''reset'' = Some s) \<and>
         (\<exists>i. map_of ns ''chunksize'' = Some (Some (AInt i)))"
proof -
  have d: "distinct (map o_dest process_jsonl_options)"
    by (simp add: process_jsonl_options_def str_opt_def mode_opt_def reset_opt_def chunksize_opt_def)
  note str = parse_args_str [OF assms d] and int = parse_args_int [OF assms d]
  show ?thesis
    using str [of "str_opt ''source'' True"] str [of "str_opt ''table_name'' True"]
      str [of mode_opt] str [of reset_opt] int [of chunksize_opt]
    by (simp add: process_jsonl_options_def str_opt_def mode_opt_def reset_opt_def chunksize_opt_def)
qed

theorem process_jsonl_args_typed_witness:
  "parse_args process_jsonl_options [''--source'', ''data/Software.jsonl'', ''--table_name'', ''reviews'', ''--chunksize'', ''7''] =
     Inr [(''source'', Some (AStr ''data/Software.jsonl'')), (''table_name'', Some (AStr ''reviews'')),
       (''mode'', Some (AStr POSTGRES)), (''host'', None), (''port'', None), (''db'', None), (''user'', None),
       (''password'', None), (''reset'', Some (AStr ''False'')), (''chunksize'', Some (AInt 7))] \<and>
   (\<exists>s. ns_str ([(''source'', Some (AStr ''data/Software.jsonl'')), (''table_name'', Some (AStr ''reviews'')),
       (''mode'', Some (AStr POSTGRES)), (''host'', None), (''port'', None), (''db'', None), (''user'', None),
       (''password'', None), (''reset'', Some (AStr ''False'')), (''chunksize'', Some (AInt 7))]) ''source'' = Some s) \<and> (\<exists>s. ns_str ([(''source'', Some (AStr ''data/Software.jsonl'')), (''table_name'', Some (AStr ''reviews'')),
       (''mode'', Some (AStr POSTGRES)), (''host'', None), (''port'', None), (''db'', None), (''user'', None),
       (''password'', None), (''reset'', Some (AStr ''False'')), (''chunksize'', Some (AInt 7))]) ''table_name'' = Some s) \<and>
   (\<exists>s. ns_str ([(''source'', Some (AStr ''data/Software.jsonl'')), (''table_name'', Some (AStr ''reviews'')),
       (''mode'', Some (AStr POSTGRES)), (''host'', None), (''port'', None), (''db'', None), (''user'', None),
       (''password'', None), (''reset'', Some (AStr ''False'')), (''chunksize'', Some (AInt 7))]) ''mode'' = Some s) \<and> (\<exists>s. ns_str ([(''source'', Some (AStr ''data/Software.jsonl'')), (''table_name'', Some (AStr ''reviews'')),
       (''mode'', Some (AStr POSTGRES)), (''host'', None), (''port'', None), (''db'', None), (''user'', None),
       (''password'', None), (''reset'', Some (AStr ''False'')), (''chunksize'', Some (AInt 7))]) ''reset'' = Some s) \<and>
   (\<exists>i. map_of ([(''source'', Some (AStr ''data/Software.jsonl'')), (''table_name'', Some (AStr ''reviews'')),
       (''mode'', Some (AStr POSTGRES)), (''host'', None), (''port'', None), (''db'', None), (''user'', None),
       (''password'', None), (''reset'', Some (AStr ''False'')), (''chunksize'', Some (AInt 7))]) ''chunksize'' = Some (Some (AInt i)))"
proof -
  have h: "parse_args process_jsonl_options [''--source'', ''data/Software.jsonl'', ''--table_name'', ''reviews'', ''--chunksize'', ''7''] =
     Inr [(''source'', Some (AStr ''data/Software.jsonl'')), (''table_name'', Some (AStr ''reviews'')),
       (''mode'', Some (AStr POSTGRES)), (''host'', None), (''port'', None), (''db'', None), (''user'', None),
       (''password'', None), (''reset'', Some (AStr ''False'')), (''chunksize'', Some (AInt 7))]"
    by (simp add: parse_args_def process_jsonl_options_def str_opt_def mode_opt_def reset_opt_def
        chunksize_opt_def classify_def flag_def Let_def
        convert_def py_int_def py_strip_def is_py_space_def valid_int_body_def decimal_digits_def parse_nat_def)
  show ?thesis by (rule conjI [OF h process_jsonl_args_typed [OF h]])
qed

section \<open>Reading back a canonical command line\<close>

lemma digit_not_space: "c \<in> decimal_digits \<Longrightarrow> \<not> is_py_space c"
  by (auto simp: decimal_digits_def is_py_space_def)

lemma us_not_digit: "CHR ''_'' \<notin> decimal_digits"
  by (simp add: decimal_digits_def)

lemma no_double_us_no_us: "CHR ''_'' \<notin> set s \<Longrightarrow> no_double_us s"
  by (induction s rule: no_double_us.induct) auto

lemma dropWhile_id: "xs \<noteq> [] \<Longrightarrow> \<not> P (hd xs) \<Longrightarrow> dropWhile P xs = xs"
  by (cases xs) simp_all

lemma py_strip_id:
  assumes "s \<noteq> []" and "\<not> is_py_space (hd s)" and "\<not> is_py_space (last s)"
  shows "py_strip s = s"
proof -
  from assms(1,2) have "dropWhile is_py_space s = s" by (rule dropWhile_id)
  moreover have "dropWhile is_py_space (rev s) = rev s"
  proof (rule dropWhile_id)
    show "rev s \<noteq> []" using assms(1) by simp
    show "\<not> is_py_space (hd (rev s))" using assms(1,3) by (simp add: hd_rev)
  qed
  ultimately show ?thesis by (simp add: py_strip_def)
qed

lemma valid_show_nat: "valid_int_body (show_nat n)"
proof -
  have d: "set (show_nat n) \<subseteq> decimal_digits" by (rule show_nat_digits)
  have ne: "show_nat n \<noteq> []" by simp
  from d hd_in_set [OF ne] have h: "hd (show_nat n) \<in> decimal_digits" by blast
  from d last_in_set [OF ne] have l: "last (show_nat n) \<in> decimal_digits" by blast
  from d have a: "list_all (\<lambda>c. c \<in> decimal_digits \<or> c = CHR ''_'') (show_nat n)"
    by (auto simp: list_all_iff)
  from d us_not_digit have "CHR ''_'' \<notin> set (show_nat n)" by blast
  then have "no_double_us (show_nat n)" by (rule no_double_us_no_us)
  with ne h l a show ?thesis by (simp add: valid_int_body_def)
qed

lemma py_int_unsigned:
  assumes "s \<noteq> []" and "hd s \<in> decimal_digits" and "py_strip s = s"
  shows "py_int s = (if valid_int_body s then Some (int (parse_nat (filter (\<lambda>c. c \<noteq> CHR ''_'') s))) else None)"
proof -
  from assms(2) have "hd s \<noteq> CHR ''-'' \<and> hd s \<noteq> CHR ''+''" by (auto simp: decimal_digits_def)
  with assms(1,3) show ?thesis by (cases s) (simp_all add: py_int_def)
qed

lemma filter_show_nat: "filter (\<lambda>c. c \<noteq> CHR ''_'') (show_nat n) = show_nat n"
  using show_nat_digits [of n] us_not_digit by (auto simp: filter_id_conv)

lemma py_strip_show_nat: "py_strip (show_nat n) = show_nat n"
proof (rule py_strip_id)
  show "show_nat n \<noteq> []" by simp
  show "\<not> is_py_space (hd (show_nat n))" "\<not> is_py_space (last (show_nat n))"
    using show_nat_digits [of n] by (auto intro!: digit_not_space)
qed

lemma py_int_show_int: "py_int (show_int i) = Some i"
proof (cases "i < 0")
  case True
  have "py_strip (CHR ''-'' # show_nat (nat (- i))) = CHR ''-'' # show_nat (nat (- i))"
  proof (rule py_strip_id)
    show "\<not> is_py_space (last (CHR ''-'' # show_nat (nat (- i))))"
      using show_nat_digits [of "nat (- i)"] by (auto intro!: digit_not_space)
  qed (simp_all add: is_py_space_def)
  with True show ?thesis
    by (simp add: py_int_def show_int_def valid_show_nat filter_show_nat parse_show_nat)
next
  case False
  have "hd (show_nat (nat i)) \<in> decimal_digits"
    using show_nat_digits [of "nat i"] hd_in_set [OF show_nat_Nil] by blast
  from py_int_unsigned [OF show_nat_Nil this py_strip_show_nat] False show ?thesis
    by (simp add: show_int_def valid_show_nat filter_show_nat parse_show_nat)
qed

lemma find_flag:
  "distinct (map o_dest opts) \<Longrightarrow> opt \<in> set opts \<Longrightarrow> find (\<lambda>q. flag q = flag opt) opts = Some opt"
proof (induction opts)
  case Nil
  then show ?case by simp
next
  case (Cons a opts)
  show ?case
  proof (cases "o_dest a = o_dest opt")
    case True
    have "a = opt"
    proof (rule ccontr)
      assume "a \<noteq> opt"
      with Cons.prems(2) have "opt \<in> set opts" by simp
      with True Cons.prems(1) show False by force
    qed
    then show ?thesis by (simp add: flag_def)
  next
    case False
    with Cons.prems have "opt \<in> set opts" "distinct (map o_dest opts)" by auto
    with Cons.IH False show ?thesis by (simp add: flag_def)
  qed
qed

lemma find_flag_none:
  "CHR ''='' \<in> set s \<Longrightarrow> list_all (\<lambda>q. CHR ''='' \<notin> set (o_dest q)) opts \<Longrightarrow>
   find (\<lambda>q. flag q = s) opts = None"
  by (auto simp: find_None_iff list_all_iff flag_def)

lemma canonical_not_sep: "flag q @ CHR ''='' # v \<noteq> ''--''"
  by (simp add: flag_def)

text \<open>A token \<open>--name=value\<close> of an option of a well-formed table is that option with that value.\<close>

lemma classify_opt_arg:
  assumes wf: "wf_opts opts" and opt: "opt \<in> set opts"
  shows "classify opts (flag opt @ CHR ''='' # v) = Inr (TOpt opt (Some v))"
proof -
  let ?s = "flag opt @ CHR ''='' # v"
  from wf opt have noeq: "CHR ''='' \<notin> set (flag opt)" and nh: "o_dest opt \<noteq> ''help''"
    by (auto simp: wf_opts_def list_all_iff flag_def)
  have hd: "?s \<noteq> [] \<and> hd ?s = CHR ''-''" by (simp add: flag_def)
  have eqin: "CHR ''='' \<in> set ?s" by simp
  have not_help: "?s \<noteq> ''-h'' \<and> ?s \<noteq> ''--help''"
  proof (intro conjI notI)
    assume h: "?s = ''-h''"
    have "CHR ''='' \<in> set ''-h''" using eqin unfolding h .
    then show False by simp
  next
    assume h: "?s = ''--help''"
    have "CHR ''='' \<in> set ''--help''" using eqin unfolding h .
    then show False by simp
  qed
  from wf have "list_all (\<lambda>q. CHR ''='' \<notin> set (o_dest q)) opts" by (auto simp: wf_opts_def list_all_iff)
  with eqin have none: "find (\<lambda>q. flag q = ?s) opts = None" by (rule find_flag_none)
  have len: "length ?s \<noteq> 1" by (simp add: flag_def)
  have "takeWhile (\<lambda>c. c \<noteq> CHR ''='') ?s = flag opt @ takeWhile (\<lambda>c. c \<noteq> CHR ''='') (CHR ''='' # v)"
    by (rule takeWhile_append2) (use noeq in blast)
  then have pre: "takeWhile (\<lambda>c. c \<noteq> CHR ''='') ?s = flag opt" by simp
  have fl: "flag opt \<noteq> ''-h'' \<and> flag opt \<noteq> ''--help''" using nh by (auto simp: flag_def)
  from wf opt have found: "find (\<lambda>q. flag q = flag opt) opts = Some opt"
    by (simp add: wf_opts_def find_flag)
  show ?thesis unfolding classify_def Let_def using hd not_help none len pre fl found by simp
qed

lemma classify_all_canonical:
  "wf_opts opts \<Longrightarrow> set (map fst pvs) \<subseteq> set opts \<Longrightarrow>
   classify_all opts (map (\<lambda>(q, x). opt_arg q x) pvs) = Inr (map (\<lambda>(q, x). TOpt q (Some (render_val x))) pvs)"
  by (induction pvs) (auto simp: opt_arg_def canonical_not_sep classify_opt_arg)

lemma convert_render: "arg_kind x = o_kind q \<Longrightarrow> convert q (render_val x) = Inr x"
  by (cases x) (auto simp: convert_def py_int_show_int)

lemma consume_canonical:
  "list_all (\<lambda>(q, x). arg_kind x = o_kind q) pvs \<Longrightarrow>
   consume (map (\<lambda>(q, x). TOpt q (Some (render_val x))) pvs) vals seen ex =
     Inr (foldl (\<lambda>vals (q, x). AList.update (o_dest q) x vals) vals pvs, rev (map (o_dest \<circ> fst) pvs) @ seen, ex)"
  by (induction pvs arbitrary: vals seen) (auto simp: convert_render)

lemma map_of_foldl_update:
  "map_of (foldl (\<lambda>vals (q, x). AList.update (o_dest q) x vals) vals pvs) =
   map_of vals ++ map_of (map (\<lambda>(q, x). (o_dest q, x)) (rev pvs))"
  by (induction pvs arbitrary: vals) (auto simp: update_conv' map_of_append)

text \<open>
  A canonical command line of a well-formed table, whose values have their
  options' types and which names every required option, parses to the values
  it names and the defaults of the others.
\<close>

lemma parse_args_canonical:
  assumes "wf_opts opts" and "set (map fst pvs) \<subseteq> set opts"
    and "list_all (\<lambda>(q, x). arg_kind x = o_kind q) pvs"
    and "list_all (\<lambda>q. o_required q \<longrightarrow> o_dest q \<in> set (map (o_dest \<circ> fst) pvs)) opts"
  shows "parse_args opts (map (\<lambda>(q, x). opt_arg q x) pvs) =
           Inr (map (\<lambda>q. (o_dest q, case map_of (map (\<lambda>(q, x). (o_dest q, x)) (rev pvs)) (o_dest q) of
                                     Some v \<Rightarrow> Some v | None \<Rightarrow> o_default q)) opts)"
proof -
  from assms(4) have "\<not> list_ex (\<lambda>q. o_required q \<and> o_dest q \<notin> set (rev (map (o_dest \<circ> fst) pvs) @ [])) opts"
    by (auto simp: list_ex_iff list_all_iff)
  with assms(1-3) show ?thesis
    by (simp add: parse_args_def classify_all_canonical consume_canonical map_of_foldl_update)
qed

lemma map_of_given:
  "map_of (map (\<lambda>(q, x). (o_dest q, x)) (rev (given q v))) = (\<lambda>k. if k = o_dest q then map_option AStr v else None)"
  by (cases v) (auto simp: given_def)

lemma fst_given: "(a, b) \<in> set (given q v) \<Longrightarrow> a = q"
  by (cases v) (simp_all add: given_def)

lemma kinds_given: "o_kind q = KStr \<Longrightarrow> list_all (\<lambda>(q, x). arg_kind x = o_kind q) (given q v)"
  by (cases v) (simp_all add: given_def)

lemma ns_str_lookup: "map_of ns k = Some (map_option AStr v) \<Longrightarrow> ns_str ns k = v"
  by (cases v) (simp_all add: ns_str_def)

text \<open>
  C24. The command line round-trips: for every parameter record with a
  \<open>--reset\<close> value, the command line that names each parameter as
  \<open>--name=value\<close> (an integer in decimal) is accepted by the parser of
  \<open>process_jsonl.py\<close> and gives back exactly that record, whatever the
  strings hold (spaces, leading dashes, \<open>=\<close>).
\<close>

theorem cli_line_roundtrip:
  "p_reset ps \<noteq> None \<Longrightarrow>
   \<exists>ns. parse_args process_jsonl_options (cli_line ps) = Inr ns \<and> args_params ns = ps"
proof -
  assume rs: "p_reset ps \<noteq> None"
  have wf: "wf_opts process_jsonl_options"
    by (simp add: wf_opts_def process_jsonl_options_def str_opt_def mode_opt_def reset_opt_def chunksize_opt_def)
  have sub: "set (map fst (cli_pairs ps)) \<subseteq> set process_jsonl_options"
    by (auto simp: cli_pairs_def process_jsonl_options_def dest: fst_given)
  have kinds: "list_all (\<lambda>(q, x). arg_kind x = o_kind q) (cli_pairs ps)"
    by (simp add: cli_pairs_def kinds_given str_opt_def reset_opt_def mode_opt_def chunksize_opt_def)
  have req: "list_all (\<lambda>q. o_required q \<longrightarrow> o_dest q \<in> set (map (o_dest \<circ> fst) (cli_pairs ps))) process_jsonl_options"
    by (simp add: cli_pairs_def process_jsonl_options_def str_opt_def mode_opt_def reset_opt_def chunksize_opt_def)
  note P = parse_args_canonical [OF wf sub kinds req]
  have "args_params (map (\<lambda>q. (o_dest q, case map_of (map (\<lambda>(q, x). (o_dest q, x)) (rev (cli_pairs ps))) (o_dest q) of
                                     Some v \<Rightarrow> Some v | None \<Rightarrow> o_default q)) process_jsonl_options) = ps"
    using rs
    by (cases ps) (auto simp: args_params_def ns_str_def cli_pairs_def process_jsonl_options_def str_opt_def
        mode_opt_def reset_opt_def chunksize_opt_def map_of_given map_add_def split: option.splits)
  with P show ?thesis by (auto simp: cli_line_def)
qed

theorem cli_line_roundtrip_witness:
  "p_reset (sample_params POSTGRES) \<noteq> None \<and>
   (\<exists>ns. parse_args process_jsonl_options (cli_line (sample_params POSTGRES)) = Inr ns \<and>
         args_params ns = sample_params POSTGRES)"
proof -
  have h: "p_reset (sample_params POSTGRES) \<noteq> None" by (simp add: sample_params_def)
  show ?thesis by (rule conjI [OF h cli_line_roundtrip [OF h]])
qed

text \<open>
  C25. A negative or zero \<open>--chunksize\<close> gets through the command-line parser
  (\<open>-5\<close> is read as a negative number, not as an option) and every such run
  of \<open>process_jsonl.py\<close> exits with status 1 without writing anything:
  whichever check stops it first, the chunk source refuses the size before
  the loop.
\<close>

theorem cli_small_chunksize:
  assumes "parse_args process_jsonl_options argv = Inr ns"
    and "map_of ns ''chunksize'' = Some (Some (AInt c))" and "c < 1"
  shows "process_jsonl_cli argv w = (w, [], 1)"
proof -
  from assms(2,3) have "p_chunksize (args_params ns) < 1" by (simp add: args_params_chunksize)
  from main_small_chunksize [OF this, of w] obtain r
    where "main (args_params ns) w = (w, [], r)" and "exit_code r = 1" by blast
  with assms(1) show ?thesis by (simp add: process_jsonl_cli_def)
qed

theorem cli_small_chunksize_witness:
  "parse_args process_jsonl_options [''--source'', ''data/Software.jsonl'', ''--table_name'', ''reviews'', ''--chunksize'', ''-5''] = Inr [(''source'', Some (AStr ''data/Software.jsonl'')), (''table_name'', Some (AStr ''reviews'')),
       (''mode'', Some (AStr POSTGRES)), (''host'', None), (''port'', None), (''db'', None), (''user'', None),
       (''password'', None), (''reset'', Some (AStr ''False'')), (''chunksize'', Some (AInt (- 5)))] \<and>
   map_of [(''source'', Some (AStr ''data/Software.jsonl'')), (''table_name'', Some (AStr ''reviews'')),
       (''mode'', Some (AStr POSTGRES)), (''host'', None), (''port'', None), (''db'', None), (''user'', None),
       (''password'', None), (''reset'', Some (AStr ''False'')), (''chunksize'', Some (AInt (- 5)))] ''chunksize'' = Some (Some (AInt (- 5))) \<and> (- 5 :: int) < 1 \<and>
   process_jsonl_cli [''--source'', ''data/Software.jsonl'', ''--table_name'', ''reviews'', ''--chunksize'', ''-5''] sample_world = (sample_world, [], 1)"
proof -
  have h1: "parse_args process_jsonl_options [''--source'', ''data/Software.jsonl'', ''--table_name'', ''reviews'', ''--chunksize'', ''-5''] = Inr [(''source'', Some (AStr ''data/Software.jsonl'')), (''table_name'', Some (AStr ''reviews'')),
       (''mode'', Some (AStr POSTGRES)), (''host'', None), (''port'', None), (''db'', None), (''user'', None),
       (''password'', None), (''reset'', Some (AStr ''False'')), (''chunksize'', Some (AInt (- 5)))]"
    by (simp add: parse_args_def process_jsonl_options_def str_opt_def mode_opt_def reset_opt_def
        chunksize_opt_def classify_def flag_def Let_def convert_def py_int_def py_strip_def is_py_space_def
        valid_int_body_def decimal_digits_def parse_nat_def is_negative_number_def py_startswith_def)
  have h2: "map_of [(''source'', Some (AStr ''data/Software.jsonl'')), (''table_name'', Some (AStr ''reviews'')),
       (''mode'', Some (AStr POSTGRES)), (''host'', None), (''port'', None), (''db'', None), (''user'', None),
       (''password'', None), (''reset'', Some (AStr ''False'')), (''chunksize'', Some (AInt (- 5)))] ''chunksize'' = Some (Some (AInt (- 5)))" by simp
  have h3: "(- 5 :: int) < 1" by simp
  show ?thesis by (intro conjI h1 h2 h3 cli_small_chunksize [OF h1 h2 h3])
qed

end
