(* ===== verification/Glob.thy ===== *)
theory Glob
  imports BigQuery "HOL-Library.List_Lexorder" "HOL-Library.Char_ord"
begin

text \<open>
  The script entry of \<open>export_bigquery.py\<close> (lines 149--160): the Parquet
  exports in \<open>data\<close> whose names match \<open>meta_Digital_Music*.parquet\<close> are
  listed with \<open>glob\<close>, sorted, and the first one is exported to the table
  \<open>meta\<close>; with no match the script prints a message and exits with 1.
  Python's \<open>glob\<close> is modelled on the branch this call takes (a directory
  part without wildcards, \<open>_glob1\<close> and \<open>_glob0\<close> of Python 3.11): the names
  of the directory (\<open>os.listdir\<close>, where the world's file paths give the
  entries of a directory as their first component below it), hidden names
  dropped unless the pattern is hidden, and \<open>fnmatch\<close> with \<open>*\<close>, \<open>?\<close> and
  literal characters. Bracket sets \<open>[...]\<close> are not modelled: the only
  pattern of the code has none. Strings are ordered as Python orders
  \<open>str\<close>, lexicographically by character code (\<open>List_Lexorder\<close>,
  \<open>Char_ord\<close>).
\<close>

section \<open>Wildcard patterns\<close>

text \<open>
  \<open>fnmatch.fnmatchcase\<close>: \<open>*\<close> matches any string, \<open>?\<close> any one character,
  every other character itself (the pattern is compiled to a regular
  expression with \<open>DOTALL\<close>, so a newline is an ordinary character).
\<close>

fun fnmatch :: "string \<Rightarrow> string \<Rightarrow> bool" where
  "fnmatch [] s = (s = [])"
| "fnmatch (c # p) s =
     (if c = CHR ''*'' then
        (case s of [] \<Rightarrow> fnmatch p [] | d # s' \<Rightarrow> fnmatch p s \<or> fnmatch (c # p) s')
      else
        (case s of [] \<Rightarrow> False | d # s' \<Rightarrow> (c = CHR ''?'' \<or> c = d) \<and> fnmatch p s'))"

text \<open>
  The language of a pattern, the reference the matcher is proved against,
  built with the concatenation of languages.
\<close>

definition conc :: "string set \<Rightarrow> string set \<Rightarrow> string set" where
  "conc A B = {xs @ ys |xs ys. xs \<in> A \<and> ys \<in> B}"

fun glob_lang :: "string \<Rightarrow> string set" where
  "glob_lang [] = {[]}"
| "glob_lang (c # p) =
     (if c = CHR ''*'' then conc UNIV (glob_lang p)
      else if c = CHR ''?'' then conc (range (\<lambda>d. [d])) (glob_lang p)
      else conc {[c]} (glob_lang p))"

text \<open>A pattern without the wildcards \<open>*\<close> and \<open>?\<close> denotes itself.\<close>

definition no_magic :: "string \<Rightarrow> bool" where
  "no_magic p = list_all (\<lambda>c. c \<noteq> CHR ''*'' \<and> c \<noteq> CHR ''?'') p"

text \<open>\<open>glob.has_magic\<close>: the pattern holds one of \<open>*\<close>, \<open>?\<close>, \<open>[\<close>.\<close>

definition has_magic :: "string \<Rightarrow> bool" where
  "has_magic s = list_ex (\<lambda>c. c \<in> set ''*?['') s"

text \<open>\<open>glob._ishidden\<close>: \<open>path[0] == '.'\<close>.\<close>

definition is_hidden :: "string \<Rightarrow> bool" where
  "is_hidden s = (take 1 s = ''.'')"

section \<open>Directories\<close>

text \<open>
  \<open>os.listdir(d)\<close>: the first path component below \<open>d/\<close> of every file of
  the world, each once; a missing directory lists nothing.
\<close>

definition listdir :: "string \<Rightarrow> world \<Rightarrow> string list" where
  "listdir d w =
     remdups (filter (\<lambda>n. n \<noteq> [])
       (map (\<lambda>f. takeWhile (\<lambda>c. c \<noteq> CHR ''/'') (drop (Suc (length d)) f))
          (filter (\<lambda>f. take (Suc (length d)) f = d @ ''/'') (map fst (w_files w)))))"

text \<open>\<open>os.path.lexists\<close>: a file, or a directory holding one.\<close>

definition lexists :: "string \<Rightarrow> world \<Rightarrow> bool" where
  "lexists p w =
     list_ex (\<lambda>f. f = p \<or> take (Suc (length p)) f = p @ ''/'') (map fst (w_files w))"

text \<open>
  \<open>glob(f'{d}/{base}')\<close> for a directory \<open>d\<close> without wildcards
  (\<open>glob._iglob\<close>): with wildcards in \<open>base\<close>, \<open>_glob1\<close> filters the listing
  of \<open>d\<close> and joins each name to \<open>d\<close>; without, the path is returned when it
  exists.
\<close>

definition glob_in_dir :: "string \<Rightarrow> string \<Rightarrow> world \<Rightarrow> string list" where
  "glob_in_dir d base w =
     (if has_magic base then
        map (\<lambda>n. d @ ''/'' @ n)
          (filter (fnmatch base)
             (if is_hidden base then listdir d w else filter (\<lambda>n. \<not> is_hidden n) (listdir d w)))
      else if lexists (d @ ''/'' @ base) w then [d @ ''/'' @ base] else [])"

section \<open>The script\<close>

text \<open>
  Lines 149--160: \<open>sorted(glob(...))[0]\<close> raises \<open>IndexError\<close> on an empty
  list, which the bare \<open>except\<close> turns into \<open>exit(1)\<close>; otherwise the
  first name is exported and the script ends with status 0 whatever
  \<open>export_parquet_to_bigquery\<close> returns, or with status 1 when it raises.
\<close>

definition export_bigquery_main :: "world \<Rightarrow> world \<times> int" where
  "export_bigquery_main w =
     (let path = ''data''; mask = ''meta_Digital_Music*.parquet'' in
      case sort (glob_in_dir path mask w) of
        [] \<Rightarrow> (w, 1)
      | f # _ \<Rightarrow>
          (case export_parquet_to_bigquery ''meta'' [f] (''Testing export '' @ mask) w of
             (w', Inl e) \<Rightarrow> (w', 1)
           | (w', Inr _) \<Rightarrow> (w', 0)))"

section \<open>Properties of the matcher and of glob\<close>

lemma Nil_in_conc_UNIV [simp]: "[] \<in> conc UNIV B \<longleftrightarrow> [] \<in> B"
  by (auto simp: conc_def)

lemma Cons_in_conc_UNIV [simp]:
  "d # s \<in> conc UNIV B \<longleftrightarrow> d # s \<in> B \<or> s \<in> conc UNIV B"
proof
  assume "d # s \<in> conc UNIV B"
  then obtain u v where uv: "d # s = u @ v" "v \<in> B" by (auto simp: conc_def)
  show "d # s \<in> B \<or> s \<in> conc UNIV B"
  proof (cases u)
    case Nil
    with uv show ?thesis by simp
  next
    case (Cons a u')
    with uv have "s = u' @ v" by simp
    with uv(2) show ?thesis by (auto simp: conc_def)
  qed
next
  assume "d # s \<in> B \<or> s \<in> conc UNIV B"
  then show "d # s \<in> conc UNIV B"
  proof
    assume "d # s \<in> B"
    moreover have "d # s = [] @ d # s" by simp
    ultimately show ?thesis unfolding conc_def by blast
  next
    assume "s \<in> conc UNIV B"
    then obtain u v where "s = u @ v" "v \<in> B" by (auto simp: conc_def)
    moreover have "d # u @ v = (d # u) @ v" by simp
    ultimately show ?thesis unfolding conc_def by blast
  qed
qed

lemma in_conc_single [simp]: "x \<in> conc {[c]} B \<longleftrightarrow> (\<exists>s. x = c # s \<and> s \<in> B)"
  by (auto simp: conc_def)

lemma in_conc_any [simp]: "x \<in> conc (range (\<lambda>d. [d])) B \<longleftrightarrow> (\<exists>d s. x = d # s \<and> s \<in> B)"
  by (auto simp: conc_def) (metis append_Cons append_Nil rangeI)

lemma fnmatch_lang: "fnmatch p s \<longleftrightarrow> s \<in> glob_lang p"
proof (induction p s rule: fnmatch.induct)
  case (1 s)
  then show ?case by simp
next
  case (2 c p s)
  then show ?case by (cases s) auto
qed

lemma glob_lang_literal_append:
  "no_magic p \<Longrightarrow> glob_lang (p @ q) = (\<lambda>v. p @ v) ` glob_lang q"
  by (induction p) (auto simp: no_magic_def)

lemma glob_lang_star_between:
  assumes "no_magic p" and "no_magic q"
  shows "glob_lang (p @ CHR ''*'' # q) = {p @ u @ q |u. True}"
proof -
  from glob_lang_literal_append [OF assms(2), of "[]"] have "glob_lang q = {q}" by simp
  with glob_lang_literal_append [OF assms(1)] show ?thesis by (auto simp: conc_def)
qed

lemma mask_lang:
  "glob_lang ''meta_Digital_Music*.parquet'' = {''meta_Digital_Music'' @ u @ ''.parquet'' |u. True}"
proof -
  have "''meta_Digital_Music*.parquet'' = ''meta_Digital_Music'' @ CHR ''*'' # ''.parquet''" by simp
  moreover have "no_magic ''meta_Digital_Music''" "no_magic ''.parquet''" by (simp_all add: no_magic_def)
  ultimately show ?thesis by (simp only: glob_lang_star_between)
qed

lemma case_sort_Min:
  fixes xs :: "'a::linorder list"
  shows "(case sort xs of [] \<Rightarrow> a | f # _ \<Rightarrow> b f) = (if xs = [] then a else b (Min (set xs)))"
proof (cases "sort xs")
  case Nil
  then have "xs = []" by (metis length_0_conv length_sort)
  then show ?thesis by simp
next
  case (Cons y ys)
  have s1: "sorted (sort xs)" by (rule sorted_sort)
  have s2: "\<exists>x \<in> set (sort xs). True" by (auto simp: Cons)
  have "List.find (\<lambda>_. True) (sort xs) = Some y" by (simp add: Cons)
  with sorted_find_Min [OF s1 s2] have "y = Min {x \<in> set (sort xs). True}" by simp
  then have "y = Min (set xs)" by simp
  with Cons show ?thesis by auto
qed

lemma append_mono: "mono (\<lambda>v. p @ v :: 'a::linorder list)"
proof (rule monoI)
  fix a b :: "'a list" assume "a \<le> b"
  then show "p @ a \<le> p @ b" by (induction p) simp_all
qed

lemma Min_prefix:
  fixes S :: "'a::linorder list set"
  assumes "finite S" and "S \<noteq> {}"
  shows "Min ((\<lambda>v. p @ v) ` S) = p @ Min S"
  using mono_Min_commute [OF append_mono assms] by simp

lemma mask_match:
  "\<not> is_hidden n \<and> fnmatch ''meta_Digital_Music*.parquet'' n \<longleftrightarrow>
   (\<exists>u. n = ''meta_Digital_Music'' @ u @ ''.parquet'')"
  by (simp only: fnmatch_lang mask_lang) (auto simp: is_hidden_def)

lemma glob_mask:
  "glob_in_dir ''data'' ''meta_Digital_Music*.parquet'' w =
     map (\<lambda>n. ''data/'' @ n)
       (filter (\<lambda>n. \<exists>u. n = ''meta_Digital_Music'' @ u @ ''.parquet'') (listdir ''data'' w))"
proof -
  have h: "has_magic ''meta_Digital_Music*.parquet'' = True"
    "is_hidden ''meta_Digital_Music*.parquet'' = False"
    by (simp_all add: has_magic_def is_hidden_def)
  show ?thesis
    by (simp only: glob_in_dir_def h if_True if_False filter_filter mask_match) simp
qed

text \<open>
  C28. The script \<open>export_bigquery.py\<close>: with no name of \<open>data\<close> of the form
  \<open>meta_Digital_Music\<close>, anything, \<open>.parquet\<close>, it exits with 1 and changes
  nothing; otherwise it exports the least such name in Python's string order
  to the table \<open>meta\<close>, and exits with 1 only when the export raises, with 0
  whatever the export returns.
\<close>

theorem export_bigquery_main_exports_least:
  "export_bigquery_main w =
     (let M = {n \<in> set (listdir ''data'' w). \<exists>u. n = ''meta_Digital_Music'' @ u @ ''.parquet''} in
      if M = {} then (w, 1)
      else (case export_parquet_to_bigquery ''meta'' [''data/'' @ Min M]
                   ''Testing export meta_Digital_Music*.parquet'' w of
              (w', Inl e) \<Rightarrow> (w', 1)
            | (w', Inr k) \<Rightarrow> (w', 0)))"
proof -
  define N where "N = filter (\<lambda>n. \<exists>u. n = ''meta_Digital_Music'' @ u @ ''.parquet'') (listdir ''data'' w)"
  have M: "{n \<in> set (listdir ''data'' w). \<exists>u. n = ''meta_Digital_Music'' @ u @ ''.parquet''} = set N"
    by (simp add: N_def)
  have "set N \<noteq> {} \<Longrightarrow> Min (set (map (\<lambda>n. ''data/'' @ n) N)) = ''data/'' @ Min (set N)"
    using Min_prefix [of "set N" "''data/''"] by simp
  then show ?thesis
    unfolding export_bigquery_main_def Let_def glob_mask N_def [symmetric] M case_sort_Min
    by simp
qed

end
