(* ===== verification/Spec2Isabelle.thy ===== *)
theory Spec2Isabelle
  imports Cli Glob
begin

text \<open>
  \<^bold>\<open>A verification model of the Amazon-reviews ingestion scripts.\<close>

  The repository ingests line-delimited JSON product and review records,
  chunk by chunk, into PostgreSQL, Parquet files (then BigQuery) or CSV
  samples. Three Python files make up the program: \<open>src/process_jsonl.py\<close>
  (the current driver, with the modes \<open>postgres\<close>, \<open>parquet\<close> and
  \<open>sample\<close>), \<open>src/jsonl_postgres.py\<close> (an older PostgreSQL-only driver with
  its own, textually identical, copies of \<open>preprocess_meta\<close>,
  \<open>transform_meta\<close> and \<open>reset_table\<close>, modelled as copies proved equal)
  and \<open>src/export_bigquery.py\<close> (the BigQuery loader that
  \<open>process_jsonl.py\<close> calls after a Parquet export, also a script of its
  own that exports the first matching file of \<open>data\<close>).
  The parts interact in one direction: a driver validates its command line,
  asks the registry for the table profile, opens the chunk source, runs the
  transformer on each chunk and hands the result to a sink; in Parquet mode
  the list of exported files goes to the BigQuery loader at the end.

  \<^bold>\<open>Theories.\<close>
  \<^item> \<open>Prelude\<close>: Python exceptions as the datatype \<open>exn\<close> (a fallible result
    is \<open>exn + 'a\<close>), the Python string operations used on file and column
    names (\<open>py_startswith\<close>, \<open>py_endswith\<close>, \<open>py_contains\<close> for \<open>in\<close>,
    \<open>py_replace\<close> for \<open>str.replace\<close>, \<open>py_lower\<close>), \<open>list.remove\<close>, the truth of
    optional arguments, \<open>map_exc\<close> (a fallible map), the formatting
    \<open>f'{i:02d}'\<close> (\<open>fmt02d\<close>, with its parser, which makes export names
    distinct) and the 32-bit reading of a cast integer.
  \<^item> \<open>Frame\<close>: the record batch, a pandas DataFrame as a record of a row
    count and named columns of \<open>cell\<close>s, with the pandas operations the
    scripts call (\<open>get_col\<close>, \<open>set_col\<close>, \<open>loc_set\<close>, \<open>select\<close>, \<open>head\<close>,
    \<open>rename_columns\<close>) and the invariant \<open>wf_frame\<close>.
  \<^item> \<open>Registry\<close>: the rule registry and input checks of both drivers
    (\<open>check_file_name\<close>, \<open>check_params\<close>, \<open>get_category_transformation\<close>,
    \<open>get_selected_columns\<close>, \<open>get_extra_detail_columns\<close>, \<open>final_columns\<close>,
    \<open>get_dtypes\<close>; the \<open>jsonl_postgres.py\<close> copies end in \<open>_pg\<close>).
  \<^item> \<open>Transform\<close>: the record transformer (\<open>preprocess_meta\<close>,
    \<open>transform_meta\<close>, \<open>extract_kindle_meta\<close>, the review renaming) and the
    per-chunk compositions of both drivers (\<open>prepare_chunk\<close>, \<open>clean_chunk\<close>,
    \<open>prepare_chunk_pg\<close>, \<open>clean_chunk_pg\<close>). Each pandas statement is a step
    on the frame; a \<open>try\<close>/\<open>except\<close> block keeps the frame as far as the
    block got, an uncaught exception is \<open>Inl\<close>, printed messages are a log
    of events. \<open>astype('int32')\<close> wraps \<open>int64\<close> values and sends
    \<open>float64\<close> values out of range to \<open>-2^31\<close> (\<open>f64_to_i32\<close>), as numpy does
    on x86-64.
  \<^item> \<open>Chunks\<close>: the chunk source, \<open>pd.read_json(..., chunksize=c)\<close>, as the
    validation of \<open>c\<close> and a split of the decoded records into frames of at
    most \<open>c\<close> rows (\<open>read_json_chunks\<close>).
  \<^item> \<open>Sinks\<close>: the world the scripts change, a record of files, environment,
    PostgreSQL tables and BigQuery datasets, and the sinks as functions on
    it: \<open>create_engine\<close> (the URLs it rejects are part of the world),
    \<open>pg_append\<close> (\<open>to_sql\<close> append), \<open>reset_table\<close> (whose index column is
    labelled by \<open>index_label\<close>), \<open>export_data_to_parquet\<close>, \<open>to_csv\<close>,
    \<open>parquet_name\<close>.
  \<^item> \<open>BigQuery\<close>: \<open>export_bigquery.py\<close>: \<open>get_schema\<close>, \<open>connect_bigquery\<close>,
    the load loop \<open>export_data_to_bigquery\<close> and \<open>export_parquet_to_bigquery\<close>.
  \<^item> \<open>Driver\<close>: both \<open>main\<close> functions (\<open>main\<close>, \<open>main_pg\<close>) over one loop
    \<open>run_loop\<close> driven by each script's loop body (\<open>chunk_step\<close>,
    \<open>chunk_step_pg\<close>, whose PostgreSQL part \<open>pg_sink_pg\<close> is proved equal to
    \<open>pg_sink\<close> once \<open>engine\<close> is bound), whose outcome is \<open>Raise\<close>,
    \<open>Return\<close> or \<open>Continue\<close>; in PostgreSQL mode both build the URL
    \<open>engine_url\<close> and return 1 when \<open>create_engine\<close> rejects it.
  \<^item> \<open>Cli\<close>: the command line and the exit status of both scripts: the
    option tables of the \<open>add_argument\<close> calls, \<open>parse_args\<close> after
    Python 3.11's \<open>argparse\<close> (token classification with \<open>--name=value\<close>,
    unique prefixes, \<open>-h\<close>, negative numbers and \<open>--\<close>; consumption of the
    values with \<open>int()\<close> conversion; the required and leftover checks), the
    \<open>args\<close> record \<open>main\<close> reads (\<open>args_params\<close>), and
    \<open>process_jsonl_cli\<close>, \<open>jsonl_postgres_cli\<close> for
    \<open>exit(main(parser.parse_args()))\<close>.
  \<^item> \<open>Glob\<close>: the script entry of \<open>export_bigquery.py\<close>
    (\<open>export_bigquery_main\<close>) and the part of Python's \<open>glob\<close> it uses
    (\<open>glob_in_dir\<close> over \<open>listdir\<close>, \<open>is_hidden\<close> and the wildcard matcher
    \<open>fnmatch\<close>, with the reference language \<open>glob_lang\<close> built with \<open>conc\<close>),
    \<open>sorted()\<close> as \<open>sort\<close> under the lexicographic order of strings.
  \<^item> this theory: the properties of whole runs, which span the transformer,
    the sinks and the loader.

  \<^bold>\<open>What is proved.\<close> The registry's file-name check accepts exactly the
  documented names, and a run for the books table never loads anything. The
  transformer's category remap refines a cell-wise specification; nulls get
  their defaults; rating counts become non-negative \<open>int32\<close> values when a
  rule runs; the shape and all other columns of a chunk are kept. A Parquet
  run writes one file per \<open>--chunksize\<close> records, each with between 1 and
  that many rows, together all the records. In PostgreSQL mode a run appends the
  transformed chunks of a prefix of the file, all of them when nothing fails,
  and with \<open>--reset true\<close> exactly those chunks, the old rows gone;
  the BigQuery loader loads every file when no job is rejected and stops at
  the first rejected job with the files before it loaded; in Parquet mode
  every chunk gets its own, never overwritten, file, holding a frame with
  exactly the final columns; sample mode touches no sink. The findings are proved too: a reset adds an \<open>index\<close> column, a
  failed BigQuery export still exits 0, \<open>jsonl_postgres.py\<close> fails on an
  empty file, an invalid chunk size escapes the checks, negative counts
  survive in files without a remap rule. On the
  command line, both scripts exit with 0, 1 or 2; every accepted command line
  gives \<open>main\<close> strings and an integer where it expects them; the canonical
  command line of a parameter record parses back to that record; and a
  non-positive \<open>--chunksize\<close> passes the parser and ends every run with
  status 1 and no write. The script \<open>export_bigquery.py\<close> exports the least
  file name of \<open>data\<close> matching its mask, or exits with 1 when there is none,
  and its exit status ignores what the export returns.

  \<^bold>\<open>Witnesses.\<close> Every property with hypotheses is applied to a concrete
  input and evaluated by \<open>simp\<close> or \<open>code_simp\<close>: the sample product chunk
  of \<open>meta_Software_sample.jsonl\<close> (Transform), a world with two review lines in
  \<open>data/Software.jsonl\<close>, a PostgreSQL table and BigQuery credentials, run
  with chunk size 1 in each mode (Driver), small command lines of
  \<open>process_jsonl.py\<close> (Cli), and a world with two one-row Parquet exports
  in \<open>data\<close> and an empty BigQuery table (BigQuery, Glob).
  No fuel is needed: every loop of the program
  runs over a finite list (the chunks, the rules, the files, the command-line
  tokens, the names of a directory), the recursions that are not structural
  (\<open>py_replace\<close>, \<open>chunk_split\<close>, \<open>show_nat\<close>, and \<open>fnmatch\<close>, whose
  \<open>*\<close> case keeps the pattern) have termination proofs.

  \<^bold>\<open>Not modelled.\<close> JSON decoding, gzip and the dtype coercion inside
  \<open>read_json\<close> (the model takes the decoded, coerced records as given, and a
  decoding error aborts before the first chunk); the SQL types and the
  typing of BigQuery load jobs (a rejected job is part of the world);
  what makes \<open>create_engine\<close> reject a URL (its URL parsing, the \<open>int()\<close> of
  the port and the loading of the driver; the rejected URLs are part of the
  world); the creation of BigQuery datasets and tables, which succeed, and a
  failure of \<open>get_table\<close> after the loads, for a table that was just made
  sure to exist; \<open>astype('int32')\<close> on strings, which the numeric count
  columns never hold; of \<open>argparse\<close>, the behaviours
  these parsers never meet (positional arguments, single-dash options other
  than \<open>-h\<close>, non-ASCII digits in \<open>int()\<close>) and the help and error texts;
  timing (\<open>time()\<close> only feeds printed durations), \<open>verbose\<close> (with
  \<open>DEBUG = False\<close> it returns the empty string into a printed message) and
  the console output other than the transformer's warnings; of \<open>glob\<close>,
  bracket sets \<open>[...]\<close>, recursive \<open>**\<close> and wildcards in the directory
  part, which the one call of the program does not use.
\<close>

section \<open>Properties of whole runs\<close>


text \<open>
  C10. PostgreSQL mode of \<open>process_jsonl.py\<close>, without reset, on an existing
  table: the run appends the transformed chunks of a prefix of the file, in
  order and each one whole, aligned on the table's columns; when the loop runs
  to its end, the prefix is the whole file. A failure leaves the chunks before
  it committed and stops the run.
\<close>

theorem postgres_run_appends:
  assumes mode: "c_mode c = POSTGRES" and eng: "c_engine c" and nr: "\<not> reset_requested (c_reset c)"
    and tbl: "map_of (w_pg w) (c_table c) = Some t"
    and run: "run_loop (chunk_step c) i ex dfs w = (w', l, r)"
  shows "\<exists>fs t'. list_all2 (\<lambda>df f. transform_chunk c df = Some f) (take (length fs) dfs) fs \<and>
           map_of (w_pg w') (c_table c) = Some t' \<and> t_cols t' = t_cols t \<and>
           t_rows t' = t_rows t @ concat (map (\<lambda>f. map (table_row (t_cols t)) (frame_rows f)) fs) \<and>
           (is_continue r \<longrightarrow> length fs = length dfs)"
  using tbl run
proof (induction dfs arbitrary: i w t l)
  case Nil
  then show ?case by (intro exI [of _ "[]"] exI [of _ t]) auto
next
  case (Cons df dfs)
  from Cons.prems(2) show ?case
  proof (cases rule: run_loop_Cons_E)
    case (cont w1 l1 acc1 l2)
    from chunk_step_postgres [OF mode eng _ cont(1)] nr obtain f
      where ex: "acc1 = ex" and tf: "transform_chunk c df = Some f"
        and ap: "pg_append (c_table c) f w = Inr w1"
      by auto
    let ?t1 = "t\<lparr>t_rows := t_rows t @ map (table_row (t_cols t)) (frame_rows f)\<rparr>"
    from pg_append_existing [OF Cons.prems(1) ap] have "map_of (w_pg w1) (c_table c) = Some ?t1" .
    from Cons.IH [OF this cont(2) [unfolded ex]] obtain fs t' where
      "list_all2 (\<lambda>df f. transform_chunk c df = Some f) (take (length fs) dfs) fs"
      "map_of (w_pg w') (c_table c) = Some t'" "t_cols t' = t_cols t"
      "t_rows t' = t_rows ?t1 @ concat (map (\<lambda>f. map (table_row (t_cols t)) (frame_rows f)) fs)"
      "is_continue r \<longrightarrow> length fs = length dfs"
      by auto
    with tf show ?thesis by (intro exI [of _ "f # fs"] exI [of _ t']) auto
  next
    case stop
    with chunk_step_postgres [OF mode eng _ stop(1)] nr have "w' = w" by auto
    with stop(2) Cons.prems(1) show ?thesis by (intro exI [of _ "[]"] exI [of _ t]) auto
  qed
qed

theorem postgres_run_appends_witness:
  "run_loop (chunk_step (sample_cfg POSTGRES)) 0 [] sample_chunks sample_world =
     (fst (run_loop (chunk_step (sample_cfg POSTGRES)) 0 [] sample_chunks sample_world),
      fst (snd (run_loop (chunk_step (sample_cfg POSTGRES)) 0 [] sample_chunks sample_world)),
      Continue []) \<and>
   (\<exists>fs t'. list_all2 (\<lambda>df f. transform_chunk (sample_cfg POSTGRES) df = Some f)
        (take (length fs) sample_chunks) fs \<and>
      map_of (w_pg (fst (run_loop (chunk_step (sample_cfg POSTGRES)) 0 [] sample_chunks sample_world)))
        ''reviews'' = Some t' \<and>
      t_cols t' = get_selected_columns ''reviews'' \<and>
      t_rows t' = [] @ concat (map (\<lambda>f. map (table_row (get_selected_columns ''reviews'')) (frame_rows f)) fs) \<and>
      (is_continue (Continue ([] :: string list)) \<longrightarrow> length fs = length sample_chunks))"
proof -
  let ?R = "run_loop (chunk_step (sample_cfg POSTGRES)) 0 [] sample_chunks sample_world"
  have h1: "c_mode (sample_cfg POSTGRES) = POSTGRES" by (simp add: sample_cfg_def)
  have h2: "c_engine (sample_cfg POSTGRES)" by (simp add: sample_cfg_def)
  have h3: "\<not> reset_requested (c_reset (sample_cfg POSTGRES))" by code_simp
  have h4: "map_of (w_pg sample_world) (c_table (sample_cfg POSTGRES)) =
      Some \<lparr>t_cols = get_selected_columns ''reviews'', t_rows = []\<rparr>"
    by (simp add: sample_world_def sample_cfg_def)
  have r: "snd (snd ?R) = Continue []" by code_simp
  then have h5: "?R = (fst ?R, fst (snd ?R), Continue [])" by (metis prod.collapse)
  from postgres_run_appends [OF h1 h2 h3 h4 h5] h5 show ?thesis by (simp add: sample_cfg_def)
qed

text \<open>
  C11. Parquet mode of \<open>process_jsonl.py\<close>: the run writes the transformed
  chunks of a prefix of the file, the \<open>k\<close>-th into its own file
  \<open>jsonl_name-kk.parquet\<close>, where no later chunk overwrites it; when the loop
  runs to its end, the export list handed to BigQuery names the files of all
  chunks, in order.
\<close>

theorem parquet_run_exports:
  assumes mode: "c_mode c = PARQUET" and run: "run_loop (chunk_step c) i ex dfs w = (w', l, r)"
  shows "\<exists>fs. list_all2 (\<lambda>df f. transform_chunk c df = Some f) (take (length fs) dfs) fs \<and>
           (\<forall>j < length fs. map_of (w_files w') (parquet_name (c_source c) (Suc i + j)) =
                             Some (FParquet (fs ! j))) \<and>
           (is_continue r \<longrightarrow> length fs = length dfs \<and>
              r = Continue (ex @ map (parquet_name (c_source c)) [Suc i..<Suc i + length dfs]))"
  using run
proof (induction dfs arbitrary: i ex w l)
  case Nil
  then show ?case by (intro exI [of _ "[]"]) auto
next
  case (Cons df dfs)
  from Cons.prems show ?case
  proof (cases rule: run_loop_Cons_E)
    case (cont w1 l1 acc1 l2)
    let ?n = "parquet_name (c_source c)"
    from chunk_step_parquet [OF mode cont(1)] obtain f
      where acc1: "acc1 = ex @ [?n (Suc i)]" and tf: "transform_chunk c df = Some f"
        and w1: "w1 = write_file (?n (Suc i)) (FParquet f) w"
      by auto
    have "\<forall>k > Suc i. ?n (Suc i) \<noteq> ?n k" by (simp add: parquet_name_eq_iff)
    from parquet_run_other_files [OF mode cont(2) this] w1
    have first: "map_of (w_files w') (?n (Suc i)) = Some (FParquet f)" by simp
    from Cons.IH [OF cont(2)] obtain fs where
      rel: "list_all2 (\<lambda>df f. transform_chunk c df = Some f) (take (length fs) dfs) fs" and
      files: "\<forall>j < length fs. map_of (w_files w') (?n (Suc (Suc i) + j)) = Some (FParquet (fs ! j))" and
      fin: "is_continue r \<longrightarrow> length fs = length dfs \<and>
              r = Continue (acc1 @ map ?n [Suc (Suc i)..<Suc (Suc i) + length dfs])"
      by blast
    from first files have "\<forall>j < length (f # fs). map_of (w_files w') (?n (Suc i + j)) = Some (FParquet ((f # fs) ! j))"
      by (rule indexed_files_Cons)
    moreover from fin acc1 upt_shift_Cons [of i df dfs]
    have "is_continue r \<longrightarrow> length (f # fs) = length (df # dfs) \<and>
        r = Continue (ex @ map ?n [Suc i..<Suc i + length (df # dfs)])"
      by (simp del: upt_Suc)
    ultimately show ?thesis using rel tf by (intro exI [of _ "f # fs"]) simp
  next
    case stop
    with chunk_step_parquet [OF mode stop(1)] show ?thesis by (intro exI [of _ "[]"]) auto
  qed
qed

theorem parquet_run_exports_witness:
  "run_loop (chunk_step (sample_cfg PARQUET)) 0 [] sample_chunks sample_world =
     (fst (run_loop (chunk_step (sample_cfg PARQUET)) 0 [] sample_chunks sample_world),
      fst (snd (run_loop (chunk_step (sample_cfg PARQUET)) 0 [] sample_chunks sample_world)),
      Continue [''data/Software.jsonl-01.parquet'', ''data/Software.jsonl-02.parquet'']) \<and>
   (\<exists>fs. list_all2 (\<lambda>df f. transform_chunk (sample_cfg PARQUET) df = Some f)
        (take (length fs) sample_chunks) fs \<and>
      (\<forall>j < length fs.
         map_of (w_files (fst (run_loop (chunk_step (sample_cfg PARQUET)) 0 [] sample_chunks sample_world)))
           (parquet_name ''data/Software.jsonl'' (Suc 0 + j)) = Some (FParquet (fs ! j))) \<and>
      (is_continue (Continue [''data/Software.jsonl-01.parquet'', ''data/Software.jsonl-02.parquet'']) \<longrightarrow>
         length fs = length sample_chunks \<and>
         Continue [''data/Software.jsonl-01.parquet'', ''data/Software.jsonl-02.parquet''] =
           Continue ([] @ map (parquet_name ''data/Software.jsonl'') [Suc 0..<Suc 0 + length sample_chunks])))"
proof -
  let ?R = "run_loop (chunk_step (sample_cfg PARQUET)) 0 [] sample_chunks sample_world"
  have h1: "c_mode (sample_cfg PARQUET) = PARQUET" by (simp add: sample_cfg_def)
  have r: "snd (snd ?R) = Continue [''data/Software.jsonl-01.parquet'', ''data/Software.jsonl-02.parquet'']"
    by code_simp
  then have h2: "?R = (fst ?R, fst (snd ?R),
      Continue [''data/Software.jsonl-01.parquet'', ''data/Software.jsonl-02.parquet''])"
    by (metis prod.collapse)
  from parquet_run_exports [OF h1 h2] h2 show ?thesis by (simp add: sample_cfg_def)
qed

text \<open>
  C12. Sample mode of \<open>process_jsonl.py\<close> touches no sink: whatever the
  input, the PostgreSQL tables and the BigQuery datasets are left as they were,
  and no file is written but the two samples \<open>jsonl_name_0.csv\<close> and
  \<open>jsonl_name_1.csv\<close>.
\<close>

theorem sample_mode_no_sink:
  assumes mode: "p_mode ps = SAMPLE" and run: "main ps w = (w', l, r)"
  shows "w_pg w' = w_pg w \<and> w_bq w' = w_bq w \<and>
         (\<forall>n. n \<noteq> p_source ps @ ''_0.csv'' \<and> n \<noteq> p_source ps @ ''_1.csv'' \<longrightarrow>
              map_of (w_files w') n = map_of (w_files w) n)"
  using run
proof (cases rule: main_E)
  case early
  then show ?thesis by simp
next
  case (loop final rules chunks l1 r1 w1)
  let ?c = "main_cfg ps (check_file_name (p_source ps) (p_table_name ps)) final rules"
  from loop(6) mode have w': "w' = w1" by auto
  have "c_mode ?c = SAMPLE" "c_source ?c = p_source ps" using mode by (simp_all add: main_cfg_def)
  show ?thesis
  proof (cases chunks)
    case Nil
    with loop(5) w' show ?thesis by simp
  next
    case (Cons df dfs)
    from loop(5) Cons have "run_loop (chunk_step ?c) 0 [] (df # dfs) w = (w1, l1, r1)" by simp
    then show ?thesis
    proof (cases rule: run_loop_Cons_E)
      case (cont w2 l2 acc1 l3)
      with chunk_step_sample [OF \<open>c_mode ?c = SAMPLE\<close>] show ?thesis by fastforce
    next
      case stop
      with chunk_step_sample [OF \<open>c_mode ?c = SAMPLE\<close> stop(1)] w' \<open>c_source ?c = p_source ps\<close>
      show ?thesis by simp
    qed
  qed
qed

theorem sample_mode_no_sink_witness:
  "p_mode (sample_params SAMPLE) = SAMPLE \<and>
   main (sample_params SAMPLE) sample_world =
     (fst (main (sample_params SAMPLE) sample_world), fst (snd (main (sample_params SAMPLE) sample_world)),
      Inr 0) \<and>
   w_pg (fst (main (sample_params SAMPLE) sample_world)) = w_pg sample_world \<and>
   w_bq (fst (main (sample_params SAMPLE) sample_world)) = w_bq sample_world \<and>
   map_of (w_files (fst (main (sample_params SAMPLE) sample_world))) ''data/Software.jsonl'' =
     map_of (w_files sample_world) ''data/Software.jsonl''"
proof -
  let ?M = "main (sample_params SAMPLE) sample_world"
  have h1: "p_mode (sample_params SAMPLE) = SAMPLE" by (simp add: sample_params_def)
  have "snd (snd ?M) = Inr 0" by code_simp
  then have h2: "?M = (fst ?M, fst (snd ?M), Inr 0)" by (metis prod.collapse)
  note c = sample_mode_no_sink [OF h1 h2]
  have n: "''data/Software.jsonl'' \<noteq> p_source (sample_params SAMPLE) @ ''_0.csv'' \<and>
      ''data/Software.jsonl'' \<noteq> p_source (sample_params SAMPLE) @ ''_1.csv''"
    by (simp add: sample_params_def)
  show ?thesis
    using h1 h2 c [THEN conjunct1] c [THEN conjunct2, THEN conjunct1]
      c [THEN conjunct2, THEN conjunct2, THEN spec, THEN mp, OF n]
    by (intro conjI)
qed

text \<open>
  C13. A reset does not give the table the chunk's schema: with \<open>--reset
  true\<close>, the first chunk \<open>f\<close> leaves the table with the columns \<open>index\<close>
  followed by the chunk's columns, its rows carrying NULL in \<open>index\<close>
  (\<open>head(n=0).to_sql\<close> keeps \<open>index=True\<close>, the append then passes
  \<open>index=False\<close>).
\<close>

theorem reset_adds_index_column:
  assumes "reset_requested (c_reset c)" and "c_engine c" and "w_pg_up w"
    and "distinct (columns f)" and "''index'' \<notin> set (columns f)"
  shows "pg_sink c 1 f acc l w =
           (w\<lparr>w_pg := AList.update (c_table c)
                \<lparr>t_cols = ''index'' # columns f, t_rows = map (\<lambda>row. VNull # map snd row) (frame_rows f)\<rparr>
                (w_pg w)\<rparr>, l, Continue acc)"
proof -
  have rows: "map (table_row (''index'' # columns f)) (frame_rows f) = map (\<lambda>row. VNull # map snd row) (frame_rows f)"
    by (rule map_cong [OF refl]) (simp add: table_row_index assms(4,5))
  from assms show ?thesis
    by (simp add: pg_sink_def reset_table_def pg_replace_empty_def pg_append_def update_conv' Let_def rows subset_insertI)
qed

theorem reset_adds_index_column_witness:
  "reset_requested (c_reset ((sample_cfg POSTGRES)\<lparr>c_reset := Some ''True''\<rparr>)) \<and>
   c_engine ((sample_cfg POSTGRES)\<lparr>c_reset := Some ''True''\<rparr>) \<and> w_pg_up sample_world \<and>
   distinct (columns \<lparr>nrows = 1, cols = [(''parent_asin'', [VStr ''B01''])]\<rparr>) \<and>
   ''index'' \<notin> set (columns \<lparr>nrows = 1, cols = [(''parent_asin'', [VStr ''B01''])]\<rparr>) \<and>
   pg_sink ((sample_cfg POSTGRES)\<lparr>c_reset := Some ''True''\<rparr>) 1
     \<lparr>nrows = 1, cols = [(''parent_asin'', [VStr ''B01''])]\<rparr> ([] :: string list) [] sample_world =
     (sample_world\<lparr>w_pg := AList.update ''reviews''
        \<lparr>t_cols = ''index'' # columns \<lparr>nrows = 1, cols = [(''parent_asin'', [VStr ''B01''])]\<rparr>,
         t_rows = map (\<lambda>row. VNull # map snd row)
                    (frame_rows \<lparr>nrows = 1, cols = [(''parent_asin'', [VStr ''B01''])]\<rparr>)\<rparr>
        (w_pg sample_world)\<rparr>, [], Continue [])"
proof -
  let ?c = "(sample_cfg POSTGRES)\<lparr>c_reset := Some ''True''\<rparr>"
  let ?f = "\<lparr>nrows = 1, cols = [(''parent_asin'', [VStr ''B01''])]\<rparr>"
  have h1: "reset_requested (c_reset ?c)" by code_simp
  have h2: "c_engine ?c" by (simp add: sample_cfg_def)
  have h3: "w_pg_up sample_world" by (simp add: sample_world_def)
  have h4: "distinct (columns ?f)" by (simp add: columns_def)
  have h5: "''index'' \<notin> set (columns ?f)" by (simp add: columns_def)
  have "c_table ?c = ''reviews''" by (simp add: sample_cfg_def)
  with reset_adds_index_column [OF h1 h2 h3 h4 h5, of "[] :: string list" "[]"] h1 h2 h3 h4 h5
  show ?thesis by simp
qed

text \<open>
  C14. In Parquet mode the exit code of \<open>process_jsonl.py\<close> does not depend on
  BigQuery: once the loop has exported every chunk, \<open>main\<close> returns 0
  whatever \<open>export_parquet_to_bigquery\<close> returns, 1 for a failed connection
  included.
\<close>

theorem main_parquet_ignores_bigquery:
  assumes "p_mode ps = PARQUET" and "check_file_name (p_source ps) (p_table_name ps) = fname"
    and "fname \<noteq> []"
    and "final_columns (p_table_name ps) fname = Inr final"
    and "get_category_transformation (p_table_name ps) fname = Inr rules"
    and "read_json (p_source ps) (p_chunksize ps) w = Inr chunks"
    and "run_loop (chunk_step (main_cfg ps fname final rules)) 0 [] chunks w = (w1, l, Continue ex)"
    and "export_parquet_to_bigquery (p_table_name ps) ex fname w1 = (w2, Inr k)"
  shows "main ps w = (w2, l, Inr 0)"
  using assms by (simp add: main_def Let_def check_params_def)

theorem main_parquet_ignores_bigquery_witness:
  "main (sample_params PARQUET) (sample_world\<lparr>w_bq_client_ok := False\<rparr>) =
     (fst (export_parquet_to_bigquery (p_table_name (sample_params PARQUET))
             [''data/Software.jsonl-01.parquet'', ''data/Software.jsonl-02.parquet''] ''Software.jsonl''
             (fst (run_loop (chunk_step (main_cfg (sample_params PARQUET) ''Software.jsonl''
                    (get_selected_columns ''reviews'') [])) 0 []
                    sample_chunks (sample_world\<lparr>w_bq_client_ok := False\<rparr>)))),
      fst (snd (run_loop (chunk_step (main_cfg (sample_params PARQUET) ''Software.jsonl''
                    (get_selected_columns ''reviews'') [])) 0 []
                    sample_chunks (sample_world\<lparr>w_bq_client_ok := False\<rparr>))),
      Inr 0) \<and>
   snd (export_parquet_to_bigquery (p_table_name (sample_params PARQUET))
          [''data/Software.jsonl-01.parquet'', ''data/Software.jsonl-02.parquet''] ''Software.jsonl''
          (fst (run_loop (chunk_step (main_cfg (sample_params PARQUET) ''Software.jsonl''
                 (get_selected_columns ''reviews'') [])) 0 []
                 sample_chunks (sample_world\<lparr>w_bq_client_ok := False\<rparr>)))) = Inr 1"
proof -
  let ?ps = "sample_params PARQUET" and ?w = "sample_world\<lparr>w_bq_client_ok := False\<rparr>"
  let ?c = "main_cfg ?ps ''Software.jsonl'' (get_selected_columns ''reviews'') []"
  let ?ex = "[''data/Software.jsonl-01.parquet'', ''data/Software.jsonl-02.parquet'']"
  let ?R = "run_loop (chunk_step ?c) 0 [] sample_chunks ?w"
  let ?E = "export_parquet_to_bigquery (p_table_name (sample_params PARQUET)) ?ex ''Software.jsonl'' (fst ?R)"
  have h1: "p_mode ?ps = PARQUET" by (simp add: sample_params_def)
  have h2: "check_file_name (p_source ?ps) (p_table_name ?ps) = ''Software.jsonl''" by code_simp
  have h3: "''Software.jsonl'' \<noteq> []" by simp
  have h4: "final_columns (p_table_name ?ps) ''Software.jsonl'' = Inr (get_selected_columns ''reviews'')"
    by code_simp
  have h5: "get_category_transformation (p_table_name ?ps) ''Software.jsonl'' = Inr []" by code_simp
  have h6: "read_json (p_source ?ps) (p_chunksize ?ps) ?w = Inr sample_chunks" by code_simp
  have "snd (snd ?R) = Continue ?ex" by code_simp
  then have h7: "?R = (fst ?R, fst (snd ?R), Continue ?ex)" by (metis prod.collapse)
  have e: "snd ?E = Inr 1" by code_simp
  then have h8: "?E = (fst ?E, Inr 1)" by (metis prod.collapse)
  from main_parquet_ignores_bigquery [OF h1 h2 h3 h4 h5 h6 h7 h8] e show ?thesis by simp
qed

text \<open>
  C7. \<open>process_jsonl.py\<close> can never load the \<open>books\<close> table: whatever the
  other arguments and the state of the world, a run with \<open>--table_name
  books\<close> writes nothing and does not succeed. The checks return 1, or
  \<open>final_columns\<close> removes \<open>details\<close> from a column list without it and
  \<open>list.remove\<close> raises \<open>ValueError\<close>, before the file is read.
\<close>

theorem main_books_never_loads:
  assumes "p_table_name ps = ''books''"
  shows "fst (main ps w) = w \<and> fst (snd (main ps w)) = [] \<and>
         snd (snd (main ps w)) \<in> {Inr 1, Inl (ValueError ''list.remove(x): x not in list'')}"
  using assms by (simp add: main_def Let_def final_columns_books_fails)

theorem main_books_never_loads_witness:
  "p_table_name ((sample_params PARQUET)\<lparr>p_source := ''data/meta_Books.jsonl'', p_table_name := ''books''\<rparr>) =
     ''books'' \<and>
   fst (main ((sample_params PARQUET)\<lparr>p_source := ''data/meta_Books.jsonl'', p_table_name := ''books''\<rparr>)
     sample_world) = sample_world \<and>
   snd (snd (main ((sample_params PARQUET)\<lparr>p_source := ''data/meta_Books.jsonl'', p_table_name := ''books''\<rparr>)
     sample_world)) \<in> {Inr 1, Inl (ValueError ''list.remove(x): x not in list'')} \<and>
   main ((sample_params PARQUET)\<lparr>p_source := ''data/meta_Books.jsonl'', p_table_name := ''books''\<rparr>)
     sample_world = (sample_world, [], Inl (ValueError ''list.remove(x): x not in list''))"
proof -
  let ?ps = "(sample_params PARQUET)\<lparr>p_source := ''data/meta_Books.jsonl'', p_table_name := ''books''\<rparr>"
  have h: "p_table_name ?ps = ''books''" by simp
  from main_books_never_loads [OF h, of sample_world]
  have t: "fst (main ?ps sample_world) = sample_world"
    "snd (snd (main ?ps sample_world)) \<in> {Inr 1, Inl (ValueError ''list.remove(x): x not in list'')}"
    by simp_all
  have "check_file_name (p_source ?ps) (p_table_name ?ps) \<noteq> []" by code_simp
  moreover have "check_params (p_mode ?ps) ?ps" by code_simp
  moreover have "p_mode ?ps \<noteq> POSTGRES" by code_simp
  ultimately have v: "main ?ps sample_world = (sample_world, [], Inl (ValueError ''list.remove(x): x not in list''))"
    by (simp add: main_def Let_def final_columns_books_fails)
  from h t v show ?thesis by blast
qed

text \<open>
  C15. \<open>jsonl_postgres.py\<close> cannot load a file without records: the loop body
  never runs, and the final message reads \<open>t_end\<close>, which only the body
  binds, so \<open>main\<close> ends in \<open>UnboundLocalError\<close> with nothing written.
\<close>

theorem main_pg_empty_file:
  assumes "check_file_name_pg (p_source ps) (p_table_name ps) \<noteq> []"
    and "engine_url ps \<notin> set (w_engine_fail w)"
    and "read_json (p_source ps) (int CHUNKSIZE_pg) w = Inr []"
  shows "main_pg ps w = (w, [], Inl (UnboundLocalError ''t_end''))"
  using assms by (simp add: main_pg_def Let_def create_engine_def)

theorem main_pg_empty_file_witness:
  "check_file_name_pg (p_source (sample_params POSTGRES)) (p_table_name (sample_params POSTGRES)) \<noteq> [] \<and>
   read_json (p_source (sample_params POSTGRES)) (int CHUNKSIZE_pg)
     (sample_world\<lparr>w_files := [(''data/Software.jsonl'', FJsonl [])]\<rparr>) = Inr [] \<and>
   main_pg (sample_params POSTGRES) (sample_world\<lparr>w_files := [(''data/Software.jsonl'', FJsonl [])]\<rparr>) =
     (sample_world\<lparr>w_files := [(''data/Software.jsonl'', FJsonl [])]\<rparr>, [], Inl (UnboundLocalError ''t_end''))"
proof -
  have h1: "check_file_name_pg (p_source (sample_params POSTGRES)) (p_table_name (sample_params POSTGRES)) \<noteq> []"
    by code_simp
  have h2: "read_json (p_source (sample_params POSTGRES)) (int CHUNKSIZE_pg)
     (sample_world\<lparr>w_files := [(''data/Software.jsonl'', FJsonl [])]\<rparr>) = Inr []"
    by (simp add: read_json_def read_json_chunks_def CHUNKSIZE_pg_def sample_params_def)
  have he: "engine_url (sample_params POSTGRES) \<notin>
      set (w_engine_fail (sample_world\<lparr>w_files := [(''data/Software.jsonl'', FJsonl [])]\<rparr>))"
    by (simp add: sample_world_def)
  from main_pg_empty_file [OF h1 he h2] h1 h2 show ?thesis by blast
qed

text \<open>
  C16. \<open>--chunksize\<close> is not checked with the other parameters: whatever the
  mode, a value below 1 with an accepted file name and, in \<open>postgres\<close> mode,
  the five connection arguments given and an accepted URL, gets past every
  check of \<open>main\<close> and the table profile; then \<open>read_json\<close> raises
  \<open>ValueError\<close> out of \<open>main\<close>, before anything is written.
\<close>

theorem main_invalid_chunksize:
  assumes "p_chunksize ps < 1"
    and "check_file_name (p_source ps) (p_table_name ps) \<noteq> []"
    and "p_mode ps = POSTGRES \<longrightarrow>
           py_truthy (p_host ps) \<and> py_truthy (p_port ps) \<and> py_truthy (p_db ps) \<and>
           py_truthy (p_user ps) \<and> py_truthy (p_password ps) \<and>
           engine_url ps \<notin> set (w_engine_fail w)"
    and "final_columns (p_table_name ps) (check_file_name (p_source ps) (p_table_name ps)) = Inr final"
    and "get_category_transformation (p_table_name ps) (check_file_name (p_source ps) (p_table_name ps)) = Inr rules"
  shows "main ps w = (w, [], Inl (ValueError ''chunksize must be an integer >=1''))"
  using assms by (simp add: main_def Let_def read_json_def check_params_def create_engine_def)

theorem main_invalid_chunksize_witness:
  "p_chunksize ((sample_params POSTGRES)\<lparr>p_chunksize := 0\<rparr>) < 1 \<and>
   main ((sample_params POSTGRES)\<lparr>p_chunksize := 0\<rparr>) sample_world =
     (sample_world, [], Inl (ValueError ''chunksize must be an integer >=1''))"
proof -
  let ?ps = "(sample_params POSTGRES)\<lparr>p_chunksize := 0\<rparr>"
  have h1: "p_chunksize ?ps < 1" by simp
  have h2: "check_file_name (p_source ?ps) (p_table_name ?ps) \<noteq> []" by code_simp
  have h3: "p_mode ?ps = POSTGRES \<longrightarrow>
           py_truthy (p_host ?ps) \<and> py_truthy (p_port ?ps) \<and> py_truthy (p_db ?ps) \<and>
           py_truthy (p_user ?ps) \<and> py_truthy (p_password ?ps) \<and>
           engine_url ?ps \<notin> set (w_engine_fail sample_world)"
    by (simp add: sample_params_def sample_world_def)
  have h4: "final_columns (p_table_name ?ps) (check_file_name (p_source ?ps) (p_table_name ?ps)) =
      Inr (get_selected_columns ''reviews'')" by code_simp
  have h5: "get_category_transformation (p_table_name ?ps) (check_file_name (p_source ?ps) (p_table_name ?ps)) =
      Inr []" by code_simp
  from main_invalid_chunksize [OF h1 h2 h3 h4 h5] h1 show ?thesis by blast
qed

text \<open>
  C19. The clamp of negative rating counts only runs inside the loop over the
  rule table: for a product file without a remap rule, a negative count that
  fits in 32 bits, from an \<open>int64\<close> or a \<open>float64\<close> column, reaches the sink
  unchanged.
\<close>

theorem meta_negative_count_kept:
  assumes "c_table c = ''meta''" and "c_rules c = []" and "''rating_number'' \<in> set (c_final c)"
    and "get_col df ''average_rating'' = Inr avs" and "get_col df ''rating_number'' = Inr rvs"
    and "list_all (\<lambda>v. is_null v \<or> is_num v) rvs"
    and "transform_chunk c df = Some f"
    and "VInt k \<in> set rvs \<or> VFloat (of_int k) \<in> set rvs" and "- (2 ^ 31) \<le> k" and "k < 0"
  shows "\<exists>ws. get_col f ''rating_number'' = Inr ws \<and> VI32 (word_of_int k) \<in> set ws \<and>
              sint (word_of_int k :: 32 word) = k"
proof -
  from assms(7) transform_chunk_meta_no_rules [OF assms(1,2), of df]
  have sel: "select (fst (preprocess_meta df)) (c_final c) = Inr f" by (simp split: sum.splits)
  from preprocess_meta_numeric [OF assms(4,5,6)] obtain ws where
    col: "get_col (fst (preprocess_meta df)) ''rating_number'' = Inr ws" and
    cast: "map_exc astype_i32 (map (\<lambda>v. if is_null v then VInt 0 else v) rvs) = Inr ws"
    by blast
  from assms(8) obtain v where v: "v \<in> set rvs" "v = VInt k \<or> v = VFloat (of_int k)" by blast
  then have "v \<in> set (map (\<lambda>v. if is_null v then VInt 0 else v) rvs)" by force
  moreover from assms(9,10) v(2) have "astype_i32 v = Inr (VI32 (word_of_int k))"
    by (intro astype_i32_in_range) simp_all
  ultimately have "VI32 (word_of_int k) \<in> set ws" by (rule map_exc_mem [OF cast])
  moreover from get_col_select [OF sel assms(3)] col have "get_col f ''rating_number'' = Inr ws" by simp
  moreover from assms(9,10) have "sint (word_of_int k :: 32 word) = k"
    by (simp add: sint_word_of_int_32_in_range)
  ultimately show ?thesis by blast
qed

theorem meta_negative_count_kept_witness:
  "transform_chunk (main_cfg ((sample_params POSTGRES)\<lparr>p_source := ''data/meta_All_Beauty.jsonl'',
       p_table_name := ''meta''\<rparr>) ''meta_All_Beauty.jsonl'' (get_selected_columns ''meta'') [])
     sample_meta_chunk =
   Some \<lparr>nrows = 2,
         cols = [(''parent_asin'', [VStr ''B01'', VStr '''']), (''title'', [VStr '''', VStr ''Chess'']),
                 (''main_category'', [VStr ''Books'', VStr ''None'']),
                 (''average_rating'', [VFloat 3, VFloat (9 / 2)]),
                 (''rating_number'', [VI32 (word_of_int (-5)), VI32 0])]\<rparr> \<and>
   (\<exists>ws. get_col \<lparr>nrows = 2,
         cols = [(''parent_asin'', [VStr ''B01'', VStr '''']), (''title'', [VStr '''', VStr ''Chess'']),
                 (''main_category'', [VStr ''Books'', VStr ''None'']),
                 (''average_rating'', [VFloat 3, VFloat (9 / 2)]),
                 (''rating_number'', [VI32 (word_of_int (-5)), VI32 0])]\<rparr> ''rating_number'' = Inr ws \<and>
      VI32 (word_of_int (-5)) \<in> set ws \<and> sint (word_of_int (-5) :: 32 word) = -5)"
proof -
  let ?c = "main_cfg ((sample_params POSTGRES)\<lparr>p_source := ''data/meta_All_Beauty.jsonl'',
       p_table_name := ''meta''\<rparr>) ''meta_All_Beauty.jsonl'' (get_selected_columns ''meta'') []"
  let ?f = "\<lparr>nrows = 2,
         cols = [(''parent_asin'', [VStr ''B01'', VStr '''']), (''title'', [VStr '''', VStr ''Chess'']),
                 (''main_category'', [VStr ''Books'', VStr ''None'']),
                 (''average_rating'', [VFloat 3, VFloat (9 / 2)]),
                 (''rating_number'', [VI32 (word_of_int (-5)), VI32 0])]\<rparr>"
  have h1: "c_table ?c = ''meta''" by (simp add: main_cfg_def)
  have h2: "c_rules ?c = []" by (simp add: main_cfg_def)
  have h3: "''rating_number'' \<in> set (c_final ?c)" by (simp add: main_cfg_def get_selected_columns_def)
  have h4: "get_col sample_meta_chunk ''average_rating'' = Inr [VNull, VFloat (9 / 2)]" by code_simp
  have h5: "get_col sample_meta_chunk ''rating_number'' = Inr [VFloat (-5), VNull]" by code_simp
  have h6: "list_all (\<lambda>v. is_null v \<or> is_num v) [VFloat (-5), VNull]" by simp
  have h7: "transform_chunk ?c sample_meta_chunk = Some ?f" by code_simp
  have h8: "VInt (-5) \<in> set [VFloat (-5), VNull] \<or> VFloat (of_int (-5)) \<in> set [VFloat (-5), VNull]"
    by simp
  have h9: "- (2 ^ 31) \<le> (-5 :: int)" and h10: "(-5 :: int) < 0" by simp_all
  from meta_negative_count_kept [OF h1 h2 h3 h4 h5 h6 h7 h8 h9 h10] h7 show ?thesis by blast
qed

text \<open>
  C20. A PostgreSQL run of \<open>process_jsonl.py\<close> that meets no failure
  completes: with the server up, its URL accepted by \<open>create_engine\<close>, the
  table present with the final columns, no reset, and every chunk
  transformable, \<open>main\<close> returns 0 and the table
  holds its old rows followed by the rows of every chunk, in file order.
\<close>

theorem postgres_main_completes:
  assumes "p_mode ps = POSTGRES" and "check_params POSTGRES ps" and "\<not> reset_requested (p_reset ps)"
    and "check_file_name (p_source ps) (p_table_name ps) = fname" and "fname \<noteq> []"
    and "final_columns (p_table_name ps) fname = Inr final"
    and "get_category_transformation (p_table_name ps) fname = Inr rules"
    and "read_json (p_source ps) (p_chunksize ps) w = Inr chunks"
    and "list_all2 (\<lambda>df f. transform_chunk (main_cfg ps fname final rules) df = Some f) chunks fs"
    and "w_pg_up w" and "map_of (w_pg w) (p_table_name ps) = Some t" and "set final \<subseteq> set (t_cols t)"
    and "engine_url ps \<notin> set (w_engine_fail w)"
  shows "snd (snd (main ps w)) = Inr 0 \<and>
         map_of (w_pg (fst (main ps w))) (p_table_name ps) =
           Some (t\<lparr>t_rows := t_rows t @ concat (map (\<lambda>f. map (table_row (t_cols t)) (frame_rows f)) fs)\<rparr>)"
proof -
  let ?c = "main_cfg ps fname final rules"
  have c: "c_mode ?c = POSTGRES" "c_engine ?c" "\<not> reset_requested (c_reset ?c)" "c_table ?c = p_table_name ps"
    "c_final ?c = final"
    using assms(1,3) by (simp_all add: main_cfg_def)
  from assms(12) c(5) have "list_all (\<lambda>f. set (columns f) \<subseteq> set (t_cols t)) fs"
    by (intro transformed_columns_sub [OF assms(9)]) simp
  from postgres_run_complete [OF c(1,2) disjI2 [OF c(3)] assms(9) this assms(10)] assms(11) c(4)
  obtain l w' where run: "run_loop (chunk_step ?c) 0 [] chunks w = (w', l, Continue [])"
    and tbl: "map_of (w_pg w') (p_table_name ps) =
      Some (t\<lparr>t_rows := t_rows t @ concat (map (\<lambda>f. map (table_row (t_cols t)) (frame_rows f)) fs)\<rparr>)"
    by fastforce
  from assms(1,2,4-8,13) run have "main ps w = (w', l, Inr 0)"
    by (simp add: main_def Let_def create_engine_def)
  with tbl show ?thesis by simp
qed

theorem postgres_main_completes_witness:
  "snd (snd (main (sample_params POSTGRES) sample_world)) = Inr 0 \<and>
   map_of (w_pg (fst (main (sample_params POSTGRES) sample_world))) ''reviews'' =
     Some (\<lparr>t_cols = get_selected_columns ''reviews'', t_rows = []\<rparr>\<lparr>t_rows := [] @
       concat (map (\<lambda>f. map (table_row (get_selected_columns ''reviews'')) (frame_rows f))
         (map (\<lambda>df. the (transform_chunk (sample_cfg POSTGRES) df)) sample_chunks))\<rparr>)"
proof -
  let ?ps = "sample_params POSTGRES"
  let ?fs = "map (\<lambda>df. the (transform_chunk (sample_cfg POSTGRES) df)) sample_chunks"
  have cfg: "main_cfg ?ps ''Software.jsonl'' (get_selected_columns ''reviews'') [] = sample_cfg POSTGRES"
    by (simp add: main_cfg_def sample_params_def sample_cfg_def get_extra_detail_columns_def)
  have h1: "p_mode ?ps = POSTGRES" by (simp add: sample_params_def)
  have h2: "check_params POSTGRES ?ps" by code_simp
  have h3: "\<not> reset_requested (p_reset ?ps)" by code_simp
  have h4: "check_file_name (p_source ?ps) (p_table_name ?ps) = ''Software.jsonl''" by code_simp
  have h5: "''Software.jsonl'' \<noteq> []" by simp
  have h6: "final_columns (p_table_name ?ps) ''Software.jsonl'' = Inr (get_selected_columns ''reviews'')"
    by code_simp
  have h7: "get_category_transformation (p_table_name ?ps) ''Software.jsonl'' = Inr []" by code_simp
  have h8: "read_json (p_source ?ps) (p_chunksize ?ps) sample_world = Inr sample_chunks" by code_simp
  have "list_all2 (\<lambda>df f. transform_chunk (sample_cfg POSTGRES) df = Some f) sample_chunks ?fs"
    by code_simp
  then have h9: "list_all2 (\<lambda>df f. transform_chunk (main_cfg ?ps ''Software.jsonl''
      (get_selected_columns ''reviews'') []) df = Some f) sample_chunks ?fs"
    by (simp only: cfg)
  have h10: "w_pg_up sample_world" by (simp add: sample_world_def)
  have h11: "map_of (w_pg sample_world) (p_table_name ?ps) =
      Some \<lparr>t_cols = get_selected_columns ''reviews'', t_rows = []\<rparr>"
    by (simp add: sample_world_def sample_params_def)
  have h12: "set (get_selected_columns ''reviews'') \<subseteq>
      set (t_cols \<lparr>t_cols = get_selected_columns ''reviews'', t_rows = []\<rparr>)" by simp
  have h13: "engine_url ?ps \<notin> set (w_engine_fail sample_world)" by (simp add: sample_world_def)
  from postgres_main_completes [OF h1 h2 h3 h4 h5 h6 h7 h8 h9 h10 h11 h12 h13]
  show ?thesis by (simp add: sample_params_def)
qed

text \<open>
  C26. A PostgreSQL run of \<open>process_jsonl.py\<close> with \<open>--reset true\<close> over a
  non-empty file whose chunks all transform replaces the table: the old rows
  are gone, the columns are \<open>index\<close> followed by the final columns, and the
  rows are those of every chunk in file order, with NULL in \<open>index\<close>; the
  reset happens once, on the first chunk, and the loop completes.
\<close>

theorem postgres_reset_run:
  assumes mode: "c_mode c = POSTGRES" and eng: "c_engine c" and rs: "reset_requested (c_reset c)"
    and tf: "list_all2 (\<lambda>df f. transform_chunk c df = Some f) dfs fs" and ne: "dfs \<noteq> []"
    and up: "w_pg_up w"
  shows "\<exists>l w'. run_loop (chunk_step c) 0 ex dfs w = (w', l, Continue ex) \<and>
           map_of (w_pg w') (c_table c) =
             Some \<lparr>t_cols = index_label (c_final c) # c_final c,
                   t_rows = concat (map (\<lambda>f. map (table_row (index_label (c_final c) # c_final c)) (frame_rows f)) fs)\<rparr>"
proof -
  from tf ne obtain df dfs' f fs' where dfs: "dfs = df # dfs'" and fs: "fs = f # fs'"
    and tf1: "transform_chunk c df = Some f" and rest: "list_all2 (\<lambda>df f. transform_chunk c df = Some f) dfs' fs'"
    by (cases dfs) (auto simp: list_all2_Cons1)
  let ?t1 = "\<lparr>t_cols = index_label (c_final c) # c_final c, t_rows = map (table_row (index_label (c_final c) # c_final c)) (frame_rows f)\<rparr>"
  from chunk_step_reset_first [OF mode eng rs tf1 up, of ex] obtain l1 w1
    where st: "chunk_step c (Suc 0) df ex w = (w1, l1, Continue ex)" and up1: "w_pg_up w1"
      and t1: "map_of (w_pg w1) (c_table c) = Some ?t1" by blast
  have "list_all (\<lambda>f. set (columns f) \<subseteq> set (t_cols ?t1)) fs'"
    by (intro transformed_columns_sub [OF rest]) auto
  from postgres_run_complete [where i = "Suc 0" and ex = ex, OF mode eng _ rest this up1 t1] obtain l2 w'
    where run: "run_loop (chunk_step c) (Suc 0) ex dfs' w1 = (w', l2, Continue ex)"
      and t': "map_of (w_pg w') (c_table c) =
        Some (?t1\<lparr>t_rows := t_rows ?t1 @ concat (map (\<lambda>f. map (table_row (t_cols ?t1)) (frame_rows f)) fs')\<rparr>)"
    by auto
  from st run have "run_loop (chunk_step c) 0 ex dfs w = (w', l1 @ l2, Continue ex)" by (simp add: dfs)
  with t' fs show ?thesis by auto
qed

theorem postgres_reset_run_witness:
  "c_mode ((sample_cfg POSTGRES)\<lparr>c_reset := Some ''true''\<rparr>) = POSTGRES \<and>
   c_engine ((sample_cfg POSTGRES)\<lparr>c_reset := Some ''true''\<rparr>) \<and>
   reset_requested (c_reset ((sample_cfg POSTGRES)\<lparr>c_reset := Some ''true''\<rparr>)) \<and>
   list_all2 (\<lambda>df f. transform_chunk ((sample_cfg POSTGRES)\<lparr>c_reset := Some ''true''\<rparr>) df = Some f)
     sample_chunks (map (\<lambda>df. the (transform_chunk (sample_cfg POSTGRES) df)) sample_chunks) \<and>
   sample_chunks \<noteq> [] \<and> w_pg_up sample_world \<and>
   (\<exists>l w'. run_loop (chunk_step ((sample_cfg POSTGRES)\<lparr>c_reset := Some ''true''\<rparr>)) 0 [] sample_chunks sample_world =
        (w', l, Continue []) \<and>
      map_of (w_pg w') (c_table ((sample_cfg POSTGRES)\<lparr>c_reset := Some ''true''\<rparr>)) =
        Some \<lparr>t_cols = index_label (c_final ((sample_cfg POSTGRES)\<lparr>c_reset := Some ''true''\<rparr>)) # c_final ((sample_cfg POSTGRES)\<lparr>c_reset := Some ''true''\<rparr>),
              t_rows = concat (map (\<lambda>f. map (table_row (index_label (c_final ((sample_cfg POSTGRES)\<lparr>c_reset := Some ''true''\<rparr>)) # c_final ((sample_cfg POSTGRES)\<lparr>c_reset := Some ''true''\<rparr>)))
                                              (frame_rows f))
                         (map (\<lambda>df. the (transform_chunk (sample_cfg POSTGRES) df)) sample_chunks))\<rparr>)"
proof -
  let ?c = "(sample_cfg POSTGRES)\<lparr>c_reset := Some ''true''\<rparr>"
  have h1: "c_mode ?c = POSTGRES" by (simp add: sample_cfg_def)
  have h2: "c_engine ?c" by (simp add: sample_cfg_def)
  have h3: "reset_requested (c_reset ?c)" by code_simp
  have h4: "list_all2 (\<lambda>df f. transform_chunk ?c df = Some f) sample_chunks
      (map (\<lambda>df. the (transform_chunk (sample_cfg POSTGRES) df)) sample_chunks)" by code_simp
  have h5: "sample_chunks \<noteq> []" by code_simp
  have h6: "w_pg_up sample_world" by (simp add: sample_world_def)
  show ?thesis by (intro conjI h1 h2 h3 h4 h5 h6 postgres_reset_run [OF h1 h2 h3 h4 h5 h6])
qed

lemma transform_chunk_wf:
  assumes "wf_frame df" and "c_table c = ''reviews'' \<longrightarrow> distinct (columns (rename_reviews df))"
    and "distinct (c_final c)" and "transform_chunk c df = Some f"
  shows "wf_frame f \<and> columns f = c_final c \<and> nrows f = nrows df"
proof -
  from assms(4) obtain df1 l1 df2 l2 where
    p: "prepare_chunk (c_table c) df = Inr (df1, l1)" and
    cl: "clean_chunk (c_table c) (c_rules c) (c_extra c) df1 = Inr (df2, l2)" and
    s: "select df2 (c_final c) = Inr f"
    by (auto simp: transform_chunk_def split: sum.splits prod.splits)
  from prepare_chunk_wf [OF assms(1) assms(2) p] have w1: "wf_frame df1" "nrows df1 = nrows df" by simp_all
  from clean_chunk_wf [OF w1(1) cl] have w2: "wf_frame df2" "nrows df2 = nrows df1" by simp_all
  from wf_select [OF w2(1) assms(3) s] select_shape [OF s] w1(2) w2(2) show ?thesis by simp
qed


text \<open>
  C21. In Parquet mode the frame a chunk's export file receives has the
  table's shape: from a well-formed chunk (whose review renaming creates no
  duplicate column), an iteration of the loop body that goes on has written
  \<open>jsonl_name-ii.parquet\<close> with a well-formed frame that has exactly the
  final columns, in their order, and as many rows as the chunk, and has
  appended that name to the export list.
\<close>

theorem parquet_chunk_file_shape:
  assumes "c_mode c = PARQUET" and "wf_frame df"
    and "c_table c = ''reviews'' \<longrightarrow> distinct (columns (rename_reviews df))"
    and "distinct (c_final c)"
    and "chunk_step c i df ex w = (w', l, Continue ex')"
  shows "\<exists>f. map_of (w_files w') (parquet_name (c_source c) i) = Some (FParquet f) \<and>
             wf_frame f \<and> columns f = c_final c \<and> nrows f = nrows df \<and>
             ex' = ex @ [parquet_name (c_source c) i]"
proof -
  from chunk_step_parquet [OF assms(1,5)] obtain f where
    ex': "ex' = ex @ [parquet_name (c_source c) i]" and tf: "transform_chunk c df = Some f"
    and w': "w' = write_file (parquet_name (c_source c) i) (FParquet f) w"
    by auto
  from transform_chunk_wf [OF assms(2,3,4) tf] ex' w' show ?thesis by auto
qed

theorem parquet_chunk_file_shape_witness:
  "c_mode (sample_cfg PARQUET) = PARQUET \<and> wf_frame (hd sample_chunks) \<and>
   c_table (sample_cfg PARQUET) = ''reviews'' \<and> distinct (columns (rename_reviews (hd sample_chunks))) \<and>
   distinct (c_final (sample_cfg PARQUET)) \<and>
   chunk_step (sample_cfg PARQUET) 1 (hd sample_chunks) [] sample_world =
     (fst (chunk_step (sample_cfg PARQUET) 1 (hd sample_chunks) [] sample_world),
      fst (snd (chunk_step (sample_cfg PARQUET) 1 (hd sample_chunks) [] sample_world)),
      Continue [''data/Software.jsonl-01.parquet'']) \<and>
   (\<exists>f. map_of (w_files (fst (chunk_step (sample_cfg PARQUET) 1 (hd sample_chunks) [] sample_world)))
          (parquet_name (c_source (sample_cfg PARQUET)) 1) = Some (FParquet f) \<and>
        wf_frame f \<and> columns f = c_final (sample_cfg PARQUET) \<and> nrows f = nrows (hd sample_chunks) \<and>
        [''data/Software.jsonl-01.parquet''] = [] @ [parquet_name (c_source (sample_cfg PARQUET)) 1])"
proof -
  have h1: "c_mode (sample_cfg PARQUET) = PARQUET" by (simp add: sample_cfg_def)
  have h2: "wf_frame (hd sample_chunks)" by code_simp
  have t: "c_table (sample_cfg PARQUET) = ''reviews''" by (simp add: sample_cfg_def)
  have d: "distinct (columns (rename_reviews (hd sample_chunks)))" by code_simp
  then have h3: "c_table (sample_cfg PARQUET) = ''reviews'' \<longrightarrow> distinct (columns (rename_reviews (hd sample_chunks)))"
    by simp
  have h4: "distinct (c_final (sample_cfg PARQUET))" by code_simp
  have "snd (snd (chunk_step (sample_cfg PARQUET) 1 (hd sample_chunks) [] sample_world)) =
      Continue [''data/Software.jsonl-01.parquet'']" by code_simp
  then have h5: "chunk_step (sample_cfg PARQUET) 1 (hd sample_chunks) [] sample_world =
     (fst (chunk_step (sample_cfg PARQUET) 1 (hd sample_chunks) [] sample_world),
      fst (snd (chunk_step (sample_cfg PARQUET) 1 (hd sample_chunks) [] sample_world)),
      Continue [''data/Software.jsonl-01.parquet''])" by (metis prod.collapse)
  from parquet_chunk_file_shape [OF h1 h2 h3 h4 h5] h1 h2 t d h4 h5 show ?thesis by blast
qed

section \<open>Parquet runs and the chunk size\<close>

lemma transform_chunk_nrows:
  assumes "transform_chunk c df = Some f"
  shows "nrows f = nrows df"
proof -
  from assms obtain df1 l1 df2 l2 where
    p: "prepare_chunk (c_table c) df = Inr (df1, l1)" and
    cl: "clean_chunk (c_table c) (c_rules c) (c_extra c) df1 = Inr (df2, l2)" and
    s: "select df2 (c_final c) = Inr f"
    by (auto simp: transform_chunk_def split: sum.splits prod.splits option.splits)
  have n1: "nrows df1 = nrows df"
  proof (cases "c_table c \<in> set [''meta'', ''books'']")
    case True
    with p have "df1 = fst (preprocess_meta df)" by (auto simp: prepare_chunk_def split: prod.splits)
    with preprocess_meta_shape [of df] show ?thesis by (simp add: same_shape_def)
  next
    case False
    show ?thesis
    proof (cases "c_table c = ''reviews''")
      case True
      with p have ac: "astype_col ''review_date'' astype_sec (rename_reviews df) = Inr df1"
        by (simp add: prepare_chunk_reviews split: sum.splits)
      from astype_col_shape [OF ac] show ?thesis by (simp add: same_shape_def rename_reviews_def)
    next
      case False
      with \<open>c_table c \<notin> set [''meta'', ''books'']\<close> p show ?thesis by (simp add: prepare_chunk_def)
    qed
  qed
  have n2: "nrows df2 = nrows df1"
  proof (cases "c_table c = ''meta''")
    case True
    with cl have "transform_meta df1 (c_rules c) = Inr (df2, l2)" by (simp add: clean_chunk_def)
    from transform_meta_shape [OF this] show ?thesis by (simp add: same_shape_def)
  next
    case False
    with cl show ?thesis by (auto simp: clean_chunk_def split: sum.splits if_splits)
  qed
  from select_shape [OF s] n1 n2 show ?thesis by simp
qed

lemma parquet_run_continue_files:
  assumes "c_mode c = PARQUET" and "run_loop (chunk_step c) i ex dfs w = (w', l, Continue ex')"
  shows "\<forall>j < length dfs. \<exists>f. transform_chunk c (dfs ! j) = Some f \<and>
           map_of (w_files w') (parquet_name (c_source c) (Suc i + j)) = Some (FParquet f)"
  using assms(2)
proof (induction dfs arbitrary: i ex w l)
  case Nil
  then show ?case by simp
next
  case (Cons df dfs)
  from Cons.prems show ?case
  proof (cases rule: run_loop_Cons_E)
    case (cont w1 l1 acc1 l2)
    let ?n = "parquet_name (c_source c)"
    from chunk_step_parquet [OF assms(1) cont(1)] obtain f
      where tf: "transform_chunk c df = Some f" and w1: "w1 = write_file (?n (Suc i)) (FParquet f) w"
      by auto
    have "\<forall>k > Suc i. ?n (Suc i) \<noteq> ?n k" by (simp add: parquet_name_eq_iff)
    from parquet_run_other_files [OF assms(1) cont(2) this] w1
    have first: "map_of (w_files w') (?n (Suc i)) = Some (FParquet f)" by simp
    from Cons.IH [OF cont(2)]
    have rest: "\<forall>j < length dfs. \<exists>f. transform_chunk c (dfs ! j) = Some f \<and>
        map_of (w_files w') (?n (Suc (Suc i) + j)) = Some (FParquet f)" .
    show ?thesis
    proof (intro allI impI)
      fix j assume "j < length (df # dfs)"
      with first tf rest show "\<exists>f. transform_chunk c ((df # dfs) ! j) = Some f \<and>
          map_of (w_files w') (?n (Suc i + j)) = Some (FParquet f)"
        by (cases j) auto
    qed
  next
    case stop
    then show ?thesis by simp
  qed
qed

lemma connect_bigquery_files: "w_files (fst (connect_bigquery t w)) = w_files w"
  by (auto simp: connect_bigquery_def Let_def split: option.splits)

lemma export_data_files: "w_files (fst (export_data_to_bigquery ref fs w)) = w_files w"
  by (induction ref fs w rule: export_data_to_bigquery.induct)
     (auto simp: bq_load_def split: option.splits prod.splits fcontent.splits)

lemma export_data_files_eq: "export_data_to_bigquery ref fs w = (w', r) \<Longrightarrow> w_files w' = w_files w"
  using export_data_files [of ref fs w] by simp

lemma export_parquet_files: "w_files (fst (export_parquet_to_bigquery t fs d w)) = w_files w"
  using connect_bigquery_files [of t w]
  by (auto simp: export_parquet_to_bigquery_def dest: export_data_files_eq
      split: prod.splits sum.splits option.splits)

lemma chunk_step_parquet_return:
  "c_mode c = PARQUET \<Longrightarrow> chunk_step c i df ex w = (w', l, Return k) \<Longrightarrow> k = 1"
  by (auto simp: chunk_step_def pg_sink_def Let_def export_data_to_parquet_def
      split: sum.splits prod.splits if_splits bool.splits)

lemma main_parquet_ok_E:
  assumes "p_mode ps = PARQUET" and "main ps w = (w', l, Inr 0)"
  obtains final rules chunks l1 w1 ex where
    "read_json (p_source ps) (p_chunksize ps) w = Inr chunks"
    "run_loop (chunk_step (main_cfg ps (check_file_name (p_source ps) (p_table_name ps)) final rules))
       0 [] chunks w = (w1, l1, Continue ex)"
    "w' = fst (export_parquet_to_bigquery (p_table_name ps) ex
                 (check_file_name (p_source ps) (p_table_name ps)) w1)"
proof -
  let ?fn = "check_file_name (p_source ps) (p_table_name ps)"
  from assms(2) have ne: "?fn \<noteq> []" "check_params (p_mode ps) ps"
    by (auto simp: main_def Let_def split: if_splits)
  from assms ne obtain final rules chunks where
    fc: "final_columns (p_table_name ps) ?fn = Inr final" and
    gc: "get_category_transformation (p_table_name ps) ?fn = Inr rules" and
    rj: "read_json (p_source ps) (p_chunksize ps) w = Inr chunks"
    by (auto simp: main_def Let_def split: sum.splits)
  obtain w1 l1 r1 where run: "run_loop (chunk_step (main_cfg ps ?fn final rules)) 0 [] chunks w = (w1, l1, r1)"
    by (metis prod.collapse)
  have m: "main ps w = (case r1 of Raise e \<Rightarrow> (w1, l1, Inl e) | Return k \<Rightarrow> (w1, l1, Inr k)
        | Continue ex \<Rightarrow> (case export_parquet_to_bigquery (p_table_name ps) ex ?fn w1 of
                           (w2, Inl e) \<Rightarrow> (w2, l1, Inl e) | (w2, Inr _) \<Rightarrow> (w2, l1, Inr 0)))"
    using assms(1) ne fc gc rj run by (simp add: main_def Let_def split: step_out.splits)
  show ?thesis
  proof (cases r1)
    case (Raise e)
    with m assms(2) show ?thesis by simp
  next
    case (Return k)
    have "c_mode (main_cfg ps ?fn final rules) = PARQUET" using assms(1) by (simp add: main_cfg_def)
    from run Return have "run_loop (chunk_step (main_cfg ps ?fn final rules)) 0 [] chunks w = (w1, l1, Return k)"
      by simp
    then have "k = 1"
      by (rule run_loop_return [where P = "\<lambda>k. k = 1"]) (rule chunk_step_parquet_return [OF \<open>c_mode _ = PARQUET\<close>])
    with m assms(2) Return show ?thesis by simp
  next
    case (Continue ex)
    with m assms(2) have "w' = fst (export_parquet_to_bigquery (p_table_name ps) ex ?fn w1)"
      by (auto split: prod.splits sum.splits)
    with rj run Continue show ?thesis by (intro that) auto
  qed
qed

text \<open>
  C29. The chunk size given on the command line bounds the Parquet exports:
  a Parquet run of \<open>process_jsonl.py\<close> over a file of \<open>n\<close> records that
  returns 0 has written \<open>\<lceil>n / c\<rceil>\<close> export files \<open>jsonl_name-01.parquet\<close>,
  \<open>jsonl_name-02.parquet\<close>, \<dots> for \<open>c = --chunksize\<close>, each with between 1 and
  \<open>c\<close> rows, and their row counts add up to \<open>n\<close>.
\<close>

theorem parquet_run_chunk_files:
  assumes "p_mode ps = PARQUET" and "map_of (w_files w) (p_source ps) = Some (FJsonl rs)"
    and "main ps w = (w', l, Inr 0)"
  shows "\<exists>fs. length fs = (length rs + nat (p_chunksize ps) - 1) div nat (p_chunksize ps) \<and>
           (\<forall>j < length fs. map_of (w_files w') (parquet_name (p_source ps) (Suc j)) = Some (FParquet (fs ! j))) \<and>
           list_all (\<lambda>f. 0 < nrows f \<and> nrows f \<le> nat (p_chunksize ps)) fs \<and>
           sum_list (map nrows fs) = length rs"
proof -
  let ?fn = "check_file_name (p_source ps) (p_table_name ps)"
  from assms(1,3) obtain final rules chunks l1 w1 ex where
    rj: "read_json (p_source ps) (p_chunksize ps) w = Inr chunks" and
    run: "run_loop (chunk_step (main_cfg ps ?fn final rules)) 0 [] chunks w = (w1, l1, Continue ex)" and
    w': "w' = fst (export_parquet_to_bigquery (p_table_name ps) ex ?fn w1)"
    by (rule main_parquet_ok_E)
  let ?c = "main_cfg ps ?fn final rules"
  let ?n = "nat (p_chunksize ps)"
  from rj assms(2) have rc: "read_json_chunks (p_chunksize ps) rs = Inr chunks"
    by (simp add: read_json_def split: if_splits)
  then obtain pos: "0 < ?n" and ch: "chunks = map frame_of_records (chunk_split ?n rs)"
    by (rule read_json_chunks_Inr_E)
  have mode: "c_mode ?c = PARQUET" and src: "c_source ?c = p_source ps"
    using assms(1) by (simp_all add: main_cfg_def)
  from parquet_run_continue_files [OF mode run] w' export_parquet_files src
  have files: "\<forall>j < length chunks. \<exists>f. transform_chunk ?c (chunks ! j) = Some f \<and>
      map_of (w_files w') (parquet_name (p_source ps) (Suc j)) = Some (FParquet f)"
    by simp
  define fs where "fs = map (\<lambda>df. the (transform_chunk ?c df)) chunks"
  have len: "length fs = length chunks" by (simp add: fs_def)
  have at: "\<forall>j < length fs. map_of (w_files w') (parquet_name (p_source ps) (Suc j)) = Some (FParquet (fs ! j)) \<and>
      nrows (fs ! j) = nrows (chunks ! j)"
  proof (intro allI impI)
    fix j assume "j < length fs"
    with files len obtain f where "transform_chunk ?c (chunks ! j) = Some f"
        "map_of (w_files w') (parquet_name (p_source ps) (Suc j)) = Some (FParquet f)" by auto
    with \<open>j < length fs\<close> len transform_chunk_nrows show
      "map_of (w_files w') (parquet_name (p_source ps) (Suc j)) = Some (FParquet (fs ! j)) \<and>
       nrows (fs ! j) = nrows (chunks ! j)"
      by (simp add: fs_def)
  qed
  have rows: "map nrows fs = map length (chunk_split ?n rs)"
    using at len by (simp add: list_eq_iff_nth_eq ch)
  have "list_all (\<lambda>f. 0 < nrows f \<and> nrows f \<le> ?n) fs"
    unfolding list_all_length
  proof (intro allI impI)
    fix j assume j: "j < length fs"
    then have "nrows (fs ! j) = length (chunk_split ?n rs ! j)" using rows by (metis nth_map length_map)
    moreover have "chunk_split ?n rs ! j \<in> set (chunk_split ?n rs)" using j rows by (metis length_map nth_mem)
    ultimately show "0 < nrows (fs ! j) \<and> nrows (fs ! j) \<le> ?n" using chunk_split_chunks by fastforce
  qed
  moreover have "sum_list (map nrows fs) = length rs"
    using rows chunk_split_concat [OF pos, of rs] by (metis length_concat)
  moreover have "length fs = (length rs + ?n - 1) div ?n"
    using len length_chunk_split [OF pos, of rs] ch by simp
  ultimately show ?thesis using at by blast
qed

theorem parquet_run_chunk_files_witness:
  "p_mode (sample_params PARQUET) = PARQUET \<and>
   map_of (w_files sample_world) (p_source (sample_params PARQUET)) = Some (FJsonl sample_review_lines) \<and>
   main (sample_params PARQUET) sample_world =
     (fst (main (sample_params PARQUET) sample_world), fst (snd (main (sample_params PARQUET) sample_world)),
      Inr 0) \<and>
   (\<exists>fs. length fs = (length sample_review_lines + nat (p_chunksize (sample_params PARQUET)) - 1)
                       div nat (p_chunksize (sample_params PARQUET)) \<and>
      (\<forall>j < length fs. map_of (w_files (fst (main (sample_params PARQUET) sample_world)))
          (parquet_name (p_source (sample_params PARQUET)) (Suc j)) = Some (FParquet (fs ! j))) \<and>
      list_all (\<lambda>f. 0 < nrows f \<and> nrows f \<le> nat (p_chunksize (sample_params PARQUET))) fs \<and>
      sum_list (map nrows fs) = length sample_review_lines)"
proof -
  have h1: "p_mode (sample_params PARQUET) = PARQUET" by (simp add: sample_params_def)
  have h2: "map_of (w_files sample_world) (p_source (sample_params PARQUET)) = Some (FJsonl sample_review_lines)"
    by (simp add: sample_world_def sample_params_def)
  have "snd (snd (main (sample_params PARQUET) sample_world)) = Inr 0" by code_simp
  then have h3: "main (sample_params PARQUET) sample_world =
     (fst (main (sample_params PARQUET) sample_world), fst (snd (main (sample_params PARQUET) sample_world)),
      Inr 0)" by (metis prod.collapse)
  from parquet_run_chunk_files [OF h1 h2 h3] h1 h2 h3 show ?thesis by blast
qed

end
